theory Spec2Isabelle
  imports Main "HOL-Library.Sublist"
begin

section \<open>Strings of code points\<close>

text \<open>
  The program is Python: a \<open>str\<close> is a sequence of Unicode code points, \<open>len\<close> counts code
  points and \<open>w in t\<close> is the substring test on code points. A string is therefore modelled as
  the list of its code points. ASCII text is written through \<open>asc\<close>; Chinese literals of the
  source are written as their code points, with the code points named in the comment.
\<close>

type_synonym ustr = "nat list"

definition asc :: "string \<Rightarrow> ustr" where
  "asc s = map of_char s"

fun starts_with :: "'a list \<Rightarrow> 'a list \<Rightarrow> bool" where
  "starts_with s [] = True"
| "starts_with [] (p # ps) = False"
| "starts_with (c # cs) (p # ps) = (c = p \<and> starts_with cs ps)"

text \<open>\<open>py_in w t\<close> is Python's \<open>w in t\<close> on strings; the empty string is in every string.\<close>

fun py_in :: "'a list \<Rightarrow> 'a list \<Rightarrow> bool" where
  "py_in w [] = (w = [])"
| "py_in w (c # cs) = (starts_with (c # cs) w \<or> py_in w cs)"

lemma starts_with_prefix: "starts_with s p \<longleftrightarrow> prefix p s"
  by (induction s p rule: starts_with.induct) auto

lemma py_in_sublist: "py_in w t \<longleftrightarrow> sublist w t"
proof (induction t)
  case Nil
  show ?case by simp
next
  case (Cons c cs)
  show ?case
    using Cons.IH by (simp add: starts_with_prefix sublist_Cons_right)
qed

lemma py_in_iff: "py_in w t \<longleftrightarrow> (\<exists>pre suf. t = pre @ w @ suf)"
  by (simp add: py_in_sublist sublist_def)



section \<open>News sentiment label (tools/crawler.py)\<close>

text \<open>The three labels returned by \<open>_simple_cn_sentiment\<close>:
  U+6B63 U+9762 (positive), U+8D1F U+9762 (negative), U+4E2D U+6027 (neutral).\<close>

definition label_positive :: ustr where
  "label_positive = [27491, 38754]"

definition label_negative :: ustr where
  "label_negative = [36127, 38754]"

definition label_neutral :: ustr where
  "label_neutral = [20013, 24615]"

text \<open>
  \<open>_simple_cn_sentiment(text)\<close>. The two word lists are read from the news configuration
  (\<open>cfg.get("pos_words", [])\<close>, \<open>cfg.get("neg_words", [])\<close>) and are parameters here.
  \<open>text or ""\<close> turns a missing text into the empty string.
\<close>

definition simple_cn_sentiment :: "ustr list \<Rightarrow> ustr list \<Rightarrow> ustr option \<Rightarrow> ustr" where
  "simple_cn_sentiment pos_words neg_words text =
     (let t = (case text of None \<Rightarrow> [] | Some s \<Rightarrow> s);
          pos = list_ex (\<lambda>w. py_in w t) pos_words;
          neg = list_ex (\<lambda>w. py_in w t) neg_words
      in if pos \<and> \<not> neg then label_positive
         else if neg \<and> \<not> pos then label_negative
         else label_neutral)"

text \<open>The caller labels an item from \<open>f"{title}\n{snippet}"\<close> (code point 10 is the newline).\<close>

definition item_base_text :: "ustr \<Rightarrow> ustr \<Rightarrow> ustr" where
  "item_base_text title snippet = title @ [10] @ snippet"

definition item_sentiment :: "ustr list \<Rightarrow> ustr list \<Rightarrow> ustr \<Rightarrow> ustr \<Rightarrow> ustr" where
  "item_sentiment pos_words neg_words title snippet =
     simple_cn_sentiment pos_words neg_words (Some (item_base_text title snippet))"

text \<open>The word lists of \<open>DEFAULT_NEWS_CFG\<close>, in the order of the source.\<close>

definition DEFAULT_pos_words :: "ustr list" where
  "DEFAULT_pos_words =
    [[22686, 25345], [22238, 36141], [36229, 39044, 26399], [19978, 35843],
     [21033, 22909], [31614, 32422], [20013, 26631], [33719, 25209],
     [31361, 30772], [22686, 38271], [21019, 26032, 39640], [28072, 20572],
     [25552, 20215], [30408, 21033, 25913, 21892], [20135, 33021, 25193, 24352],
     [25919, 31574, 25903, 25345], [35746, 21333, 20805, 36275]]"

definition DEFAULT_neg_words :: "ustr list" where
  "DEFAULT_neg_words =
    [[20943, 25345], [38480, 21806, 35299, 31105], [19979, 35843], [21033, 31354],
     [20111, 25439], [36829, 35268], [38382, 35810, 20989], [22788, 32602],
     [34987, 35843, 26597], [19979, 28369], [29190, 38647], [20572, 29260],
     [35785, 35772], [36164, 20135, 20943, 20540], [24310, 26399],
     [20135, 32447, 20572, 24037], [19994, 32489, 39044, 20111]]"

subsection \<open>The label as the specification words it\<close>

text \<open>
  The specification's reading: count the positive words and the negative words that hit the
  text and take the sign of the difference.
\<close>

definition hit_count :: "ustr list \<Rightarrow> ustr \<Rightarrow> nat" where
  "hit_count words t = length (filter (\<lambda>w. py_in w t) words)"

definition sign_label :: "int \<Rightarrow> ustr" where
  "sign_label d = (if 0 < d then label_positive else if d < 0 then label_negative else label_neutral)"

definition spec_sentiment :: "ustr list \<Rightarrow> ustr list \<Rightarrow> ustr \<Rightarrow> ustr \<Rightarrow> ustr" where
  "spec_sentiment pos_words neg_words title snippet =
     (let t = item_base_text title snippet
      in sign_label (int (hit_count pos_words t) - int (hit_count neg_words t)))"

text \<open>A headline with two positive words (U+5229 U+597D, U+589E U+957F) and one negative
  word (U+4E0B U+8C03): U+5229 U+597D U+589E U+957F U+FF0C U+4F46 U+8BC4 U+7EA7 U+4E0B U+8C03.\<close>

definition mixed_headline :: ustr where
  "mixed_headline = [21033, 22909, 22686, 38271, 65292, 20294, 35780, 32423, 19979, 35843]"

lemma list_ex_hit_count: "list_ex (\<lambda>w. py_in w t) ws \<longleftrightarrow> 0 < hit_count ws t"
  by (induction ws) (auto simp: hit_count_def)

lemma labels_distinct:
  "label_positive \<noteq> label_negative" "label_positive \<noteq> label_neutral"
  "label_negative \<noteq> label_neutral"
  by (simp_all add: label_positive_def label_negative_def label_neutral_def)

text \<open>
  C9 (as the code has it). The label is decided by presence, not by counts: it is the sign of
  the difference of the hit counts whenever at most one of the two word lists hits the text,
  and it is neutral whenever both lists hit, whatever the counts are.
\<close>

theorem sentiment_presence_based:
  "item_sentiment pos_words neg_words title snippet =
     (if 0 < hit_count pos_words (item_base_text title snippet)
         \<and> 0 < hit_count neg_words (item_base_text title snippet)
      then label_neutral
      else spec_sentiment pos_words neg_words title snippet)"
  by (auto simp: item_sentiment_def simple_cn_sentiment_def spec_sentiment_def sign_label_def
      list_ex_hit_count Let_def)

theorem sentiment_presence_based_witness:
  "item_sentiment DEFAULT_pos_words DEFAULT_neg_words mixed_headline [] = label_neutral"
proof -
  have p: "0 < hit_count DEFAULT_pos_words (item_base_text mixed_headline [])"
    by (simp add: hit_count_def DEFAULT_pos_words_def item_base_text_def mixed_headline_def)
  have n: "0 < hit_count DEFAULT_neg_words (item_base_text mixed_headline [])"
    by (simp add: hit_count_def DEFAULT_neg_words_def item_base_text_def mixed_headline_def)
  show ?thesis
    using sentiment_presence_based [of DEFAULT_pos_words DEFAULT_neg_words mixed_headline "[]"] p n
    by simp
qed

text \<open>
  C9 (as stated) fails: on the headline above the positive words outnumber the negative ones
  (two hits against one), so the sign of the difference is positive, while the code answers
  neutral.
\<close>

theorem sentiment_sign_counterexample:
  "hit_count DEFAULT_pos_words (item_base_text mixed_headline []) = 2
   \<and> hit_count DEFAULT_neg_words (item_base_text mixed_headline []) = 1
   \<and> spec_sentiment DEFAULT_pos_words DEFAULT_neg_words mixed_headline [] = label_positive
   \<and> item_sentiment DEFAULT_pos_words DEFAULT_neg_words mixed_headline [] = label_neutral
   \<and> item_sentiment DEFAULT_pos_words DEFAULT_neg_words mixed_headline []
       \<noteq> spec_sentiment DEFAULT_pos_words DEFAULT_neg_words mixed_headline []"
proof -
  have p: "hit_count DEFAULT_pos_words (item_base_text mixed_headline []) = 2"
    by (simp add: hit_count_def DEFAULT_pos_words_def item_base_text_def mixed_headline_def)
  have n: "hit_count DEFAULT_neg_words (item_base_text mixed_headline []) = 1"
    by (simp add: hit_count_def DEFAULT_neg_words_def item_base_text_def mixed_headline_def)
  have s: "spec_sentiment DEFAULT_pos_words DEFAULT_neg_words mixed_headline [] = label_positive"
    by (simp add: spec_sentiment_def sign_label_def p n Let_def)
  have c: "item_sentiment DEFAULT_pos_words DEFAULT_neg_words mixed_headline [] = label_neutral"
    by (simp add: item_sentiment_def simple_cn_sentiment_def list_ex_hit_count p n Let_def)
  show ?thesis
    using p n s c labels_distinct by simp
qed

section \<open>Batching news items by characters (core/data\_processor.py)\<close>

text \<open>\<open>sep.join(xs)\<close> of Python.\<close>

fun py_join :: "'a list \<Rightarrow> 'a list list \<Rightarrow> 'a list" where
  "py_join sep [] = []"
| "py_join sep [x] = x"
| "py_join sep (x # y # ys) = x @ sep @ py_join sep (y # ys)"

definition blank_line :: ustr where
  "blank_line = [10, 10]"

text \<open>
  \<open>_batch_strings_by_chars\<close>: the loop state is \<open>(batches, buf, cur)\<close>; one step handles one
  part. The branch on \<open>min_pack_chars\<close> of the source is a \<open>pass\<close>, so the parameter has no
  effect; it is kept as an argument.
\<close>

fun batch_step :: "int \<Rightarrow> ustr list \<times> ustr list \<times> nat \<Rightarrow> ustr \<Rightarrow> ustr list \<times> ustr list \<times> nat" where
  "batch_step max_chars (batches, buf, cur) p =
     (if buf = [] then (batches, [p], length p)
      else if int (cur + 2 + length p) \<le> max_chars then (batches, buf @ [p], cur + 2 + length p)
      else (batches @ [py_join blank_line buf], [p], length p))"

definition batch_strings_by_chars :: "ustr list \<Rightarrow> int \<Rightarrow> int \<Rightarrow> ustr list" where
  "batch_strings_by_chars parts max_chars min_pack_chars =
     (case foldl (batch_step max_chars) ([], [], 0) parts of
        (batches, buf, cur) \<Rightarrow> if buf \<noteq> [] then batches @ [py_join blank_line buf] else batches)"

text \<open>
  \<open>_cjk_ratio(sample) >= 0.2\<close>: the share of code points in U+4E00..U+9FFF. The quotient
  is compared exactly (\<open>5 * cjk \<ge> total\<close>); the empty sample has ratio 0.
\<close>

definition is_cjk :: "nat \<Rightarrow> bool" where
  "is_cjk c \<longleftrightarrow> 19968 \<le> c \<and> c \<le> 40959"

definition cjk_heavy :: "ustr \<Rightarrow> bool" where
  "cjk_heavy text \<longleftrightarrow> text \<noteq> [] \<and> length text \<le> 5 * length (filter is_cjk text)"

text \<open>
  \<open>_calc_batch_char_cap\<close>. Two steps of the source are floating-point products truncated by
  \<open>int(...)\<close>: \<open>int(model_max_tokens * input_ratio)\<close> and
  \<open>int(input_token_budget * chars_per_token * 0.95)\<close>. They are parameters of the model
  (\<open>scale_tokens\<close>, with the ratio fixed, and \<open>scale_chars\<close>, whose flag says whether the
  sample is CJK-heavy, that is whether \<open>chars_per_token\<close> is 1.0 or 3.2); everything after
  them is integer arithmetic and is modelled as written.
\<close>

record float_ops =
  scale_tokens :: "int \<Rightarrow> int"
  scale_chars :: "int \<Rightarrow> bool \<Rightarrow> int"

definition calc_batch_char_cap :: "float_ops \<Rightarrow> ustr list \<Rightarrow> int \<Rightarrow> int \<Rightarrow> int \<Rightarrow> int" where
  "calc_batch_char_cap fo sample_parts model_max_tokens prompt_tokens output_tokens =
     (let sample = (if sample_parts = [] then [] else py_join [10] (take 20 sample_parts));
          heavy = cjk_heavy sample;
          input_token_budget = scale_tokens fo model_max_tokens - prompt_tokens - output_tokens;
          input_token_budget = max input_token_budget 8000;
          cap = scale_chars fo input_token_budget heavy;
          cap = min cap 38000
      in max cap 4000)"

text \<open>
  The batches of \<open>analyze_news_batched\<close> when \<open>max_chars\<close> is not given (the news tool passes
  \<open>max_chars=None, min_pack_chars=600, model_max_tokens=65000\<close>): the cap is computed from
  the parts with the default reserves 1200 and 1500.
\<close>

definition news_batches :: "float_ops \<Rightarrow> ustr list \<Rightarrow> int \<Rightarrow> int \<Rightarrow> ustr list" where
  "news_batches fo parts model_max_tokens min_pack_chars =
     batch_strings_by_chars parts (calc_batch_char_cap fo parts model_max_tokens 1200 1500) min_pack_chars"

lemma calc_batch_char_cap_bounds:
  "4000 \<le> calc_batch_char_cap fo ps m pt ot \<and> calc_batch_char_cap fo ps m pt ot \<le> 38000"
  by (simp add: calc_batch_char_cap_def Let_def)

lemma py_join_snoc:
  "buf \<noteq> [] \<Longrightarrow> py_join sep (buf @ [p]) = py_join sep buf @ sep @ p"
  by (induction sep buf rule: py_join.induct) auto

text \<open>The loop invariant: \<open>cur\<close> is the length of the joined buffer, the buffer fits the cap
  unless it holds a single part, and so does every finished batch.\<close>

definition batch_inv :: "int \<Rightarrow> ustr set \<Rightarrow> ustr list \<times> ustr list \<times> nat \<Rightarrow> bool" where
  "batch_inv max_chars S st =
     (case st of (batches, buf, cur) \<Rightarrow>
        (buf \<noteq> [] \<longrightarrow> cur = length (py_join blank_line buf))
        \<and> (buf = [] \<or> (\<exists>p \<in> S. buf = [p]) \<or> int (length (py_join blank_line buf)) \<le> max_chars)
        \<and> (\<forall>b \<in> set batches. b \<in> S \<or> int (length b) \<le> max_chars))"

lemma batch_step_inv:
  assumes "batch_inv mc S st" and "p \<in> S"
  shows "batch_inv mc S (batch_step mc st p)"
proof -
  obtain batches buf cur where st: "st = (batches, buf, cur)"
    by (cases st) auto
  show ?thesis
  proof (cases "buf = []")
    case True
    with assms st show ?thesis by (simp add: batch_inv_def)
  next
    case False
    with assms st have cur: "cur = length (py_join blank_line buf)"
      by (simp add: batch_inv_def)
    show ?thesis
    proof (cases "int (cur + 2 + length p) \<le> mc")
      case True
      have "length (py_join blank_line (buf @ [p])) = cur + 2 + length p"
        using False cur by (simp add: py_join_snoc blank_line_def)
      with True False assms st show ?thesis
        by (simp add: batch_inv_def)
    next
      case no_fit: False
      from assms st False have "py_join blank_line buf \<in> S \<or> int (length (py_join blank_line buf)) \<le> mc"
        by (auto simp: batch_inv_def)
      with no_fit False assms st show ?thesis
        by (auto simp: batch_inv_def)
    qed
  qed
qed

lemma batch_foldl_inv:
  "batch_inv mc S st \<Longrightarrow> set ps \<subseteq> S \<Longrightarrow> batch_inv mc S (foldl (batch_step mc) st ps)"
proof (induction ps arbitrary: st)
  case Nil
  then show ?case by simp
next
  case (Cons p ps)
  from Cons.prems have "batch_inv mc S (batch_step mc st p)"
    by (intro batch_step_inv) auto
  with Cons show ?case by simp
qed

text \<open>What the packing guarantees: a batch longer than the cap is a single input part.\<close>

lemma batch_fits_or_is_single_part:
  assumes "b \<in> set (batch_strings_by_chars parts max_chars min_pack_chars)"
  shows "b \<in> set parts \<or> int (length b) \<le> max_chars"
proof -
  have "batch_inv max_chars (set parts) ([], [], 0)"
    by (simp add: batch_inv_def)
  then have inv: "batch_inv max_chars (set parts) (foldl (batch_step max_chars) ([], [], 0) parts)"
    by (rule batch_foldl_inv) simp
  obtain batches buf cur where f: "foldl (batch_step max_chars) ([], [], 0) parts = (batches, buf, cur)"
    by (cases "foldl (batch_step max_chars) ([], [], 0) parts") auto
  from inv f assms show ?thesis
    by (auto simp: batch_inv_def batch_strings_by_chars_def split: if_splits)
qed

text \<open>A corpus of one item of 38001 characters (the letter \<open>a\<close>, code point 97).\<close>

definition long_item :: ustr where
  "long_item = replicate 38001 97"

text \<open>
  C4 at the failing input. The cap never exceeds 38000, and the corpus whose only item has
  38001 characters comes back as one batch of 38001 characters: the item is never cut, so
  this batch is longer than the cap.
\<close>

theorem oversize_item_exceeds_cap:
  "news_batches fo [long_item] 65000 600 = [long_item]
   \<and> calc_batch_char_cap fo [long_item] 65000 1200 1500 \<le> 38000
   \<and> length long_item = 38001
   \<and> calc_batch_char_cap fo [long_item] 65000 1200 1500 < int (length long_item)"
proof -
  have b: "news_batches fo [long_item] 65000 600 = [long_item]"
    by (simp add: news_batches_def batch_strings_by_chars_def)
  have c: "calc_batch_char_cap fo [long_item] 65000 1200 1500 \<le> 38000"
    using calc_batch_char_cap_bounds by blast
  have l: "length long_item = 38001"
    by (simp add: long_item_def)
  from b c l show ?thesis by simp
qed

section \<open>JSON values and the analyst-report parser (tools/parsers.py)\<close>

text \<open>
  A decoded JSON document, as \<open>json.loads\<close> returns it. A \<open>dict\<close> is an association list
  in insertion order with distinct keys; a float is kept as mantissa and decimal exponent.
\<close>

datatype json =
    JNull
  | JBool bool
  | JInt int
  | JFloat int int
  | JStr ustr
  | JArr "json list"
  | JObj "(ustr \<times> json) list"

text \<open>Python's truth value of a decoded document (\<open>if x:\<close>, \<open>x or y\<close>).\<close>

fun py_truthy :: "json \<Rightarrow> bool" where
  "py_truthy JNull = False"
| "py_truthy (JBool b) = b"
| "py_truthy (JInt n) = (n \<noteq> 0)"
| "py_truthy (JFloat m e) = (m \<noteq> 0)"
| "py_truthy (JStr s) = (s \<noteq> [])"
| "py_truthy (JArr xs) = (xs \<noteq> [])"
| "py_truthy (JObj kvs) = (kvs \<noteq> [])"

text \<open>\<open>d.get(k)\<close> on a dict: \<open>None\<close> of Python is \<open>None\<close> here.\<close>

definition dict_get :: "(ustr \<times> json) list \<Rightarrow> ustr \<Rightarrow> json option" where
  "dict_get kvs k = map_of kvs k"

text \<open>\<open>d[k] = v\<close>: an existing key keeps its place, a new key goes last.\<close>

fun dict_set :: "(ustr \<times> json) list \<Rightarrow> ustr \<Rightarrow> json \<Rightarrow> (ustr \<times> json) list" where
  "dict_set [] k v = [(k, v)]"
| "dict_set ((k', v') # kvs) k v = (if k' = k then (k, v) # kvs else (k', v') # dict_set kvs k v)"

text \<open>
  \<open>str.isspace\<close>: the code points that \<open>str.strip()\<close> removes from both ends.
\<close>

definition py_isspace :: "nat \<Rightarrow> bool" where
  "py_isspace c \<longleftrightarrow>
     (9 \<le> c \<and> c \<le> 13) \<or> (28 \<le> c \<and> c \<le> 32) \<or> c = 133 \<or> c = 160 \<or> c = 5760
     \<or> (8192 \<le> c \<and> c \<le> 8202) \<or> c = 8232 \<or> c = 8233 \<or> c = 8239 \<or> c = 8287 \<or> c = 12288"

definition py_strip :: "ustr \<Rightarrow> ustr" where
  "py_strip s = rev (dropWhile py_isspace (rev (dropWhile py_isspace s)))"

text \<open>\<open>s.find(w)\<close> and \<open>s.rfind(w)\<close>: the first and the last index at which \<open>w\<close> starts,
  \<open>-1\<close> when there is none.\<close>

fun py_find :: "'a list \<Rightarrow> 'a list \<Rightarrow> int" where
  "py_find [] w = (if w = [] then 0 else -1)"
| "py_find (c # cs) w =
     (if starts_with (c # cs) w then 0
      else (let i = py_find cs w in if i < 0 then -1 else i + 1))"

fun py_rfind :: "'a list \<Rightarrow> 'a list \<Rightarrow> int" where
  "py_rfind [] w = (if w = [] then 0 else -1)"
| "py_rfind (c # cs) w =
     (let i = py_rfind cs w
      in if 0 \<le> i then i + 1 else if starts_with (c # cs) w then 0 else -1)"

text \<open>\<open>s[a:b]\<close> and \<open>s[a:]\<close> with Python's treatment of negative and overlong indices.\<close>

definition clamp_index :: "nat \<Rightarrow> int \<Rightarrow> nat" where
  "clamp_index n i = (if i < 0 then nat (max 0 (int n + i)) else min n (nat i))"

definition py_slice :: "'a list \<Rightarrow> int \<Rightarrow> int \<Rightarrow> 'a list" where
  "py_slice s a b =
     (let lo = clamp_index (length s) a; hi = clamp_index (length s) b
      in take (hi - lo) (drop lo s))"

definition py_slice_from :: "'a list \<Rightarrow> int \<Rightarrow> 'a list" where
  "py_slice_from s a = drop (clamp_index (length s) a) s"

text \<open>
  \<open>json.loads\<close> and \<open>json.dumps\<close> belong to the standard library and are parameters.
  \<open>loads\<close> returns a document, or \<open>None\<close> for its \<open>JSONDecodeError\<close> (the text is not
  valid JSON); other exceptions of the decoder (a \<open>RecursionError\<close> on pathological nesting)
  are not modelled. The message of the \<open>TypeError\<close> that Python raises on
  \<open>field not in x\<close> or \<open>x[field] = ...\<close> for a document that is not a dict is a parameter as
  well.
\<close>

record json_lib =
  loads :: "ustr \<Rightarrow> json option"
  dumps :: "json \<Rightarrow> ustr"
  type_error_text :: "json \<Rightarrow> ustr"

definition fence_json :: ustr where
  "fence_json = [96, 96, 96, 106, 115, 111, 110]"

definition fence :: ustr where
  "fence = [96, 96, 96]"

text \<open>The text handed to \<open>json.loads\<close>: the stripped content, or what stands between the
  first \<open>```json\<close> and the last \<open>```\<close>.\<close>

definition extract_json_str :: "ustr \<Rightarrow> ustr" where
  "extract_json_str content =
     (let cleaned_content = py_strip content
      in if py_in fence_json cleaned_content then
           (let start_idx = py_find cleaned_content fence_json + 7;
                end_idx = py_rfind cleaned_content fence
            in if end_idx > start_idx then py_strip (py_slice cleaned_content start_idx end_idx)
               else py_strip (py_slice_from cleaned_content start_idx))
         else cleaned_content)"

text \<open>Field names and texts of the report envelope. The Chinese texts are
  U+5206 U+6790 U+5931 U+8D25 (analysis failed), U+4E2D U+6027 (neutral),
  U+6570 U+636E U+89E3 U+6790 U+5931 U+8D25 (data parsing failed),
  U+89E3 U+6790 U+5931 U+8D25 followed by colon and space (parsing failed: ),
  U+7CFB U+7EDF U+9519 U+8BEF (system error), and the latter followed by colon and space.\<close>

definition k_analyst_name :: ustr where
  "k_analyst_name = asc ''analyst_name''"

definition k_viewpoint :: ustr where
  "k_viewpoint = asc ''viewpoint''"

definition k_reason :: ustr where
  "k_reason = asc ''reason''"

definition k_scores :: ustr where
  "k_scores = asc ''scores''"

definition k_detailed_analysis :: ustr where
  "k_detailed_analysis = asc ''detailed_analysis''"

definition txt_analysis_failed :: ustr where
  "txt_analysis_failed = [20998, 26512, 22833, 36133]"

definition txt_data_parse_failed :: ustr where
  "txt_data_parse_failed = [25968, 25454, 35299, 26512, 22833, 36133]"

definition txt_parse_failed_colon :: ustr where
  "txt_parse_failed_colon = [35299, 26512, 22833, 36133, 58]"

definition txt_system_error :: ustr where
  "txt_system_error = [31995, 32479, 38169, 35823]"

definition required_fields :: "ustr list" where
  "required_fields = [k_analyst_name, k_viewpoint, k_reason, k_scores, k_detailed_analysis]"

text \<open>The report returned on \<open>JSONDecodeError\<close>:
  \<open>detailed_analysis = f"<parsing failed>: {content[:200]}..."\<close>.\<close>

definition parse_failure_report :: "ustr \<Rightarrow> json" where
  "parse_failure_report content =
     JObj [(k_analyst_name, JStr txt_analysis_failed),
           (k_viewpoint, JStr label_neutral),
           (k_reason, JStr txt_data_parse_failed),
           (k_scores, JObj []),
           (k_detailed_analysis, JStr (txt_parse_failed_colon @ asc '' '' @ take 200 content @ asc ''...''))]"

text \<open>The report returned on any other exception: \<open>detailed_analysis = f"<system error>: {str(e)}"\<close>.\<close>

definition system_error_report :: "ustr \<Rightarrow> json" where
  "system_error_report msg =
     JObj [(k_analyst_name, JStr txt_analysis_failed),
           (k_viewpoint, JStr label_neutral),
           (k_reason, JStr txt_system_error),
           (k_scores, JObj []),
           (k_detailed_analysis, JStr (txt_system_error @ asc '': '' @ msg))]"

text \<open>
  The loop over \<open>required_fields\<close>. On a dict a missing field is added with its default. On a
  list or a string \<open>field not in report_data\<close> is the membership or substring test, and the
  assignment that follows a missing field raises \<open>TypeError\<close>; on any other document the
  test itself raises. \<open>None\<close> is the raise.
\<close>

fun fill_required :: "ustr list \<Rightarrow> json \<Rightarrow> json option" where
  "fill_required [] doc = Some doc"
| "fill_required (f # fs) (JObj kvs) =
     (if f \<in> fst ` set kvs then fill_required fs (JObj kvs)
      else fill_required fs (JObj (dict_set kvs f (if f \<noteq> k_scores then JStr [] else JObj []))))"
| "fill_required (f # fs) (JArr xs) =
     (if JStr f \<in> set xs then fill_required fs (JArr xs) else None)"
| "fill_required (f # fs) (JStr s) =
     (if py_in f s then fill_required fs (JStr s) else None)"
| "fill_required (f # fs) doc = None"

definition parse_analyst_report :: "json_lib \<Rightarrow> ustr \<Rightarrow> json" where
  "parse_analyst_report lib content =
     (case loads lib (extract_json_str content) of
        Some report_data \<Rightarrow>
          (case fill_required required_fields report_data of
             Some r \<Rightarrow> r
           | None \<Rightarrow> system_error_report (type_error_text lib report_data))
      | None \<Rightarrow> parse_failure_report content)"

text \<open>\<open>parse_supervisor_report\<close>: no envelope is enforced; the report for a text that is not
  JSON carries the first 200 characters of the content.\<close>

definition parse_supervisor_report :: "json_lib \<Rightarrow> ustr \<Rightarrow> json" where
  "parse_supervisor_report lib content =
     (case loads lib (extract_json_str content) of
        Some report_data \<Rightarrow> report_data
      | None \<Rightarrow>
          JObj [(asc ''error'', JStr (asc ''Failed to parse supervisor report JSON'')),
                (asc ''raw_content'', JStr (take 200 content))])"

section \<open>Calendar dates (the parts of \<open>datetime\<close> the program uses)\<close>

text \<open>
  \<open>datetime.strptime\<close>, \<open>strftime\<close>, \<open>replace\<close> and the subtraction of a \<open>timedelta\<close> of
  whole days belong to the standard library. They are modelled on dates (the program formats
  only year, month and day of the values it computes), following the library's own integer
  algorithms: the proleptic Gregorian ordinal of \<open>_ymd2ord\<close> and its inverse \<open>_ord2ymd\<close>.
\<close>

record date =
  year :: nat
  month :: nat
  day :: nat

definition is_leap :: "nat \<Rightarrow> bool" where
  "is_leap y \<longleftrightarrow> y mod 4 = 0 \<and> (y mod 100 \<noteq> 0 \<or> y mod 400 = 0)"

definition days_in_month :: "nat \<Rightarrow> nat \<Rightarrow> nat" where
  "days_in_month y m =
     (if m = 2 then (if is_leap y then 29 else 28)
      else if m = 4 \<or> m = 6 \<or> m = 9 \<or> m = 11 then 30 else 31)"

text \<open>The constructor check of \<open>datetime\<close>: \<open>None\<close> is its \<open>ValueError\<close>.\<close>

definition mk_date :: "nat \<Rightarrow> nat \<Rightarrow> nat \<Rightarrow> date option" where
  "mk_date y m d =
     (if 1 \<le> y \<and> y \<le> 9999 \<and> 1 \<le> m \<and> m \<le> 12 \<and> 1 \<le> d \<and> d \<le> days_in_month y m
      then Some \<lparr>year = y, month = m, day = d\<rparr> else None)"

definition days_before_year :: "nat \<Rightarrow> int" where
  "days_before_year y =
     (let y1 = int y - 1 in y1 * 365 + y1 div 4 - y1 div 100 + y1 div 400)"

definition DAYS_BEFORE_MONTH :: "nat \<Rightarrow> int" where
  "DAYS_BEFORE_MONTH m = [0, 0, 31, 59, 90, 120, 151, 181, 212, 243, 273, 304, 334] ! m"

definition days_before_month :: "nat \<Rightarrow> nat \<Rightarrow> int" where
  "days_before_month y m = DAYS_BEFORE_MONTH m + (if 2 < m \<and> is_leap y then 1 else 0)"

definition ymd2ord :: "date \<Rightarrow> int" where
  "ymd2ord dt = days_before_year (year dt) + days_before_month (year dt) (month dt) + int (day dt)"

text \<open>\<open>_ord2ymd\<close>, statement by statement (\<open>_DI400Y = 146097\<close>, \<open>_DI100Y = 36524\<close>,
  \<open>_DI4Y = 1461\<close>; \<open>(n + 50) >> 5\<close> is the division by 32).\<close>

definition ord2ymd :: "int \<Rightarrow> date" where
  "ord2ymd n0 =
     (let n = n0 - 1;
          n400 = n div 146097; n = n mod 146097;
          n100 = n div 36524; n = n mod 36524;
          n4 = n div 1461; n = n mod 1461;
          n1 = n div 365; n = n mod 365;
          y = n400 * 400 + 1 + n100 * 100 + n4 * 4 + n1
      in if n1 = 4 \<or> n100 = 4 then \<lparr>year = nat (y - 1), month = 12, day = 31\<rparr>
         else
           (let leapyear = (n1 = 3 \<and> (n4 \<noteq> 24 \<or> n100 = 3));
                m = nat ((n + 50) div 32);
                preceding = DAYS_BEFORE_MONTH m + (if 2 < m \<and> leapyear then 1 else 0)
            in if preceding > n then
                 (let m' = m - 1;
                      preceding' = preceding
                        - (int (days_in_month 1 m') + (if m' = 2 \<and> leapyear then 1 else 0))
                  in \<lparr>year = nat y, month = m', day = nat (n - preceding' + 1)\<rparr>)
               else \<lparr>year = nat y, month = m, day = nat (n - preceding + 1)\<rparr>))"

text \<open>\<open>dt - timedelta(days=k)\<close>: \<open>None\<close> is the \<open>OverflowError\<close> of a result before year 1
  or after year 9999 (\<open>_MAXORDINAL = 3652059\<close>).\<close>

definition date_minus_days :: "date \<Rightarrow> int \<Rightarrow> date option" where
  "date_minus_days dt k =
     (let n = ymd2ord dt - k in if 0 < n \<and> n \<le> 3652059 then Some (ord2ymd n) else None)"

text \<open>\<open>dt.replace(year=y)\<close>: \<open>None\<close> is the \<open>ValueError\<close> (year out of range, or 29 February
  moved into a year that is not a leap year).\<close>

definition date_replace_year :: "date \<Rightarrow> int \<Rightarrow> date option" where
  "date_replace_year dt y = (if y < 1 then None else mk_date (nat y) (month dt) (day dt))"

subsection \<open>Formatting and parsing\<close>

definition digit_char :: "nat \<Rightarrow> nat" where
  "digit_char n = 48 + n mod 10"

definition pad2 :: "nat \<Rightarrow> ustr" where
  "pad2 n = [digit_char (n div 10), digit_char n]"

definition pad4 :: "nat \<Rightarrow> ustr" where
  "pad4 n = [digit_char (n div 1000), digit_char (n div 100), digit_char (n div 10), digit_char n]"

text \<open>\<open>strftime("%Y%m%d")\<close> and \<open>strftime("%Y-%m-%d")\<close>. The year is written with four digits
  (for years below 1000 the C library decides whether \<open>%Y\<close> is padded).\<close>

definition strftime_compact :: "date \<Rightarrow> ustr" where
  "strftime_compact dt = pad4 (year dt) @ pad2 (month dt) @ pad2 (day dt)"

definition strftime_dashed :: "date \<Rightarrow> ustr" where
  "strftime_dashed dt = pad4 (year dt) @ asc ''-'' @ pad2 (month dt) @ asc ''-'' @ pad2 (day dt)"

definition is_digit :: "nat \<Rightarrow> bool" where
  "is_digit c \<longleftrightarrow> 48 \<le> c \<and> c \<le> 57"

text \<open>
  \<open>strptime\<close> turns the format into a regular expression and takes its first match at the
  start of the text, alternatives in the order written:
  \<open>%Y\<close> is \<open>\d\d\d\d\<close>, \<open>%m\<close> is \<open>1[0-2]|0[1-9]|[1-9]\<close>,
  \<open>%d\<close> is \<open>3[0-1]|[1-2]\d|0[1-9]|[1-9]| [1-9]\<close>.
  Each function lists the ways its directive can match a prefix, best first, with the value
  read and the rest of the text. The \<open>\d\<close> of the library matches the decimal digits of
  every script; the functions below read the ASCII digits, which is what the library does on
  an ASCII text, and the theorems about an end date given as a text are stated for ASCII
  texts.
\<close>

definition ascii_text :: "ustr \<Rightarrow> bool" where
  "ascii_text s = list_all (\<lambda>c. c < 128) s"

definition ascii_end_date :: "ustr option \<Rightarrow> bool" where
  "ascii_end_date ed = (case ed of None \<Rightarrow> True | Some s \<Rightarrow> ascii_text s)"

fun alts_Y :: "ustr \<Rightarrow> (nat \<times> ustr) list" where
  "alts_Y (a # b # c # d # rest) =
     (if is_digit a \<and> is_digit b \<and> is_digit c \<and> is_digit d
      then [((a - 48) * 1000 + (b - 48) * 100 + (c - 48) * 10 + (d - 48), rest)] else [])"
| "alts_Y s = []"

definition two_chars :: "ustr \<Rightarrow> (nat \<Rightarrow> bool) \<Rightarrow> (nat \<Rightarrow> bool) \<Rightarrow> (nat \<Rightarrow> nat \<Rightarrow> nat) \<Rightarrow> (nat \<times> ustr) list" where
  "two_chars s p q v =
     (case s of a # b # rest \<Rightarrow> (if p a \<and> q b then [(v a b, rest)] else []) | _ \<Rightarrow> [])"

definition one_char :: "ustr \<Rightarrow> (nat \<Rightarrow> bool) \<Rightarrow> (nat \<times> ustr) list" where
  "one_char s p = (case s of a # rest \<Rightarrow> (if p a then [(a - 48, rest)] else []) | _ \<Rightarrow> [])"

definition is_1_to_9 :: "nat \<Rightarrow> bool" where
  "is_1_to_9 c \<longleftrightarrow> 49 \<le> c \<and> c \<le> 57"

definition dec2 :: "nat \<Rightarrow> nat \<Rightarrow> nat" where
  "dec2 a b = (a - 48) * 10 + (b - 48)"

definition alts_m :: "ustr \<Rightarrow> (nat \<times> ustr) list" where
  "alts_m s =
     two_chars s (\<lambda>a. a = 49) (\<lambda>b. 48 \<le> b \<and> b \<le> 50) dec2
     @ two_chars s (\<lambda>a. a = 48) is_1_to_9 dec2
     @ one_char s is_1_to_9"

definition alts_d :: "ustr \<Rightarrow> (nat \<times> ustr) list" where
  "alts_d s =
     two_chars s (\<lambda>a. a = 51) (\<lambda>b. 48 \<le> b \<and> b \<le> 49) dec2
     @ two_chars s (\<lambda>a. 49 \<le> a \<and> a \<le> 50) is_digit dec2
     @ two_chars s (\<lambda>a. a = 48) is_1_to_9 dec2
     @ one_char s is_1_to_9
     @ two_chars s (\<lambda>a. a = 32) is_1_to_9 (\<lambda>a b. b - 48)"

datatype fmt_item = DirY | Dirm | Dird | Lit nat

text \<open>All matches of a format at the start of a text, best first: the values read for year,
  month and day (1900, 1, 1 where the format has no directive for them) and the rest.\<close>

fun fmt_matches :: "fmt_item list \<Rightarrow> ustr \<Rightarrow> nat \<times> nat \<times> nat \<Rightarrow> ((nat \<times> nat \<times> nat) \<times> ustr) list" where
  "fmt_matches [] s acc = [(acc, s)]"
| "fmt_matches (Lit c # fs) s acc =
     (case s of [] \<Rightarrow> [] | x # xs \<Rightarrow> if x = c then fmt_matches fs xs acc else [])"
| "fmt_matches (DirY # fs) s (y, m, d) =
     concat (map (\<lambda>(v, rest). fmt_matches fs rest (v, m, d)) (alts_Y s))"
| "fmt_matches (Dirm # fs) s (y, m, d) =
     concat (map (\<lambda>(v, rest). fmt_matches fs rest (y, v, d)) (alts_m s))"
| "fmt_matches (Dird # fs) s (y, m, d) =
     concat (map (\<lambda>(v, rest). fmt_matches fs rest (y, m, v)) (alts_d s))"

text \<open>\<open>datetime.strptime(s, fmt)\<close>: \<open>None\<close> is its \<open>ValueError\<close> (no match, unconverted data
  after the first match, or values that are not a date).\<close>

definition strptime :: "ustr \<Rightarrow> fmt_item list \<Rightarrow> date option" where
  "strptime s fmt =
     (case fmt_matches fmt s (1900, 1, 1) of
        [] \<Rightarrow> None
      | ((y, m, d), rest) # _ \<Rightarrow> if rest \<noteq> [] then None else mk_date y m d)"

text \<open>The formats of the source: \<open>%Y%m%d\<close>, \<open>%Y-%m-%d\<close>, \<open>%Y/%m/%d\<close>, \<open>%Y.%m.%d\<close> and
  \<open>%Y<U+5E74>%m<U+6708>%d<U+65E5>\<close>.\<close>

definition fmt_compact :: "fmt_item list" where
  "fmt_compact = [DirY, Dirm, Dird]"

definition fmt_sep :: "nat \<Rightarrow> fmt_item list" where
  "fmt_sep c = [DirY, Lit c, Dirm, Lit c, Dird]"

definition fmt_dash :: "fmt_item list" where
  "fmt_dash = fmt_sep 45"

definition fmt_slash :: "fmt_item list" where
  "fmt_slash = fmt_sep 47"

definition fmt_dot :: "fmt_item list" where
  "fmt_dot = fmt_sep 46"

definition fmt_cn :: "fmt_item list" where
  "fmt_cn = [DirY, Lit 24180, Dirm, Lit 26376, Dird, Lit 26085]"

text \<open>The loops \<open>for fmt in date_formats: try ... except ValueError: continue\<close>: the first
  format that parses.\<close>

fun first_format :: "ustr \<Rightarrow> fmt_item list list \<Rightarrow> date option" where
  "first_format s [] = None"
| "first_format s (f # fs) = (case strptime s f of Some dt \<Rightarrow> Some dt | None \<Rightarrow> first_format s fs)"

section \<open>The analysis window\<close>

text \<open>
  \<open>TushareProvider._get_date_range(end_date, years)\<close> (the other providers have the same
  body). \<open>today\<close> is the date of \<open>datetime.now()\<close>. The result is \<open>(start_date, end_date)\<close>,
  both \<open>YYYYMMDD\<close>; \<open>None\<close> is the \<open>OverflowError\<close> of the subtraction, which the function
  does not catch.
\<close>

definition get_date_range :: "date \<Rightarrow> ustr option \<Rightarrow> int \<Rightarrow> (ustr \<times> ustr) option" where
  "get_date_range today end_date years =
     (let end_date_dt =
            (case end_date of
               None \<Rightarrow> today
             | Some s \<Rightarrow>
                 (case first_format s [fmt_compact, fmt_dash, fmt_slash] of
                    Some dt \<Rightarrow> dt
                  | None \<Rightarrow> today))
      in case date_minus_days end_date_dt (365 * years) of
           None \<Rightarrow> None
         | Some start_date_dt \<Rightarrow> Some (strftime_compact start_date_dt, strftime_compact end_date_dt))"

text \<open>\<open>ResultManager._parse_date\<close> (and the identical \<open>_parse_date\<close> of the analysis nodes):
  \<open>None\<close> is the \<open>ValueError\<close>.\<close>

definition parse_date :: "ustr \<Rightarrow> date option" where
  "parse_date date_str =
     (if date_str = [] then None
      else first_format date_str [fmt_dash, fmt_compact, fmt_slash, fmt_dot, fmt_cn])"

text \<open>The texts U+8FD1 U+4E24 U+5E74 U+6570 U+636E (the default description of the period)
  and U+81F3 between spaces (to).\<close>

definition txt_recent_two_years_data :: ustr where
  "txt_recent_two_years_data = [36817, 20004, 24180, 25968, 25454]"

definition txt_to :: ustr where
  "txt_to = [32, 33267, 32]"

text \<open>\<open>ResultManager._get_analysis_period(end_date)\<close> (and \<open>_get_analysis_period\<close> of the
  analysis nodes): every exception gives the default description.\<close>

definition get_analysis_period :: "ustr option \<Rightarrow> ustr" where
  "get_analysis_period end_date =
     (case end_date of
        None \<Rightarrow> txt_recent_two_years_data
      | Some s \<Rightarrow>
          if s = [] then txt_recent_two_years_data
          else
            (case parse_date s of
               None \<Rightarrow> txt_recent_two_years_data
             | Some end_dt \<Rightarrow>
                 (case date_replace_year end_dt (int (year end_dt) - 2) of
                    None \<Rightarrow> txt_recent_two_years_data
                  | Some start_dt \<Rightarrow> strftime_dashed start_dt @ txt_to @ strftime_dashed end_dt)))"

section \<open>The artifact store (core/result\_manager.py)\<close>

text \<open>
  A file of the store is addressed by \<open>(stock code, date directory, file name)\<close> below the
  base directory. The store maps addresses to the JSON document of the file and keeps the
  log of the writes made to it. Reading and writing the disk is assumed to succeed (the
  manager turns an I/O exception into an empty return value; that path is not modelled).
\<close>

type_synonym path = "ustr \<times> ustr \<times> ustr"

record store =
  files :: "path \<Rightarrow> json option"
  written :: "path list"

text \<open>The clock: the date of \<open>datetime.now()\<close> and the text of \<open>now().strftime("%Y-%m-%d %H:%M:%S")\<close>.\<close>

record clock =
  today :: date
  now_text :: ustr

definition empty_store :: store where
  "empty_store = \<lparr>files = (\<lambda>p. None), written = []\<rparr>"

definition write_file :: "path \<Rightarrow> json \<Rightarrow> store \<Rightarrow> store" where
  "write_file p doc st = \<lparr>files = (files st)(p \<mapsto> doc), written = written st @ [p]\<rparr>"

text \<open>\<open>_get_date_dir\<close>: the name of the date directory. A missing or empty \<open>end_date\<close>, and
  one that does not parse, give today's date.\<close>

definition get_date_dir :: "clock \<Rightarrow> ustr option \<Rightarrow> ustr" where
  "get_date_dir clk end_date =
     (case end_date of
        None \<Rightarrow> strftime_compact (today clk)
      | Some s \<Rightarrow>
          if s = [] then strftime_compact (today clk)
          else (case parse_date s of
                  Some parsed_date \<Rightarrow> strftime_compact parsed_date
                | None \<Rightarrow> strftime_compact (today clk)))"

text \<open>\<open>save_report\<close>: the file is \<open><report_name>.json\<close>, \<open><report_type>_report.json\<close> when no
  name is given. The result is the address of the file and the new store.\<close>

definition report_payload :: "clock \<Rightarrow> ustr \<Rightarrow> json \<Rightarrow> ustr option \<Rightarrow> json" where
  "report_payload clk report_type report_data end_date =
     JObj [(asc ''report_type'', JStr report_type),
           (asc ''timestamp'', JStr (now_text clk)),
           (asc ''analysis_period'', JStr (get_analysis_period end_date)),
           (asc ''data'', report_data)]"

definition save_report ::
  "clock \<Rightarrow> ustr \<Rightarrow> ustr \<Rightarrow> json \<Rightarrow> ustr option \<Rightarrow> ustr option \<Rightarrow> store \<Rightarrow> path \<times> store" where
  "save_report clk stock_code report_type report_data report_name end_date st =
     (let name = (case report_name of None \<Rightarrow> report_type @ asc ''_report'' | Some n \<Rightarrow> n);
          filepath = (stock_code, get_date_dir clk end_date, name @ asc ''.json'')
      in (filepath, write_file filepath (report_payload clk report_type report_data end_date) st))"

text \<open>What a tool hands to \<open>save_tool_result\<close>: a dict or list, or a string.\<close>

datatype tool_value = Structured json | Text ustr

text \<open>\<open>save_tool_result\<close>: the file is \<open><tool_name>_tool_result.json\<close>. A string that decodes
  as JSON is stored decoded under \<open>data\<close>, any other string under \<open>text\<close>.\<close>

definition tool_result_payload :: "json_lib \<Rightarrow> clock \<Rightarrow> ustr \<Rightarrow> tool_value \<Rightarrow> ustr option \<Rightarrow> json" where
  "tool_result_payload lib clk tool_name tool_result end_date =
     (let head = [(asc ''tool'', JStr tool_name),
                  (asc ''timestamp'', JStr (now_text clk)),
                  (asc ''analysis_period'', JStr (get_analysis_period end_date))]
      in case tool_result of
           Structured doc \<Rightarrow> JObj (head @ [(asc ''data'', doc)])
         | Text s \<Rightarrow>
             (case loads lib s of
                Some parsed \<Rightarrow> JObj (head @ [(asc ''data'', parsed)])
              | None \<Rightarrow> JObj (head @ [(asc ''text'', JStr s)])))"

definition save_tool_result ::
  "json_lib \<Rightarrow> clock \<Rightarrow> ustr \<Rightarrow> ustr \<Rightarrow> tool_value \<Rightarrow> ustr option \<Rightarrow> store \<Rightarrow> store" where
  "save_tool_result lib clk stock_code tool_name tool_result end_date st =
     write_file (stock_code, get_date_dir clk end_date, tool_name @ asc ''_tool_result.json'')
       (tool_result_payload lib clk tool_name tool_result end_date) st"

text \<open>\<open>load_tool_result\<close>: the document of \<open><tool_name>_tool_result.json\<close>, \<open>None\<close> when there
  is no such file.\<close>

definition load_tool_result :: "clock \<Rightarrow> ustr \<Rightarrow> ustr \<Rightarrow> ustr option \<Rightarrow> store \<Rightarrow> json option" where
  "load_tool_result clk stock_code tool_name end_date st =
     files st (stock_code, get_date_dir clk end_date, tool_name @ asc ''_tool_result.json'')"

text \<open>
  \<open>load_news_data\<close>: the tool result named \<open>news_sentiment_structured\<close> when it is a dict
  with a true \<open>data\<close>, else the one named \<open>news_sentiment\<close> when it is true. Calling \<open>.get\<close>
  on a true document that is not a dict raises, and every exception gives \<open>None\<close>.
\<close>

definition load_news_data :: "clock \<Rightarrow> ustr \<Rightarrow> ustr option \<Rightarrow> store \<Rightarrow> json option" where
  "load_news_data clk stock_code end_date st =
     (let basic_data =
            (case load_tool_result clk stock_code (asc ''news_sentiment'') end_date st of
               Some b \<Rightarrow> if py_truthy b then Some b else None
             | None \<Rightarrow> None)
      in case load_tool_result clk stock_code (asc ''news_sentiment_structured'') end_date st of
           None \<Rightarrow> basic_data
         | Some structured_data \<Rightarrow>
             if \<not> py_truthy structured_data then basic_data
             else (case structured_data of
                     JObj kvs \<Rightarrow>
                       (case dict_get kvs (asc ''data'') of
                          Some d \<Rightarrow> if py_truthy d then Some structured_data else basic_data
                        | None \<Rightarrow> basic_data)
                   | _ \<Rightarrow> None))"

text \<open>The state of the graph (\<open>StockAgentState\<close>): the request (the keys \<open>stock_code\<close> and
  \<open>end_date\<close>) and the reports the nodes have returned so far.\<close>

record agent_state =
  req_stock_code :: ustr
  req_end_date :: "ustr option"
  fundamental_report :: "json option"
  technical_report :: "json option"
  sentiment_report :: "json option"
  news_report :: "json option"
  fund_report :: "json option"
  bull_report :: "json option"
  bear_report :: "json option"
  debate_report :: "json option"
  supervisor_report :: "json option"

text \<open>\<open>report_mapping\<close> of \<open>save_all_reports\<close>: the state key (here its selector) and the
  report type, in the order of the source.\<close>

definition report_mapping :: "((agent_state \<Rightarrow> json option) \<times> ustr \<times> ustr) list" where
  "report_mapping =
    [(fundamental_report, asc ''fundamental_report'', asc ''fundamental''),
     (technical_report, asc ''technical_report'', asc ''technical''),
     (sentiment_report, asc ''sentiment_report'', asc ''sentiment''),
     (news_report, asc ''news_report'', asc ''news''),
     (fund_report, asc ''fund_report'', asc ''fund''),
     (bull_report, asc ''bull_report'', asc ''bull''),
     (bear_report, asc ''bear_report'', asc ''bear''),
     (debate_report, asc ''debate_report'', asc ''debate''),
     (supervisor_report, asc ''supervisor_report'', asc ''supervisor'')]"

text \<open>\<open>save_all_reports\<close>: every report of the state that is present and true is saved under
  \<open><report_type>_report.json\<close>; the result lists the saved files by state key.\<close>

fun save_reports_loop ::
  "clock \<Rightarrow> agent_state \<Rightarrow> ((agent_state \<Rightarrow> json option) \<times> ustr \<times> ustr) list
     \<Rightarrow> (ustr \<times> path) list \<times> store \<Rightarrow> (ustr \<times> path) list \<times> store" where
  "save_reports_loop clk state [] acc = acc"
| "save_reports_loop clk state ((sel, report_key, report_type) # rest) (saved_files, st) =
     (case sel state of
        None \<Rightarrow> save_reports_loop clk state rest (saved_files, st)
      | Some report \<Rightarrow>
          if py_truthy report
          then (case save_report clk (req_stock_code state) report_type report None (req_end_date state) st of
                  (filepath, st') \<Rightarrow>
                    save_reports_loop clk state rest (saved_files @ [(report_key, filepath)], st'))
          else save_reports_loop clk state rest (saved_files, st))"

definition save_all_reports :: "clock \<Rightarrow> agent_state \<Rightarrow> store \<Rightarrow> (ustr \<times> path) list \<times> store" where
  "save_all_reports clk state st = save_reports_loop clk state report_mapping ([], st)"

section \<open>The data tools (tools/stock\_tools.py)\<close>

text \<open>
  What lies outside the repository is a parameter of the model: the cache manager and the
  providers (whether they initialise, what a fetch returns or raises) and the summarising
  calls of the data processor (each ends in a call of the language model). A call either
  returns a value or raises; the message of the exception is kept, since the tools write it
  into their texts.
\<close>

datatype 'a outcome = Raised ustr | Returned 'a

text \<open>A fetch raises, returns \<open>None\<close>, or returns a table; a table is the list of its rows
  (\<open>df.to_dict(orient='records')\<close>) and is empty when it has no row.\<close>

datatype fetch_result = FetchRaised ustr | FetchNone | FetchTable "json list"

datatype tool = Fundamental | Technical | Fund | News

text \<open>
  \<^item> \<open>provider_ready\<close>: \<open>cache_manager.provider\<close> is set when the tool is called;
  \<^item> \<open>initialize\<close>: what \<open>cache_manager.initialize()\<close> does when the tool calls it;
  \<^item> \<open>provider_present\<close>, \<open>news_provider_present\<close>: \<open>get_provider()\<close> and
    \<open>get_news_provider()\<close> return a provider;
  \<^item> \<open>has_pro_bar\<close>: the provider has the method \<open>fetch_pro_bar_data\<close>;
  \<^item> \<open>make_processor\<close>: \<open>DataProcessor()\<close>, which raises when no language model is enabled;
  \<^item> \<open>company_summary\<close>: the text \<open>_process_company_info\<close> returns for the stock, if any;
  \<^item> \<open>fetch t dtype\<close>: the fetch that tool \<open>t\<close> makes for the data type;
  \<^item> \<open>summarise t dtype\<close>: the summarising call for the table of that fetch
    (\<open>process_and_summarize\<close>, \<open>_analyze_tech_table\<close>, \<open>_analyze_fund_table\<close>,
    \<open>analyze_news_batched\<close>). These functions catch a failure of the language model and
    return a text that names it, beginning with one of the first two diagnostic texts;
  \<^item> \<open>py_repr\<close>: \<open>str(x)\<close> of a dict.
\<close>

record tool_env =
  provider_ready :: bool
  initialize :: "unit outcome"
  provider_present :: bool
  news_provider_present :: bool
  has_pro_bar :: bool
  make_processor :: "unit outcome"
  company_summary :: "ustr option"
  fetch :: "tool \<Rightarrow> ustr \<Rightarrow> fetch_result"
  summarise :: "tool \<Rightarrow> ustr \<Rightarrow> ustr outcome"
  py_repr :: "json \<Rightarrow> ustr"

text \<open>The four diagnostic texts tested on a summary: U+751F U+6210 U+62A5 U+544A U+65F6 U+51FA U+9519
  (error while generating the report), U+751F U+6210 U+6458 U+8981 U+65F6 U+51FA U+9519 (error while
  generating the summary), U+6570 U+636E U+83B7 U+53D6 U+5931 U+8D25 (data fetch failed) and the ASCII
  text \<open>Error code:\<close>.\<close>

definition diag_report_error :: ustr where
  "diag_report_error = [29983, 25104, 25253, 21578, 26102, 20986, 38169]"

definition diag_summary_error :: ustr where
  "diag_summary_error = [29983, 25104, 25688, 35201, 26102, 20986, 38169]"

definition diag_fetch_failed :: ustr where
  "diag_fetch_failed = [25968, 25454, 33719, 21462, 22833, 36133]"

text \<open>\<open>data_objectives\<close> of \<open>get_fundamental_data\<close>: data type and objective, in the order of the source.\<close>

definition data_objectives :: "(ustr \<times> ustr) list" where
  "data_objectives =
    [(asc ''fina_indicator'',
      [30408, 21033, 33021, 21147, 19982, 36130, 21153, 25351, 26631]),
     (asc ''daily_basic'', [27599, 26085, 20272, 20540, 27700, 24179]),
     (asc ''dividend'', [32929, 19996, 20998, 32418, 22238, 25253]),
     (asc ''income'',
      [33829, 19994, 25910, 20837, 19982, 21033, 28070, 26500, 25104]),
     (asc ''balance'', [36164, 20135, 19982, 36127, 20538, 32467, 26500]),
     (asc ''cashflow'', [29616, 37329, 27969, 37327, 36136, 37327]),
     (asc ''forecast'', [26410, 26469, 19994, 32489, 39044, 26399]),
     (asc ''mainbz'', [20027, 33829, 19994, 21153, 26500, 25104])]"

text \<open>\<open>fund_data_objectives\<close> of \<open>get_fund_data\<close>.\<close>

definition fund_data_objectives :: "(ustr \<times> ustr) list" where
  "fund_data_objectives =
    [(asc ''top10_holders'',
      [21069, 21313, 22823, 32929, 19996, 25345, 32929, 24773, 20917]),
     (asc ''top10_floatholders'',
      [21069, 21313, 22823, 27969, 36890, 32929, 19996, 25345, 32929, 24773, 20917]),
     (asc ''stk_holdernumber'', [32929, 19996, 20154, 25968]),
     (asc ''moneyflow_ths'', [20010, 32929, 20027, 21147, 21160, 21521]),
     (asc ''moneyflow_cnt_ths'', [26495, 22359, 20027, 21147, 21160, 21521]),
     (asc ''moneyflow_ind_ths'', [34892, 19994, 20027, 21147, 21160, 21521]),
     (asc ''moneyflow_mkt_dc'', [22823, 30424, 36164, 37329, 27969, 21521]),
     (asc ''moneyflow_ind_dc'', [26495, 22359, 36164, 37329, 27969, 21521]),
     (asc ''top_list'', [40857, 34382, 27036, 27599, 26085, 32479, 35745]),
     (asc ''top_inst'', [40857, 34382, 27036, 26426, 26500, 26126, 32454]),
     (asc ''moneyflow_hsgt'', [21271, 21521, 36164, 37329]),
     (asc ''cyq_perf'', [27599, 26085, 31609, 30721, 20998, 24067])]"

text \<open>\<open>tech_data_objectives\<close> of \<open>get_tech_data\<close>.\<close>

definition tech_data_objectives :: "(ustr \<times> ustr) list" where
  "tech_data_objectives =
    [(asc ''pro_bar_D'',
      [30701, 26399, 65288, 26085, 32447, 75, 32447, 19982, 22343, 32447, 36208, 21183, 65289]),
     (asc ''pro_bar_W'',
      [20013, 26399, 65288, 21608, 32447, 75, 32447, 19982, 22343, 32447, 36208, 21183, 65289]),
     (asc ''pro_bar_M'',
      [38271, 26399, 65288, 26376, 32447, 75, 32447, 19982, 22343, 32447, 36208, 21183, 65289]),
     (asc ''stk_factor'',
      [25216, 26415, 25351, 26631, 65288, 77, 65, 67, 68, 47, 82, 83, 73, 47, 75, 68, 74, 31561, 65289]),
     (asc ''daily_basic'', [20272, 20540, 19982, 25104, 20132, 29305, 24449]),
     (asc ''limit_list'', [28072, 36300, 20572, 19982, 24066, 22330, 24773, 32490])]"

text \<open>\<open>news_data_objectives\<close> of \<open>get_news\<close>.\<close>

definition news_data_objectives :: "(ustr \<times> ustr) list" where
  "news_data_objectives =
    [(asc ''news'', [24555, 35759, 26032, 38395, 20998, 26512]),
     (asc ''major_news'', [37325, 35201, 26032, 38395, 20998, 26512]),
     (asc ''cctv_news'', [22830, 35270, 26032, 38395, 20998, 26512])]"

text \<open>The keys of \<open>data_fetch_methods\<close> in \<open>_process_data_type\<close>.\<close>

definition data_fetch_methods :: "ustr list" where
  "data_fetch_methods = map asc
    [''fina_indicator'', ''daily_basic'', ''dividend'', ''income'', ''balance'',
     ''cashflow'', ''forecast'', ''express'', ''mainbz'', ''pro_bar'', ''pro_bar_W'',
     ''pro_bar_M'', ''stk_factor'', ''limit_list'', ''top10_holders'',
     ''top10_floatholders'', ''stk_holdernumber'', ''moneyflow_ths'',
     ''moneyflow_cnt_ths'', ''moneyflow_ind_ths'', ''moneyflow_mkt_dc'',
     ''moneyflow_ind_dc'', ''top_list'', ''top_inst'', ''moneyflow_hsgt'',
     ''cyq_perf'']"

text \<open>Pieces of the summaries: U+3010, U+3011 (the brackets around an objective),
  \<open>: <fetch failed> - \<close> after the closing bracket, \<open>: <in>\<close> (U+5728), U+5230 (to), U+4E4B U+95F4
  (between), U+6570 U+636E U+4E3A U+7A7A (the data is empty), and the three descriptions of
  a range that was not computed: within the given date range, the last two years, within
  the last two years, within the last 3 days.\<close>

definition txt_open_bracket :: ustr where
  "txt_open_bracket = [12304]"

definition txt_close_bracket :: ustr where
  "txt_close_bracket = [12305]"

definition txt_fetch_failed_sep :: ustr where
  "txt_fetch_failed_sep = [12305, 58, 32, 25968, 25454, 33719, 21462, 22833, 36133, 32, 45, 32]"

definition txt_colon_in :: ustr where
  "txt_colon_in = [12305, 58, 32, 22312]"

definition txt_colon_space :: ustr where
  "txt_colon_space = [12305, 58, 32]"

definition txt_date_to :: ustr where
  "txt_date_to = [21040]"

definition txt_between :: ustr where
  "txt_between = [20043, 38388]"

definition txt_data_empty :: ustr where
  "txt_data_empty = [25968, 25454, 20026, 31354]"

definition txt_given_range :: ustr where
  "txt_given_range = [25351, 23450, 26085, 26399, 33539, 22260, 20869]"

definition txt_two_years :: ustr where
  "txt_two_years = [36817, 20004, 24180]"

definition txt_within_two_years :: ustr where
  "txt_within_two_years = [36817, 20004, 24180, 20869]"

definition txt_within_three_days :: ustr where
  "txt_within_three_days = [36817, 51, 22825, 20869]"

text \<open>The two longer endings of \<open>_process_data_type\<close> for \<open>moneyflow_cnt_ths\<close> and
  \<open>moneyflow_hsgt\<close> (the data is empty; the data usually lags by one or two days, query the
  previous trading day).\<close>

definition txt_cnt_ths_note :: ustr where
  "txt_cnt_ths_note =
    [25968, 25454, 20026, 31354, 12290, 26495, 22359, 20027, 21147, 21160, 21521, 25968, 25454,
    36890, 24120, 26377, 49, 45, 50, 22825, 24310, 36831, 65292, 24314, 35758, 26597, 35810,
    21069, 19968, 20010, 20132, 26131, 26085, 30340, 25968, 25454, 12290]"

definition txt_hsgt_note :: ustr where
  "txt_hsgt_note =
    [25968, 25454, 20026, 31354, 12290, 21271, 21521, 36164, 37329, 25968, 25454, 36890, 24120,
    26377, 49, 22825, 24310, 36831, 65292, 24314, 35758, 26597, 35810, 21069, 19968, 20010,
    20132, 26131, 26085, 30340, 25968, 25454, 12290]"

text \<open>Texts for a data type no branch handles (unsupported data type, undefined data type,
  undefined news data type).\<close>

definition txt_unsupported_type :: ustr where
  "txt_unsupported_type = [19981, 25903, 25345, 30340, 25968, 25454, 31867, 22411, 32, 39]"

definition txt_undefined_type :: ustr where
  "txt_undefined_type = [26410, 23450, 20041, 30340, 25968, 25454, 31867, 22411, 58, 32]"

definition txt_undefined_news_type :: ustr where
  "txt_undefined_news_type =
    [26410, 23450, 20041, 30340, 26032, 38395, 25968, 25454, 31867, 22411, 58, 32]"

text \<open>Error texts of the tools: initialisation of the cache manager failed, the data provider is
  not initialised, and the four texts of the outermost handlers.\<close>

definition txt_init_failed :: ustr where
  "txt_init_failed =
    [99, 97, 99, 104, 101, 95, 109, 97, 110, 97, 103, 101, 114, 21021, 22987, 21270, 22833,
    36133, 58, 32]"

definition txt_no_provider :: ustr where
  "txt_no_provider = [25968, 25454, 25552, 20379, 32773, 26410, 21021, 22987, 21270]"

definition txt_fundamental_error :: ustr where
  "txt_fundamental_error =
    [33719, 21462, 34892, 24773, 25968, 25454, 26102, 20986, 38169, 58, 32]"

definition txt_fund_error :: ustr where
  "txt_fund_error =
    [33719, 21462, 36164, 37329, 27969, 21521, 26102, 20986, 38169, 58, 32]"

definition txt_tech_error :: ustr where
  "txt_tech_error =
    [33719, 21462, 25216, 26415, 25968, 25454, 26102, 20986, 38169, 58, 32]"

definition txt_news_error :: ustr where
  "txt_news_error =
    [33719, 21462, 26032, 38395, 25968, 25454, 26102, 20986, 38169, 58, 32]"

text \<open>The four values of \<open>analysis_type\<close>.\<close>

definition analysis_type_fundamental :: ustr where
  "analysis_type_fundamental = [22522, 26412, 38754, 25968, 25454, 20998, 26512]"

definition analysis_type_fund :: ustr where
  "analysis_type_fund = [36164, 37329, 27969, 21521, 25968, 25454, 20998, 26512]"

definition analysis_type_tech :: ustr where
  "analysis_type_tech = [25216, 26415, 25968, 25454, 20998, 26512]"

definition analysis_type_news :: ustr where
  "analysis_type_news = [26032, 38395, 25968, 25454, 20998, 26512]"

text \<open>The combined news summary when no interface gave a text (no news summary yet), and the
  separator between the parts.\<close>

definition txt_no_news_summary :: ustr where
  "txt_no_news_summary = [26242, 26080, 26032, 38395, 25688, 35201]"

definition txt_summary_sep :: ustr where
  "txt_summary_sep = [10, 10, 61, 61, 61, 61, 10, 10]"

text \<open>Pieces of \<open>_format_result_as_text\<close>: the heading of the company overview, the
  separator, the colon and newline after the analysis type, the default analysis type, and the
  three status marks (U+2705, U+274C, U+26A0 U+FE0F).\<close>

definition txt_overview_head :: ustr where
  "txt_overview_head = [20844, 21496, 27010, 20917, 65306, 10]"

definition txt_part_sep :: ustr where
  "txt_part_sep = [10, 45, 45, 45, 10]"

definition txt_fullwidth_colon_nl :: ustr where
  "txt_fullwidth_colon_nl = [65306, 10]"

definition txt_default_analysis :: ustr where
  "txt_default_analysis = [25968, 25454, 20998, 26512]"

definition mark_ok :: ustr where
  "mark_ok = [9989]"

definition mark_error :: ustr where
  "mark_error = [10060]"

definition mark_unknown :: ustr where
  "mark_unknown = [9888, 65039]"

text \<open>The message of the \<open>OverflowError\<close> raised by a date subtraction.\<close>

definition txt_date_overflow :: ustr where
  "txt_date_overflow =
    [100, 97, 116, 101, 32, 118, 97, 108, 117, 101, 32, 111, 117, 116, 32, 111, 102, 32, 114,
    97, 110, 103, 101]"

text \<open>The three lines of \<open>_get_mock_tech_data\<close>, each an f-string around the stock code.\<close>

definition mock_tech_lines :: "ustr \<Rightarrow> ustr list" where
  "mock_tech_lines stock_code =
    [[12304, 25216, 26415, 25351, 26631, 12305]
       @ stock_code @
      [32, 77, 65, 67, 68, 37329, 21449, 65292, 82, 83, 73, 36229, 21334, 65292, 75, 68, 74,
      20302, 20301, 37329, 21449],
     [12304, 75, 32447, 24418, 24577, 12305]
       @ stock_code @
      [32, 24418, 25104, 22836, 32937, 24213, 24418, 24577, 65292, 31361, 30772, 39048, 32447,
      20301, 65292, 19978, 28072, 36235, 21183, 26126, 26174],
     [12304, 25104, 20132, 37327, 12305]
       @ stock_code @
      [32, 25104, 20132, 37327, 25918, 22823, 65292, 24066, 22330, 20851, 27880, 24230, 25552,
      21319]]"

text \<open>The three lines of \<open>_get_mock_news_data\<close>.\<close>

definition mock_news_lines :: "ustr \<Rightarrow> ustr list" where
  "mock_news_lines stock_code =
    [[12304, 26032, 38395, 25688, 35201, 12305]
       @ stock_code @
      [32, 30456, 20851, 26032, 38395, 26174, 31034, 20844, 21496, 19994, 32489, 31283, 20581,
      22686, 38271, 65292, 24066, 22330, 20851, 27880, 24230, 25552, 21319],
     [12304, 24773, 32490, 20998, 26512, 12305]
       @ stock_code @
      [32, 26032, 38395, 24773, 32490, 20559, 21521, 27491, 38754, 65292, 25237, 36164, 32773,
      20449, 24515, 22686, 24378],
     [12304, 37325, 35201, 20107, 20214, 12305]
       @ stock_code @
      [32, 36817, 26399, 21457, 24067, 37325, 35201, 20844, 21578, 65292, 23545, 32929, 20215,
      20135, 29983, 31215, 26497, 24433, 21709]]"

text \<open>The three messages of \<open>_get_mock_fund_data\<close>.\<close>

definition mock_fund_lines :: "ustr \<Rightarrow> ustr list" where
  "mock_fund_lines stock_code =
    [[12304, 36164, 37329, 27969, 21521, 12305]
       @ stock_code @
      [32, 20027, 21147, 36164, 37329, 25345, 32493, 27969, 20837, 65292, 26426, 26500, 36164,
      37329, 22823, 24133, 22686, 25345, 65292, 25955, 25143, 23567, 24133, 27969, 20837],
     [12304, 36164, 37329, 32467, 26500, 12305]
       @ stock_code @
      [32, 20027, 21147, 36164, 37329, 21344, 27604, 55, 48, 37, 65292, 26426, 26500, 50, 53,
      37, 65292, 25955, 25143, 53, 37],
     [12304, 36164, 37329, 36235, 21183, 12305]
       @ stock_code @
      [32, 36164, 37329, 27969, 20837, 36235, 21183, 25345, 32493, 19978, 21319, 65292, 24066,
      22330, 28909, 24230, 25552, 21319]]"

definition DIAGNOSTICS :: "ustr list" where
  "DIAGNOSTICS = [diag_report_error, diag_summary_error, diag_fetch_failed, asc ''Error code:'']"

definition status_success :: ustr where
  "status_success = asc ''success''"

definition status_error :: ustr where
  "status_error = asc ''error''"

text \<open>What a processing function returns: \<open>{"summary": ..., "raw": ...}\<close>.\<close>

record payload =
  summary :: ustr
  raw :: "json list"

definition fetch_failed :: "ustr \<Rightarrow> ustr \<Rightarrow> payload" where
  "fetch_failed objective e =
     \<lparr>summary = txt_open_bracket @ objective @ txt_fetch_failed_sep @ e, raw = []\<rparr>"

definition table_rows :: "fetch_result \<Rightarrow> json list" where
  "table_rows r = (case r of FetchTable rows \<Rightarrow> rows | _ \<Rightarrow> [])"

text \<open>
  The window written into the summary of an empty table, for a non-empty \<open>end_date\<close>:
  \<open>strptime(end_date, '%Y%m%d')\<close>, minus \<open>days\<close> days, as \<open>f"{start_date}<to>{end_date}"\<close>.
  \<open>Returned None\<close> is the \<open>ValueError\<close> of \<open>strptime\<close>, which the tools catch; \<open>Raised\<close> is
  the \<open>OverflowError\<close> of the subtraction, which only the outermost handler catches.
\<close>

definition window_text :: "int \<Rightarrow> ustr \<Rightarrow> ustr option outcome" where
  "window_text days end_date =
     (case strptime end_date fmt_compact of
        None \<Rightarrow> Returned None
      | Some end_date_dt \<Rightarrow>
          (case date_minus_days end_date_dt days of
             None \<Rightarrow> Raised txt_date_overflow
           | Some start_date_dt \<Rightarrow>
               Returned (Some (strftime_compact start_date_dt @ txt_date_to @ end_date))))"

text \<open>
  The description of the range in the summary of an empty table, as every processing function
  computes it: a fixed text when \<open>end_date\<close> is missing or empty, another when it is not in
  the form \<open>YYYYMMDD\<close>, else the window (followed by \<open>window_suffix\<close>).
\<close>

definition empty_range :: "int \<Rightarrow> ustr \<Rightarrow> ustr \<Rightarrow> ustr option \<Rightarrow> ustr outcome" where
  "empty_range days window_suffix none_text end_date =
     (case end_date of
        None \<Rightarrow> Returned none_text
      | Some s \<Rightarrow>
          if s = [] then Returned none_text
          else (case window_text days s of
                  Raised e \<Rightarrow> Raised e
                | Returned None \<Rightarrow> Returned txt_given_range
                | Returned (Some w) \<Rightarrow> Returned (w @ window_suffix)))"

text \<open>\<open>_process_data_type\<close>, the processing function of the fundamental tool.\<close>

definition process_data_type :: "tool_env \<Rightarrow> ustr \<Rightarrow> ustr \<Rightarrow> ustr option \<Rightarrow> payload" where
  "process_data_type env dtype objective end_date =
     (if dtype \<notin> set data_fetch_methods then
        \<lparr>summary = txt_open_bracket @ objective @ txt_colon_space @ txt_unsupported_type @ dtype
                     @ [39],
         raw = []\<rparr>
      else
        (case fetch env Fundamental dtype of
           FetchRaised e \<Rightarrow> fetch_failed objective e
         | df \<Rightarrow>
             if table_rows df \<noteq> [] then
               (case summarise env Fundamental dtype of
                  Raised e \<Rightarrow> fetch_failed objective e
                | Returned s \<Rightarrow> \<lparr>summary = s, raw = table_rows df\<rparr>)
             else
               (case empty_range (365 * 2) [] txt_two_years end_date of
                     Raised e \<Rightarrow> fetch_failed objective e
                   | Returned r \<Rightarrow>
                       \<lparr>summary = txt_open_bracket @ objective @ txt_colon_in @ r @ txt_between
                                    @ objective
                                    @ (if dtype = asc ''moneyflow_cnt_ths'' then txt_cnt_ths_note
                                       else if dtype = asc ''moneyflow_hsgt'' then txt_hsgt_note
                                       else txt_data_empty),
                        raw = []\<rparr>)))"

text \<open>
  \<open>_process_fund_data_with_llm\<close>, \<open>_process_tech_data_with_llm\<close> and
  \<open>_process_news_data_with_llm\<close> have one shape: the data types they know, the summary
  \<open>f"<objective in brackets>\n{analysis}"\<close> of a table with rows, and for an empty table the
  window of \<open>days\<close> days with its two fallback texts.
\<close>

definition process_with_llm ::
  "tool_env \<Rightarrow> tool \<Rightarrow> ustr list \<Rightarrow> ustr \<Rightarrow> int \<Rightarrow> ustr \<Rightarrow> ustr \<Rightarrow> ustr \<Rightarrow> ustr option \<Rightarrow> payload" where
  "process_with_llm env t known undefined_text days none_text data_type objective end_date =
     (if data_type \<notin> set known then \<lparr>summary = undefined_text @ data_type, raw = []\<rparr>
      else
        (case fetch env t data_type of
           FetchRaised e \<Rightarrow> fetch_failed objective e
         | df \<Rightarrow>
             if table_rows df \<noteq> [] then
               (case summarise env t data_type of
                  Raised e \<Rightarrow> fetch_failed objective e
                | Returned s \<Rightarrow>
                    \<lparr>summary = txt_open_bracket @ objective @ txt_close_bracket @ [10] @ s,
                     raw = table_rows df\<rparr>)
             else
               (case empty_range days txt_between none_text end_date of
                     Raised e \<Rightarrow> fetch_failed objective e
                   | Returned p \<Rightarrow>
                       \<lparr>summary = txt_open_bracket @ objective @ txt_colon_space @ p @ objective
                                    @ txt_data_empty,
                        raw = []\<rparr>)))"

definition process_fund_data_with_llm :: "tool_env \<Rightarrow> ustr \<Rightarrow> ustr \<Rightarrow> ustr option \<Rightarrow> payload" where
  "process_fund_data_with_llm env =
     process_with_llm env Fund (map fst fund_data_objectives) txt_undefined_type (365 * 2)
       txt_within_two_years"

definition process_tech_data_with_llm :: "tool_env \<Rightarrow> ustr \<Rightarrow> ustr \<Rightarrow> ustr option \<Rightarrow> payload" where
  "process_tech_data_with_llm env =
     process_with_llm env Technical (map fst tech_data_objectives) txt_undefined_type (365 * 2)
       txt_within_two_years"

definition process_news_data_with_llm :: "tool_env \<Rightarrow> ustr \<Rightarrow> ustr \<Rightarrow> ustr option \<Rightarrow> payload" where
  "process_news_data_with_llm env =
     process_with_llm env News (map fst news_data_objectives) txt_undefined_news_type 3
       txt_within_three_days"

subsection \<open>Assembling the tool result\<close>

text \<open>One entry of \<open>interfaces\<close>: \<open>{"objective", "result", "raw", "status"}\<close>.\<close>

record interface_result =
  if_objective :: ustr
  if_result :: ustr
  if_raw :: "json list"
  if_status :: ustr

definition has_diagnostic :: "ustr \<Rightarrow> bool" where
  "has_diagnostic s = list_ex (\<lambda>err. py_in err s) DIAGNOSTICS"

text \<open>The entry every tool builds from a payload; the status is
  \<open>"success" if not any(err in summary for err in [...]) else "error"\<close>.\<close>

definition interface_of :: "ustr \<Rightarrow> payload \<Rightarrow> interface_result" where
  "interface_of objective p =
     \<lparr>if_objective = objective,
      if_result = summary p,
      if_raw = raw p,
      if_status = (if \<not> has_diagnostic (summary p) then status_success else status_error)\<rparr>"

text \<open>
  The interfaces of the four tools. The source collects them from a thread pool in the order
  of completion; they are keyed by data type, and here they stand in the order of the
  objectives.
\<close>

definition fundamental_interfaces :: "tool_env \<Rightarrow> ustr option \<Rightarrow> (ustr \<times> interface_result) list" where
  "fundamental_interfaces env end_date =
     map (\<lambda>(dtype, objective). (dtype, interface_of objective (process_data_type env dtype objective end_date)))
       data_objectives"

definition fund_interfaces :: "tool_env \<Rightarrow> ustr option \<Rightarrow> (ustr \<times> interface_result) list" where
  "fund_interfaces env end_date =
     map (\<lambda>(dtype, objective). (dtype, interface_of objective (process_fund_data_with_llm env dtype objective end_date)))
       fund_data_objectives"

definition tech_interfaces :: "tool_env \<Rightarrow> ustr option \<Rightarrow> (ustr \<times> interface_result) list" where
  "tech_interfaces env end_date =
     map (\<lambda>(dtype, objective). (dtype, interface_of objective (process_tech_data_with_llm env dtype objective end_date)))
       tech_data_objectives"

definition news_interfaces :: "tool_env \<Rightarrow> ustr option \<Rightarrow> (ustr \<times> interface_result) list" where
  "news_interfaces env end_date =
     map (\<lambda>(dtype, objective). (dtype, interface_of objective (process_news_data_with_llm env dtype objective end_date)))
       news_data_objectives"

definition interface_json :: "interface_result \<Rightarrow> json" where
  "interface_json i =
     JObj [(asc ''objective'', JStr (if_objective i)),
           (asc ''result'', JStr (if_result i)),
           (asc ''raw'', JArr (if_raw i)),
           (asc ''status'', JStr (if_status i))]"

definition interfaces_json :: "(ustr \<times> interface_result) list \<Rightarrow> json" where
  "interfaces_json ifs = JObj (map (\<lambda>(dtype, i). (dtype, interface_json i)) ifs)"

definition count_status :: "ustr \<Rightarrow> (ustr \<times> interface_result) list \<Rightarrow> int" where
  "count_status s ifs = int (length (filter (\<lambda>(dtype, i). if_status i = s) ifs))"

definition summary_json :: "(ustr \<times> interface_result) list \<Rightarrow> json" where
  "summary_json ifs =
     JObj [(asc ''total_interfaces'', JInt (int (length ifs))),
           (asc ''successful_interfaces'', JInt (count_status status_success ifs)),
           (asc ''error_interfaces'', JInt (count_status status_error ifs))]"

text \<open>\<open>_format_result_as_text\<close> on the dict a tool has assembled (\<open>doc\<close> is that dict).\<close>

definition interface_text :: "interface_result \<Rightarrow> ustr" where
  "interface_text i =
     (if if_status i = status_success then mark_ok
      else if if_status i = status_error then mark_error else mark_unknown)
     @ txt_open_bracket @ if_objective i @ txt_close_bracket @ [10] @ if_result i"

definition format_result_as_text ::
  "tool_env \<Rightarrow> json \<Rightarrow> ustr \<Rightarrow> ustr list \<Rightarrow> (ustr \<times> interface_result) list \<Rightarrow> ustr" where
  "format_result_as_text env doc analysis_type company_overview ifs =
     (let text_parts =
            (if company_overview \<noteq> []
             then [txt_overview_head @ py_join txt_part_sep company_overview] else [])
            @ (if ifs \<noteq> []
               then [analysis_type @ txt_fullwidth_colon_nl
                     @ py_join txt_part_sep (map (\<lambda>(dtype, i). interface_text i) ifs)]
               else [])
      in if text_parts \<noteq> [] then py_join txt_part_sep text_parts else py_repr env doc)"

subsection \<open>The four tools\<close>

text \<open>
  Each tool saves exactly one tool result, on every path through it, and returns a text.
  \<open>*_output\<close> is the value saved and the text returned; the tool itself saves the value under
  its name. \<open>needs_init\<close> is the test \<open>not cache_manager or not cache_manager.provider\<close>.
\<close>

definition init_failure :: "tool_env \<Rightarrow> ustr option" where
  "init_failure env =
     (if provider_ready env then None
      else (case initialize env of Raised e \<Rightarrow> Some e | Returned u \<Rightarrow> None))"

definition fundamental_output :: "tool_env \<Rightarrow> ustr option \<Rightarrow> tool_value \<times> ustr" where
  "fundamental_output env end_date =
     (case init_failure env of
        Some e \<Rightarrow> (Text (txt_init_failed @ e), txt_init_failed @ e)
      | None \<Rightarrow>
          if \<not> provider_present env then (Text txt_no_provider, txt_no_provider)
          else
            (case make_processor env of
               Raised e \<Rightarrow> (Text (txt_fundamental_error @ e), txt_fundamental_error @ e)
             | Returned u \<Rightarrow>
                 (let interface_results = fundamental_interfaces env end_date;
                      company_summaries =
                        (case company_summary env of
                           None \<Rightarrow> []
                         | Some s \<Rightarrow> if s \<noteq> [] then [s] else []);
                      final_result =
                        JObj [(asc ''analysis_type'', JStr analysis_type_fundamental),
                              (asc ''company_overview'', JArr (map JStr company_summaries)),
                              (asc ''interfaces'', interfaces_json interface_results),
                              (asc ''summary'', summary_json interface_results)]
                  in (Structured final_result,
                      format_result_as_text env final_result analysis_type_fundamental
                        company_summaries interface_results))))"

definition get_fundamental_data ::
  "json_lib \<Rightarrow> clock \<Rightarrow> tool_env \<Rightarrow> ustr \<Rightarrow> ustr option \<Rightarrow> store \<Rightarrow> ustr \<times> store" where
  "get_fundamental_data lib clk env stock end_date st =
     (case fundamental_output env end_date of
        (v, ret) \<Rightarrow> (ret, save_tool_result lib clk stock (asc ''fundamental_data'') v end_date st))"

definition mock_fund_data :: "ustr \<Rightarrow> json" where
  "mock_fund_data stock =
     JObj [(asc ''analysis_type'', JStr analysis_type_fund),
           (asc ''interfaces'', JObj []),
           (asc ''summary'', JObj [(asc ''total_interfaces'', JInt 0),
                                   (asc ''successful_interfaces'', JInt 0),
                                   (asc ''error_interfaces'', JInt 0)]),
           (asc ''note'', JObj [(asc ''type'', JStr (asc ''mock'')),
                                (asc ''message'', JArr (map JStr (mock_fund_lines stock)))])]"

definition fund_error_doc :: "ustr \<Rightarrow> json" where
  "fund_error_doc msg =
     JObj [(asc ''analysis_type'', JStr analysis_type_fund), (asc ''error'', JStr msg)]"

definition fund_output :: "json_lib \<Rightarrow> tool_env \<Rightarrow> ustr \<Rightarrow> ustr option \<Rightarrow> tool_value \<times> ustr" where
  "fund_output lib env stock end_date =
     (case init_failure env of
        Some e \<Rightarrow>
          (Structured (fund_error_doc (txt_init_failed @ e)),
           dumps lib (fund_error_doc (txt_init_failed @ e)))
      | None \<Rightarrow>
          if \<not> provider_present env
          then (Structured (mock_fund_data stock), dumps lib (mock_fund_data stock))
          else
            (case make_processor env of
               Raised e \<Rightarrow>
                 (Structured (fund_error_doc (txt_fund_error @ e)),
                  dumps lib (fund_error_doc (txt_fund_error @ e)))
             | Returned u \<Rightarrow>
                 (let interface_results = fund_interfaces env end_date;
                      final_result =
                        JObj [(asc ''analysis_type'', JStr analysis_type_fund),
                              (asc ''interfaces'', interfaces_json interface_results),
                              (asc ''summary'', summary_json interface_results)]
                  in (Structured final_result,
                      format_result_as_text env final_result analysis_type_fund []
                        interface_results))))"

definition get_fund_data ::
  "json_lib \<Rightarrow> clock \<Rightarrow> tool_env \<Rightarrow> ustr \<Rightarrow> ustr option \<Rightarrow> store \<Rightarrow> ustr \<times> store" where
  "get_fund_data lib clk env stock end_date st =
     (case fund_output lib env stock end_date of
        (v, ret) \<Rightarrow> (ret, save_tool_result lib clk stock (asc ''fund_data'') v end_date st))"

definition mock_tech_data :: "ustr \<Rightarrow> ustr" where
  "mock_tech_data stock = py_join [10] (mock_tech_lines stock)"

definition tech_output :: "tool_env \<Rightarrow> ustr \<Rightarrow> ustr option \<Rightarrow> tool_value \<times> ustr" where
  "tech_output env stock end_date =
     (case init_failure env of
        Some e \<Rightarrow> (Text (mock_tech_data stock), mock_tech_data stock)
      | None \<Rightarrow>
          if \<not> provider_present env then (Text (mock_tech_data stock), mock_tech_data stock)
          else if \<not> has_pro_bar env then (Text (mock_tech_data stock), mock_tech_data stock)
          else
            (case make_processor env of
               Raised e \<Rightarrow> (Text (txt_tech_error @ e), txt_tech_error @ e)
             | Returned u \<Rightarrow>
                 (let interface_results = tech_interfaces env end_date;
                      final_result =
                        JObj [(asc ''analysis_type'', JStr analysis_type_tech),
                              (asc ''interfaces'', interfaces_json interface_results),
                              (asc ''summary'', summary_json interface_results)]
                  in (Structured final_result,
                      format_result_as_text env final_result analysis_type_tech []
                        interface_results))))"

definition get_tech_data ::
  "json_lib \<Rightarrow> clock \<Rightarrow> tool_env \<Rightarrow> ustr \<Rightarrow> ustr option \<Rightarrow> store \<Rightarrow> ustr \<times> store" where
  "get_tech_data lib clk env stock end_date st =
     (case tech_output env stock end_date of
        (v, ret) \<Rightarrow> (ret, save_tool_result lib clk stock (asc ''tech_data'') v end_date st))"

definition mock_news_data :: "ustr \<Rightarrow> ustr" where
  "mock_news_data stock = py_join [10] (mock_news_lines stock)"

text \<open>The combined summary of \<open>get_news\<close>: the non-empty results of the three interfaces,
  in the fixed order news, major news, CCTV news, joined by the separator.\<close>

definition combined_summary_text :: "(ustr \<times> interface_result) list \<Rightarrow> ustr" where
  "combined_summary_text ifs =
     (let combined_summaries =
            concat (map (\<lambda>k. case map_of ifs k of
                                None \<Rightarrow> []
                              | Some i \<Rightarrow> if if_result i \<noteq> [] then [if_result i] else [])
                        [asc ''news'', asc ''major_news'', asc ''cctv_news''])
      in if combined_summaries \<noteq> [] then py_join txt_summary_sep combined_summaries
         else txt_no_news_summary)"

definition news_final_result :: "(ustr \<times> interface_result) list \<Rightarrow> json" where
  "news_final_result interface_results =
     JObj [(asc ''analysis_type'', JStr analysis_type_news),
           (asc ''combined_summary'', JStr (combined_summary_text interface_results)),
           (asc ''interfaces'', interfaces_json interface_results),
           (asc ''summary'', summary_json interface_results)]"

definition news_output :: "tool_env \<Rightarrow> ustr \<Rightarrow> ustr option \<Rightarrow> tool_value \<times> ustr" where
  "news_output env stock end_date =
     (case init_failure env of
        Some e \<Rightarrow> (Text (txt_init_failed @ e), txt_init_failed @ e)
      | None \<Rightarrow>
          if \<not> news_provider_present env then (Text (mock_news_data stock), mock_news_data stock)
          else
            (case make_processor env of
               Raised e \<Rightarrow> (Text (txt_news_error @ e), txt_news_error @ e)
             | Returned u \<Rightarrow>
                 (let interface_results = news_interfaces env end_date
                  in (Structured (news_final_result interface_results),
                      combined_summary_text interface_results))))"

definition get_news ::
  "json_lib \<Rightarrow> clock \<Rightarrow> tool_env \<Rightarrow> ustr \<Rightarrow> ustr option \<Rightarrow> store \<Rightarrow> ustr \<times> store" where
  "get_news lib clk env stock end_date st =
     (case news_output env stock end_date of
        (v, ret) \<Rightarrow> (ret, save_tool_result lib clk stock (asc ''news_data'') v end_date st))"

section \<open>The analysis nodes (graph/nodes/analysis\_nodes.py)\<close>

text \<open>Texts of the default report of the fund node: the analyst name (fund flow analyst),
  \<open><fetching the fund data failed>: \<close> and \<open><the fund data tool failed, error message>: \<close>.\<close>

definition txt_fund_analyst :: ustr where
  "txt_fund_analyst = [36164, 37329, 27969, 21521, 20998, 26512, 24072]"

definition txt_fund_reason :: ustr where
  "txt_fund_reason =
    [36164, 37329, 38754, 25968, 25454, 33719, 21462, 22833, 36133, 58, 32]"

definition txt_fund_detail :: ustr where
  "txt_fund_detail =
    [36164, 37329, 38754, 25968, 25454, 24037, 20855, 35843, 29992, 22833, 36133, 65292, 38169,
    35823, 20449, 24687, 58, 32]"

text \<open>
  The language model behind every chain, and \<open>AGENT_ROLES\<close>, are parameters:
  \<open>chain p inputs\<close> is \<open>(PROMPT | llm).invoke(inputs).content\<close> for the prompt named \<open>p\<close>, or
  the exception the call raises. \<open>result_summary\<close> is the text of \<open>get_result_summary\<close>, which
  only lists the directory of the stock and writes nothing.
\<close>

record agents =
  chain :: "ustr \<Rightarrow> json \<Rightarrow> ustr outcome"
  roles :: "ustr \<Rightarrow> ustr"
  result_summary :: "ustr \<Rightarrow> store \<Rightarrow> ustr"

definition report_or_empty :: "json option \<Rightarrow> json" where
  "report_or_empty r = (case r of None \<Rightarrow> JObj [] | Some v \<Rightarrow> v)"

definition opt_str :: "ustr option \<Rightarrow> json" where
  "opt_str s = (case s of None \<Rightarrow> JNull | Some t \<Rightarrow> JStr t)"

text \<open>The inputs of an analyst chain whose data is one text or document.\<close>

definition analyst_inputs :: "agents \<Rightarrow> ustr \<Rightarrow> ustr \<Rightarrow> json \<Rightarrow> ustr \<Rightarrow> ustr option \<Rightarrow> json" where
  "analyst_inputs ag stock data_key data role ed =
     JObj [(asc ''stock_code'', JStr stock),
           (data_key, data),
           (asc ''role_description'', JStr (roles ag role)),
           (asc ''analysis_period'', JStr (get_analysis_period ed))]"

text \<open>
  A node takes the state and the store and returns the state with its report merged in and
  the new store, or raises when its chain raises (only the fund node catches that).
\<close>

definition run_fundamental_analysis ::
  "json_lib \<Rightarrow> clock \<Rightarrow> tool_env \<Rightarrow> agents \<Rightarrow> agent_state \<Rightarrow> store \<Rightarrow> (agent_state \<times> store) outcome" where
  "run_fundamental_analysis lib clk env ag state st =
     (let stock = req_stock_code state; ed = req_end_date state
      in case get_fundamental_data lib clk env stock ed st of
           (fundamental_data, st1) \<Rightarrow>
             (case chain ag (asc ''FUNDAMENTAL_PROMPT'')
                     (analyst_inputs ag stock (asc ''fundamental_data'') (JStr fundamental_data)
                        (asc ''fundamental_analyst'') ed) of
                Raised e \<Rightarrow> Raised e
              | Returned content \<Rightarrow>
                  (let analyst_report = parse_analyst_report lib content
                   in Returned
                        (state\<lparr>fundamental_report := Some analyst_report\<rparr>,
                         snd (save_report clk stock (asc ''fundamental'') analyst_report
                                (Some (asc ''fundamental_report'')) ed st1)))))"

definition run_technical_analysis ::
  "json_lib \<Rightarrow> clock \<Rightarrow> tool_env \<Rightarrow> agents \<Rightarrow> agent_state \<Rightarrow> store \<Rightarrow> (agent_state \<times> store) outcome" where
  "run_technical_analysis lib clk env ag state st =
     (let stock = req_stock_code state; ed = req_end_date state
      in case get_tech_data lib clk env stock ed st of
           (tech_data, st1) \<Rightarrow>
             (case chain ag (asc ''TECHNICAL_PROMPT'')
                     (analyst_inputs ag stock (asc ''tech_data'') (JStr tech_data)
                        (asc ''technical_analyst'') ed) of
                Raised e \<Rightarrow> Raised e
              | Returned content \<Rightarrow>
                  (let analyst_report = parse_analyst_report lib content
                   in Returned
                        (state\<lparr>technical_report := Some analyst_report\<rparr>,
                         snd (save_report clk stock (asc ''technical'') analyst_report
                                (Some (asc ''technical_report'')) ed st1)))))"

text \<open>The default report of the fund node for an exception with message \<open>e\<close>.\<close>

definition fund_default_report :: "ustr \<Rightarrow> json" where
  "fund_default_report e =
     JObj [(k_analyst_name, JStr txt_fund_analyst),
           (k_viewpoint, JStr label_neutral),
           (k_reason, JStr (txt_fund_reason @ e)),
           (k_scores, JObj [(asc ''main_capital'', JInt 0),
                            (asc ''institution_capital'', JInt 0),
                            (asc ''retail_capital'', JInt 0)]),
           (k_detailed_analysis, JStr (txt_fund_detail @ e))]"

definition run_fund_analysis ::
  "json_lib \<Rightarrow> clock \<Rightarrow> tool_env \<Rightarrow> agents \<Rightarrow> agent_state \<Rightarrow> store \<Rightarrow> (agent_state \<times> store) outcome" where
  "run_fund_analysis lib clk env ag state st =
     (let stock = req_stock_code state; ed = req_end_date state
      in case get_fund_data lib clk env stock ed st of
           (fund_data, st1) \<Rightarrow>
             (let analyst_report =
                    (case chain ag (asc ''FUND_PROMPT'')
                            (analyst_inputs ag stock (asc ''fund_data'') (JStr fund_data)
                               (asc ''fund_analyst'') ed) of
                       Raised e \<Rightarrow> fund_default_report e
                     | Returned content \<Rightarrow> parse_analyst_report lib content)
              in Returned
                   (state\<lparr>fund_report := Some analyst_report\<rparr>,
                    snd (save_report clk stock (asc ''fund'') analyst_report
                           (Some (asc ''fund_report'')) ed st1))))"

text \<open>
  The news node reads \<open>load_news_data\<close> first: from a dict with a true \<open>data\<close> it takes
  \<open>json.dumps(data)\<close>, from another dict its \<open>result\<close> (or \<open>str\<close> of the dict); a document
  that is not a dict raises on \<open>.get\<close> and counts as nothing. Only when this gives nothing
  true does it call \<open>get_news\<close>.
\<close>

definition stored_news_data :: "json_lib \<Rightarrow> tool_env \<Rightarrow> json option \<Rightarrow> json option" where
  "stored_news_data lib env news_data_dict =
     (case news_data_dict of
        None \<Rightarrow> None
      | Some d \<Rightarrow>
          if \<not> py_truthy d then None
          else (case d of
                  JObj kvs \<Rightarrow>
                    (case dict_get kvs (asc ''data'') of
                       Some v \<Rightarrow>
                         if py_truthy v then Some (JStr (dumps lib v))
                         else (case dict_get kvs (asc ''result'') of
                                 Some r \<Rightarrow> Some r
                               | None \<Rightarrow> Some (JStr (py_repr env d)))
                     | None \<Rightarrow>
                         (case dict_get kvs (asc ''result'') of
                            Some r \<Rightarrow> Some r
                          | None \<Rightarrow> Some (JStr (py_repr env d))))
                | _ \<Rightarrow> None))"

definition run_news_analysis ::
  "json_lib \<Rightarrow> clock \<Rightarrow> tool_env \<Rightarrow> agents \<Rightarrow> agent_state \<Rightarrow> store \<Rightarrow> (agent_state \<times> store) outcome" where
  "run_news_analysis lib clk env ag state st =
     (let stock = req_stock_code state; ed = req_end_date state;
          from_store = stored_news_data lib env (load_news_data clk stock ed st);
          fetched =
            (case from_store of
               Some v \<Rightarrow> if py_truthy v then (v, st)
                         else (case get_news lib clk env stock ed st of (t, st1) \<Rightarrow> (JStr t, st1))
             | None \<Rightarrow> (case get_news lib clk env stock ed st of (t, st1) \<Rightarrow> (JStr t, st1)))
      in case fetched of
           (news_data, st1) \<Rightarrow>
             (case chain ag (asc ''NEWS_PROMPT'')
                     (analyst_inputs ag stock (asc ''news_data'') news_data (asc ''news_analyst'') ed) of
                Raised e \<Rightarrow> Raised e
              | Returned content \<Rightarrow>
                  (let analyst_report = parse_analyst_report lib content
                   in Returned
                        (state\<lparr>news_report := Some analyst_report\<rparr>,
                         snd (save_report clk stock (asc ''news'') analyst_report
                                (Some (asc ''news_report'')) ed st1)))))"

subsection \<open>The sentiment node\<close>

text \<open>\<open>len(x)\<close> is defined on strings, lists and dicts; on anything else it raises, and the
  node then falls back to the empty string.\<close>

definition has_len :: "json \<Rightarrow> bool" where
  "has_len v = (case v of JStr s \<Rightarrow> True | JArr xs \<Rightarrow> True | JObj kvs \<Rightarrow> True | _ \<Rightarrow> False)"

definition get_or_empty :: "(ustr \<times> json) list \<Rightarrow> ustr \<Rightarrow> json" where
  "get_or_empty kvs k = (case dict_get kvs k of None \<Rightarrow> JStr [] | Some v \<Rightarrow> v)"

text \<open>The combined news summary the sentiment node reads from the tool result \<open>news_data\<close>.\<close>

definition news_combined_summary_of :: "json option \<Rightarrow> json" where
  "news_combined_summary_of news_data =
     (let v =
            (case news_data of
               Some (JObj kvs) \<Rightarrow>
                 (case dict_get kvs (asc ''data'') of
                    None \<Rightarrow> JStr []
                  | Some (JObj data_section) \<Rightarrow> get_or_empty data_section (asc ''combined_summary'')
                  | Some other \<Rightarrow> get_or_empty kvs (asc ''combined_summary''))
             | Some (JStr s) \<Rightarrow> JStr s
             | _ \<Rightarrow> JStr [])
      in if has_len v then v else JStr [])"

text \<open>\<open>f"{x}"\<close> of a document: a string as it is, anything else through \<open>str\<close>.\<close>

definition format_value :: "tool_env \<Rightarrow> json \<Rightarrow> ustr" where
  "format_value env v = (case v of JStr s \<Rightarrow> s | _ \<Rightarrow> py_repr env v)"

text \<open>
  One interface of the fundamental tool result in the loop of the sentiment node: nothing
  (\<open>Returned None\<close>), the text to collect, or the exception of \<open>.strip()\<close> on a true result
  that is not a string.
\<close>

definition interface_entry_text :: "tool_env \<Rightarrow> ustr \<Rightarrow> json \<Rightarrow> ustr option outcome" where
  "interface_entry_text env interface_name interface_data =
     (case interface_data of
        JObj kvs \<Rightarrow>
          (case dict_get kvs (asc ''result'') of
             None \<Rightarrow> Returned None
           | Some r \<Rightarrow>
               if \<not> py_truthy r then Returned None
               else (case r of
                       JStr s \<Rightarrow>
                         if py_strip s \<noteq> []
                         then Returned (Some (txt_open_bracket
                                @ format_value env (case dict_get kvs (asc ''objective'') of
                                                      None \<Rightarrow> JStr interface_name | Some ob \<Rightarrow> ob)
                                @ txt_close_bracket @ [10] @ s))
                         else Returned None
                     | _ \<Rightarrow> Raised (asc ''AttributeError'')))
      | _ \<Rightarrow> Returned None)"

fun collect_results :: "tool_env \<Rightarrow> (ustr \<times> json) list \<Rightarrow> ustr list outcome" where
  "collect_results env [] = Returned []"
| "collect_results env ((interface_name, interface_data) # rest) =
     (case interface_entry_text env interface_name interface_data of
        Raised e \<Rightarrow> Raised e
      | Returned x \<Rightarrow>
          (case collect_results env rest of
             Raised e \<Rightarrow> Raised e
           | Returned xs \<Rightarrow> Returned ((case x of None \<Rightarrow> [] | Some t \<Rightarrow> [t]) @ xs)))"

definition fundamental_result_of :: "tool_env \<Rightarrow> json option \<Rightarrow> json" where
  "fundamental_result_of env fundamental_data =
     (let v =
            (case fundamental_data of
               Some (JObj kvs) \<Rightarrow>
                 (case dict_get kvs (asc ''data'') of
                    None \<Rightarrow> Returned (JStr [])
                  | Some (JObj data_section) \<Rightarrow>
                      (case dict_get data_section (asc ''interfaces'') of
                         None \<Rightarrow> Returned (get_or_empty data_section (asc ''result''))
                       | Some interfaces \<Rightarrow>
                           if \<not> py_truthy interfaces
                           then Returned (get_or_empty data_section (asc ''result''))
                           else (case interfaces of
                                   JObj ifs \<Rightarrow>
                                     (case collect_results env ifs of
                                        Raised e \<Rightarrow> Raised e
                                      | Returned results \<Rightarrow>
                                          Returned (JStr (if results \<noteq> []
                                                          then py_join blank_line results else [])))
                                 | _ \<Rightarrow> Raised (asc ''AttributeError'')))
                  | Some other \<Rightarrow> Returned (get_or_empty kvs (asc ''result'')))
             | _ \<Rightarrow> Returned (JStr []))
      in case v of
           Raised e \<Rightarrow> JStr []
         | Returned r \<Rightarrow> if has_len r then r else JStr [])"

text \<open>The fallback to the fundamental report of the state, when nothing true was read.\<close>

definition fundamental_result_fallback :: "agent_state \<Rightarrow> json \<Rightarrow> json" where
  "fundamental_result_fallback state fundamental_result =
     (if py_truthy fundamental_result then fundamental_result
      else (case fundamental_report state of
              Some (JObj kvs) \<Rightarrow>
                if kvs = [] then fundamental_result
                else (case dict_get kvs k_reason of
                        Some r \<Rightarrow> r
                      | None \<Rightarrow>
                          (case dict_get kvs k_detailed_analysis of
                             Some d \<Rightarrow> d
                           | None \<Rightarrow> fundamental_result))
            | _ \<Rightarrow> fundamental_result))"

definition sentiment_input_of :: "clock \<Rightarrow> tool_env \<Rightarrow> agent_state \<Rightarrow> store \<Rightarrow> json" where
  "sentiment_input_of clk env state st =
     (let stock = req_stock_code state; ed = req_end_date state
      in JObj [(asc ''stock_code'', JStr stock),
               (asc ''end_date'', opt_str ed),
               (asc ''news_combined_summary'',
                  news_combined_summary_of (load_tool_result clk stock (asc ''news_data'') ed st)),
               (asc ''fundamental_result'',
                  fundamental_result_fallback state
                    (fundamental_result_of env
                       (load_tool_result clk stock (asc ''fundamental_data'') ed st)))])"

definition run_sentiment_analysis ::
  "json_lib \<Rightarrow> clock \<Rightarrow> tool_env \<Rightarrow> agents \<Rightarrow> agent_state \<Rightarrow> store \<Rightarrow> (agent_state \<times> store) outcome" where
  "run_sentiment_analysis lib clk env ag state st =
     (let stock = req_stock_code state; ed = req_end_date state;
          sentiment_input = sentiment_input_of clk env state st;
          st1 = save_tool_result lib clk stock (asc ''sentiment_input'') (Structured sentiment_input) ed st
      in case chain ag (asc ''SENTIMENT_PROMPT'')
                (analyst_inputs ag stock (asc ''sentiment_data'') (JStr (dumps lib sentiment_input))
                   (asc ''sentiment_analyst'') ed) of
           Raised e \<Rightarrow> Raised e
         | Returned content \<Rightarrow>
             (let analyst_report = parse_analyst_report lib content
              in Returned
                   (state\<lparr>sentiment_report := Some analyst_report\<rparr>,
                    snd (save_report clk stock (asc ''sentiment'') analyst_report
                           (Some (asc ''sentiment_report'')) ed st1))))"

subsection \<open>The supervisor node\<close>

text \<open>
  The news summary of the supervisor: it reads \<open>load_news_data\<close> and looks for
  \<open>combined_summary\<close>, then \<open>result\<close>, at the top level of the document; without a document,
  or with neither key true, the summary stays the empty string.
\<close>

definition supervisor_news_summary :: "clock \<Rightarrow> agent_state \<Rightarrow> store \<Rightarrow> json" where
  "supervisor_news_summary clk state st =
     (case load_news_data clk (req_stock_code state) (req_end_date state) st of
        Some (JObj kvs) \<Rightarrow>
          (case dict_get kvs (asc ''combined_summary'') of
             Some c \<Rightarrow>
               if py_truthy c then c
               else (case dict_get kvs (asc ''result'') of
                       Some r \<Rightarrow> if py_truthy r then r else JStr []
                     | None \<Rightarrow> JStr [])
           | None \<Rightarrow>
               (case dict_get kvs (asc ''result'') of
                  Some r \<Rightarrow> if py_truthy r then r else JStr []
                | None \<Rightarrow> JStr []))
      | Some (JStr s) \<Rightarrow> JStr s
      | _ \<Rightarrow> JStr [])"

text \<open>The inputs of the supervisor chain, in the order of the source.\<close>

definition supervisor_inputs :: "clock \<Rightarrow> agents \<Rightarrow> agent_state \<Rightarrow> store \<Rightarrow> (ustr \<times> json) list" where
  "supervisor_inputs clk ag state st =
     [(asc ''stock_code'', JStr (req_stock_code state)),
      (asc ''fundamental_report'', report_or_empty (fundamental_report state)),
      (asc ''technical_report'', report_or_empty (technical_report state)),
      (asc ''sentiment_report'', report_or_empty (sentiment_report state)),
      (asc ''fund_report'', report_or_empty (fund_report state)),
      (asc ''news_summary'', supervisor_news_summary clk state st),
      (asc ''role_description'', JStr (roles ag (asc ''supervisor''))),
      (asc ''analysis_period'', JStr (get_analysis_period (req_end_date state)))]"

definition run_supervisor ::
  "json_lib \<Rightarrow> clock \<Rightarrow> agents \<Rightarrow> agent_state \<Rightarrow> store \<Rightarrow> (agent_state \<times> store) outcome" where
  "run_supervisor lib clk ag state st =
     (case chain ag (asc ''SUPERVISOR_PROMPT'') (JObj (supervisor_inputs clk ag state st)) of
        Raised e \<Rightarrow> Raised e
      | Returned content \<Rightarrow>
          (let supervisor_report_data = parse_supervisor_report lib content
           in Returned
                (state\<lparr>supervisor_report := Some supervisor_report_data\<rparr>,
                 snd (save_report clk (req_stock_code state) (asc ''supervisor'') supervisor_report_data
                        (Some (asc ''supervisor_report'')) (req_end_date state) st))))"

subsection \<open>The final node and the graph (graph/main\_graph.py)\<close>

text \<open>\<open>final_result_save\<close>: saves the reports of the state again, then the summary under the
  name \<open>analysis_summary\<close>, without passing \<open>end_date\<close>. It returns the saved files, the
  address of the summary and the store.\<close>

definition final_result_save ::
  "clock \<Rightarrow> agents \<Rightarrow> agent_state \<Rightarrow> store \<Rightarrow> ((ustr \<times> path) list \<times> path) \<times> store" where
  "final_result_save clk ag state st =
     (case save_all_reports clk state st of
        (saved_files, st1) \<Rightarrow>
          (case save_report clk (req_stock_code state) (asc ''summary'')
                  (JStr (result_summary ag (req_stock_code state) st1))
                  (Some (asc ''analysis_summary'')) None st1 of
             (summary_filepath, st2) \<Rightarrow> ((saved_files, summary_filepath), st2)))"

text \<open>
  The graph of \<open>build_graph\<close>, run in one order that respects its edges: fundamental, news,
  technical, fund, then sentiment (these five are \<open>run_analysts\<close>), then supervisor, then
  the final node. The four nodes started together do not read what another of them writes.
\<close>

definition then_node ::
  "(agent_state \<times> store) outcome \<Rightarrow> (agent_state \<Rightarrow> store \<Rightarrow> (agent_state \<times> store) outcome)
     \<Rightarrow> (agent_state \<times> store) outcome" where
  "then_node r f = (case r of Raised e \<Rightarrow> Raised e | Returned (state, st) \<Rightarrow> f state st)"

definition initial_state :: "ustr \<Rightarrow> ustr option \<Rightarrow> agent_state" where
  "initial_state stock ed =
     \<lparr>req_stock_code = stock, req_end_date = ed,
      fundamental_report = None, technical_report = None, sentiment_report = None,
      news_report = None, fund_report = None, bull_report = None, bear_report = None,
      debate_report = None, supervisor_report = None\<rparr>"

definition run_analysts ::
  "json_lib \<Rightarrow> clock \<Rightarrow> tool_env \<Rightarrow> agents \<Rightarrow> agent_state \<Rightarrow> store \<Rightarrow> (agent_state \<times> store) outcome" where
  "run_analysts lib clk env ag state st =
     then_node
       (then_node
          (then_node
             (then_node (run_fundamental_analysis lib clk env ag state st)
                (run_news_analysis lib clk env ag))
             (run_technical_analysis lib clk env ag))
          (run_fund_analysis lib clk env ag))
       (run_sentiment_analysis lib clk env ag)"

definition run_graph ::
  "json_lib \<Rightarrow> clock \<Rightarrow> tool_env \<Rightarrow> agents \<Rightarrow> agent_state \<Rightarrow> store \<Rightarrow> (agent_state \<times> store) outcome" where
  "run_graph lib clk env ag state st =
     then_node
       (then_node (run_analysts lib clk env ag state st) (run_supervisor lib clk ag))
       (\<lambda>state' st'. Returned (state', snd (final_result_save clk ag state' st')))"

section \<open>Properties of the data tools\<close>

text \<open>The four tools seen through one interface.\<close>

definition tool_objectives :: "tool \<Rightarrow> (ustr \<times> ustr) list" where
  "tool_objectives t =
     (case t of Fundamental \<Rightarrow> data_objectives | Technical \<Rightarrow> tech_data_objectives
      | Fund \<Rightarrow> fund_data_objectives | News \<Rightarrow> news_data_objectives)"

definition tool_payload :: "tool_env \<Rightarrow> tool \<Rightarrow> ustr \<Rightarrow> ustr \<Rightarrow> ustr option \<Rightarrow> payload" where
  "tool_payload env t =
     (case t of Fundamental \<Rightarrow> process_data_type env | Technical \<Rightarrow> process_tech_data_with_llm env
      | Fund \<Rightarrow> process_fund_data_with_llm env | News \<Rightarrow> process_news_data_with_llm env)"

definition tool_interfaces :: "tool_env \<Rightarrow> tool \<Rightarrow> ustr option \<Rightarrow> (ustr \<times> interface_result) list" where
  "tool_interfaces env t ed =
     (case t of Fundamental \<Rightarrow> fundamental_interfaces env ed | Technical \<Rightarrow> tech_interfaces env ed
      | Fund \<Rightarrow> fund_interfaces env ed | News \<Rightarrow> news_interfaces env ed)"


lemma tool_interfaces_eq:
  "tool_interfaces env t ed =
     map (\<lambda>(dtype, objective). (dtype, interface_of objective (tool_payload env t dtype objective ed)))
       (tool_objectives t)"
  by (cases t)
    (simp_all add: tool_interfaces_def tool_payload_def tool_objectives_def
      fundamental_interfaces_def tech_interfaces_def fund_interfaces_def news_interfaces_def)

lemma tool_interfaces_entry:
  assumes "(dtype, i) \<in> set (tool_interfaces env t ed)"
  obtains objective where "(dtype, objective) \<in> set (tool_objectives t)"
    and "i = interface_of objective (tool_payload env t dtype objective ed)"
  using assms by (auto simp: tool_interfaces_eq)

lemma has_diagnostic_iff:
  "has_diagnostic s \<longleftrightarrow>
     py_in diag_report_error s \<or> py_in diag_summary_error s \<or> py_in diag_fetch_failed s
     \<or> py_in (asc ''Error code:'') s"
  by (simp add: has_diagnostic_def DIAGNOSTICS_def)

lemma status_values_distinct: "status_success \<noteq> status_error"
  by (simp add: status_success_def status_error_def asc_def)

lemma interface_of_status:
  "if_status (interface_of objective p) = status_success \<longleftrightarrow> \<not> has_diagnostic (if_result (interface_of objective p))"
  "if_status (interface_of objective p) = status_error \<longleftrightarrow> has_diagnostic (if_result (interface_of objective p))"
  using status_values_distinct by (auto simp: interface_of_def)

text \<open>
  C10. In every interface of every tool result the status is \<open>success\<close> exactly when the
  result text contains none of the four diagnostic texts, and \<open>error\<close> exactly when it
  contains one; this holds whatever the fetch and the summarising call did (\<open>env\<close> is
  arbitrary), so the status is a function of the text alone.
\<close>

theorem status_is_substring_test:
  assumes "(dtype, i) \<in> set (tool_interfaces env t ed)"
  shows "(if_status i = status_success \<longleftrightarrow>
            \<not> py_in diag_report_error (if_result i) \<and> \<not> py_in diag_summary_error (if_result i)
            \<and> \<not> py_in diag_fetch_failed (if_result i) \<and> \<not> py_in (asc ''Error code:'') (if_result i))
         \<and> (if_status i = status_error \<longleftrightarrow>
            py_in diag_report_error (if_result i) \<or> py_in diag_summary_error (if_result i)
            \<or> py_in diag_fetch_failed (if_result i) \<or> py_in (asc ''Error code:'') (if_result i))"
proof -
  from assms obtain objective where
    i: "i = interface_of objective (tool_payload env t dtype objective ed)"
    by (rule tool_interfaces_entry)
  show ?thesis
    unfolding i using interface_of_status [of objective "tool_payload env t dtype objective ed"]
    by (simp add: has_diagnostic_iff)
qed

subsection \<open>A sample environment\<close>

text \<open>
  An environment for the examples: the provider is ready; the fetch of \<open>income\<close> raises, the
  fetch of \<open>daily_basic\<close> returns one row, every other fetch returns nothing; every
  summarising call returns the same short text.
\<close>

definition sample_env :: tool_env where
  "sample_env =
     \<lparr>provider_ready = True, initialize = Returned (), provider_present = True,
      news_provider_present = True, has_pro_bar = True, make_processor = Returned (),
      company_summary = None,
      fetch = (\<lambda>t d. if d = asc ''income'' then FetchRaised (asc ''timeout'')
                      else if d = asc ''daily_basic'' then FetchTable [JObj [(asc ''pe'', JInt 12)]]
                      else FetchNone),
      summarise = (\<lambda>t d. Returned (asc ''steady'')),
      py_repr = (\<lambda>v. asc ''{}'')\<rparr>"

text \<open>The objective of \<open>income\<close> and of \<open>fina_indicator\<close> in \<open>data_objectives\<close>.\<close>

definition income_objective :: ustr where
  "income_objective = [33829, 19994, 25910, 20837, 19982, 21033, 28070, 26500, 25104]"


definition sample_income_interface :: interface_result where
  "sample_income_interface =
     interface_of income_objective (process_data_type sample_env (asc ''income'') income_objective None)"

lemma income_in_methods: "asc ''income'' \<in> set data_fetch_methods"
  by (simp add: data_fetch_methods_def asc_def)


lemma sample_income_result:
  "if_result sample_income_interface = txt_open_bracket @ income_objective @ txt_fetch_failed_sep @ asc ''timeout''"
  by (simp add: sample_income_interface_def interface_of_def process_data_type_def income_in_methods
      sample_env_def fetch_failed_def)

lemma sample_income_member:
  "(asc ''income'', sample_income_interface) \<in> set (tool_interfaces sample_env Fundamental None)"
  by (simp add: tool_interfaces_def fundamental_interfaces_def data_objectives_def
      sample_income_interface_def income_objective_def)

theorem status_is_substring_test_witness:
  "(asc ''income'', sample_income_interface) \<in> set (tool_interfaces sample_env Fundamental None)
   \<and> py_in diag_fetch_failed (if_result sample_income_interface)
   \<and> if_status sample_income_interface = status_error"
proof -
  have d: "py_in diag_fetch_failed (if_result sample_income_interface)"
    by (simp add: sample_income_result py_in_iff txt_fetch_failed_sep_def diag_fetch_failed_def)
      (rule exI [of _ "txt_open_bracket @ income_objective @ [12305, 58, 32]"], simp)
  from status_is_substring_test [OF sample_income_member] d
  have "if_status sample_income_interface = status_error" by blast
  with sample_income_member d show ?thesis by simp
qed

subsection \<open>Empty tables\<close>










text \<open>A text is free of diagnostics when it lacks U+9519, U+83B7 and the letter E: each of the
  four diagnostic texts contains one of the three.\<close>

definition diag_free :: "ustr \<Rightarrow> bool" where
  "diag_free s \<longleftrightarrow> 38169 \<notin> set s \<and> 33719 \<notin> set s \<and> 69 \<notin> set s"

lemma diag_free_append [simp]: "diag_free (a @ b) \<longleftrightarrow> diag_free a \<and> diag_free b"
  by (auto simp: diag_free_def)







definition window_suffix :: "tool \<Rightarrow> ustr" where
  "window_suffix t = (case t of Fundamental \<Rightarrow> [] | _ \<Rightarrow> txt_between)"








section \<open>The window at a concrete date\<close>

lemmas strptime_eval = strptime_def fmt_compact_def fmt_dash_def fmt_slash_def fmt_dot_def fmt_cn_def
  fmt_sep_def asc_def alts_m_def alts_d_def two_chars_def one_char_def is_digit_def is_1_to_9_def
  dec2_def mk_date_def days_in_month_def is_leap_def

lemmas ordinal_eval = date_minus_days_def ymd2ord_def days_before_year_def days_before_month_def
  DAYS_BEFORE_MONTH_def ord2ymd_def days_in_month_def is_leap_def Let_def

lemmas strftime_eval = strftime_compact_def strftime_dashed_def pad4_def pad2_def digit_char_def asc_def

definition date_20250914 :: date where
  "date_20250914 = \<lparr>year = 2025, month = 9, day = 14\<rparr>"

definition date_20230915 :: date where
  "date_20230915 = \<lparr>year = 2023, month = 9, day = 15\<rparr>"

definition date_20230914 :: date where
  "date_20230914 = \<lparr>year = 2023, month = 9, day = 14\<rparr>"

lemma strptime_compact_20250914: "strptime (asc ''20250914'') fmt_compact = Some date_20250914"
  by (simp add: strptime_eval date_20250914_def)

lemma strptime_dash_20250914: "strptime (asc ''20250914'') fmt_dash = None"
  by (simp add: strptime_eval)



lemma minus_730_days: "date_minus_days date_20250914 (365 * 2) = Some date_20230915"
  by (simp add: ordinal_eval date_20250914_def date_20230915_def)

lemma strftime_compact_20230915: "strftime_compact date_20230915 = asc ''20230915''"
  by (simp add: strftime_eval date_20230915_def)

lemma strftime_compact_20250914: "strftime_compact date_20250914 = asc ''20250914''"
  by (simp add: strftime_eval date_20250914_def)

lemma strftime_dashed_20250914: "strftime_dashed date_20250914 = asc ''2025-09-14''"
  by (simp add: strftime_eval date_20250914_def)

lemma strftime_dashed_20230914: "strftime_dashed date_20230914 = asc ''2023-09-14''"
  by (simp add: strftime_eval date_20230914_def)

lemma replace_year_20250914:
  "date_replace_year date_20250914 (int (year date_20250914) - 2) = Some date_20230914"
  by (simp add: date_replace_year_def mk_date_def days_in_month_def date_20250914_def
      date_20230914_def)

lemma get_date_range_20250914:
  "get_date_range now (Some (asc ''20250914'')) 2 = Some (asc ''20230915'', asc ''20250914'')"
  using minus_730_days
  by (simp add: get_date_range_def strptime_compact_20250914 strftime_compact_20230915
      strftime_compact_20250914)


lemma get_analysis_period_20250914:
  "get_analysis_period (Some (asc ''20250914'')) = asc ''2023-09-14'' @ txt_to @ asc ''2025-09-14''"
proof -
  have "asc ''20250914'' \<noteq> []" by (simp add: asc_def)
  moreover have "parse_date (asc ''20250914'') = Some date_20250914"
    using \<open>asc ''20250914'' \<noteq> []\<close>
    by (simp add: parse_date_def strptime_dash_20250914 strptime_compact_20250914)
  ultimately show ?thesis
    by (simp add: get_analysis_period_def replace_year_20250914 strftime_dashed_20250914
        strftime_dashed_20230914)
qed

text \<open>What \<open>replace(year=...)\<close> gives whenever it gives a date: the same month and day, two
  years earlier.\<close>

lemma replace_year_preserves:
  "date_replace_year dt (int (year dt) - 2) = Some start_dt \<Longrightarrow>
     month start_dt = month dt \<and> day start_dt = day dt \<and> year start_dt + 2 = year dt"
  by (auto simp: date_replace_year_def mk_date_def split: if_splits)

text \<open>
  C1 at the failing input \<open>end_date = "20250914"\<close>. The providers fetch from 15 September
  2023 (730 days back, the leap day of 2024 lying in between), while the same request's
  \<open>analysis_period\<close>, computed by \<open>replace(year=year - 2)\<close>, starts on 14 September 2023: the
  window of the fetches is not the end date minus two calendar years, and the two windows
  differ.
\<close>

theorem provider_window_is_730_days:
  "get_date_range now (Some (asc ''20250914'')) 2 = Some (asc ''20230915'', asc ''20250914'')
   \<and> get_analysis_period (Some (asc ''20250914'')) = asc ''2023-09-14'' @ txt_to @ asc ''2025-09-14''
   \<and> asc ''20230915'' \<noteq> asc ''20230914''"
  using get_date_range_20250914 [of now] get_analysis_period_20250914
  by (simp add: asc_def)

subsection \<open>Examples for the empty table\<close>









section \<open>What the nodes write\<close>

text \<open>The addresses of the tool result and of the report of a given name for a request.\<close>

definition tool_path :: "clock \<Rightarrow> agent_state \<Rightarrow> ustr \<Rightarrow> path" where
  "tool_path clk state name =
     (req_stock_code state, get_date_dir clk (req_end_date state), name @ asc ''_tool_result.json'')"

definition report_path :: "clock \<Rightarrow> agent_state \<Rightarrow> ustr \<Rightarrow> path" where
  "report_path clk state name =
     (req_stock_code state, get_date_dir clk (req_end_date state), name @ asc ''.json'')"

text \<open>The request of a state: nodes change reports only.\<close>

definition same_request :: "agent_state \<Rightarrow> agent_state \<Rightarrow> bool" where
  "same_request a b \<longleftrightarrow> req_stock_code a = req_stock_code b \<and> req_end_date a = req_end_date b"

text \<open>Every call of a chain returns.\<close>

definition llm_returns :: "agents \<Rightarrow> bool" where
  "llm_returns ag \<longleftrightarrow> (\<forall>p inputs. \<exists>content. chain ag p inputs = Returned content)"

text \<open>Neither of the two files that \<open>load_news_data\<close> reads is in the store.\<close>

definition no_stored_news :: "clock \<Rightarrow> agent_state \<Rightarrow> store \<Rightarrow> bool" where
  "no_stored_news clk state st \<longleftrightarrow>
     files st (tool_path clk state (asc ''news_sentiment_structured'')) = None
     \<and> files st (tool_path clk state (asc ''news_sentiment'')) = None"

lemma write_file_written [simp]: "written (write_file p doc st) = written st @ [p]"
  by (simp add: write_file_def)

lemma write_file_files [simp]: "files (write_file p doc st) q = (if q = p then Some doc else files st q)"
  by (simp add: write_file_def)

lemma save_tool_result_written:
  "written (save_tool_result lib clk (req_stock_code state) name v (req_end_date state) st)
     = written st @ [tool_path clk state name]"
  by (simp add: save_tool_result_def tool_path_def Let_def)

lemma save_tool_result_files:
  "q \<noteq> tool_path clk state name \<Longrightarrow>
     files (save_tool_result lib clk (req_stock_code state) name v (req_end_date state) st) q = files st q"
  by (simp add: save_tool_result_def tool_path_def Let_def)

lemma save_report_written:
  "written (snd (save_report clk (req_stock_code state) report_type doc (Some name) (req_end_date state) st))
     = written st @ [report_path clk state name]"
  by (simp add: save_report_def report_path_def Let_def)

lemma save_report_files:
  "q \<noteq> report_path clk state name \<Longrightarrow>
     files (snd (save_report clk (req_stock_code state) report_type doc (Some name) (req_end_date state) st)) q
       = files st q"
  by (simp add: save_report_def report_path_def Let_def)


lemma save_tool_result_stored:
  "files (save_tool_result lib clk (req_stock_code state) name v (req_end_date state) st)
     (tool_path clk state name)
   = Some (tool_result_payload lib clk name v (req_end_date state))"
  by (simp add: save_tool_result_def tool_path_def)

text \<open>The effect of a node that returns: the state it returns, and the files it wrote, in
  order; every other file is as before.\<close>

definition node_writes ::
  "(agent_state \<times> store) outcome \<Rightarrow> store \<Rightarrow> agent_state \<Rightarrow> path list \<Rightarrow> bool" where
  "node_writes r st state' ps \<longleftrightarrow>
     (\<exists>st'. r = Returned (state', st') \<and> written st' = written st @ ps
            \<and> (\<forall>q. q \<notin> set ps \<longrightarrow> files st' q = files st q))"

lemma llm_returnsD: "llm_returns ag \<Longrightarrow> \<exists>content. chain ag p inputs = Returned content"
  by (simp add: llm_returns_def)

lemma get_fundamental_data_effect:
  assumes "get_fundamental_data lib clk env (req_stock_code state) (req_end_date state) st = (ret, st1)"
  shows "written st1 = written st @ [tool_path clk state (asc ''fundamental_data'')]
         \<and> (\<forall>q. q \<noteq> tool_path clk state (asc ''fundamental_data'') \<longrightarrow> files st1 q = files st q)"
  using assms
  by (auto simp: get_fundamental_data_def save_tool_result_written save_tool_result_files split: prod.splits)

lemma get_tech_data_effect:
  assumes "get_tech_data lib clk env (req_stock_code state) (req_end_date state) st = (ret, st1)"
  shows "written st1 = written st @ [tool_path clk state (asc ''tech_data'')]
         \<and> (\<forall>q. q \<noteq> tool_path clk state (asc ''tech_data'') \<longrightarrow> files st1 q = files st q)"
  using assms
  by (auto simp: get_tech_data_def save_tool_result_written save_tool_result_files split: prod.splits)

lemma get_fund_data_effect:
  assumes "get_fund_data lib clk env (req_stock_code state) (req_end_date state) st = (ret, st1)"
  shows "written st1 = written st @ [tool_path clk state (asc ''fund_data'')]
         \<and> (\<forall>q. q \<noteq> tool_path clk state (asc ''fund_data'') \<longrightarrow> files st1 q = files st q)"
  using assms
  by (auto simp: get_fund_data_def save_tool_result_written save_tool_result_files split: prod.splits)

lemma get_news_effect:
  assumes "get_news lib clk env (req_stock_code state) (req_end_date state) st = (ret, st1)"
  shows "written st1 = written st @ [tool_path clk state (asc ''news_data'')]
         \<and> (\<forall>q. q \<noteq> tool_path clk state (asc ''news_data'') \<longrightarrow> files st1 q = files st q)"
  using assms
  by (auto simp: get_news_def save_tool_result_written save_tool_result_files split: prod.splits)

lemma run_fundamental_analysis_writes:
  assumes "llm_returns ag"
  shows "\<exists>r. node_writes (run_fundamental_analysis lib clk env ag state st) st
               (state\<lparr>fundamental_report := Some r\<rparr>)
               [tool_path clk state (asc ''fundamental_data''),
                report_path clk state (asc ''fundamental_report'')]"
proof -
  obtain ret st1 where
    g: "get_fundamental_data lib clk env (req_stock_code state) (req_end_date state) st = (ret, st1)"
    by (cases "get_fundamental_data lib clk env (req_stock_code state) (req_end_date state) st")
  note e = get_fundamental_data_effect [OF g]
  from assms obtain content where
    c: "chain ag (asc ''FUNDAMENTAL_PROMPT'')
          (analyst_inputs ag (req_stock_code state) (asc ''fundamental_data'') (JStr ret)
             (asc ''fundamental_analyst'') (req_end_date state)) = Returned content"
    using llm_returnsD by blast
  show ?thesis
    by (rule exI [of _ "parse_analyst_report lib content"])
      (simp add: node_writes_def run_fundamental_analysis_def Let_def g c e save_report_written save_report_files)
qed

lemma run_technical_analysis_writes:
  assumes "llm_returns ag"
  shows "\<exists>r. node_writes (run_technical_analysis lib clk env ag state st) st
               (state\<lparr>technical_report := Some r\<rparr>)
               [tool_path clk state (asc ''tech_data''),
                report_path clk state (asc ''technical_report'')]"
proof -
  obtain ret st1 where
    g: "get_tech_data lib clk env (req_stock_code state) (req_end_date state) st = (ret, st1)"
    by (cases "get_tech_data lib clk env (req_stock_code state) (req_end_date state) st")
  note e = get_tech_data_effect [OF g]
  from assms obtain content where
    c: "chain ag (asc ''TECHNICAL_PROMPT'')
          (analyst_inputs ag (req_stock_code state) (asc ''tech_data'') (JStr ret)
             (asc ''technical_analyst'') (req_end_date state)) = Returned content"
    using llm_returnsD by blast
  show ?thesis
    by (rule exI [of _ "parse_analyst_report lib content"])
      (simp add: node_writes_def run_technical_analysis_def Let_def g c e save_report_written save_report_files)
qed

lemma run_fund_analysis_writes:
  "\<exists>r. node_writes (run_fund_analysis lib clk env ag state st) st
          (state\<lparr>fund_report := Some r\<rparr>)
          [tool_path clk state (asc ''fund_data''), report_path clk state (asc ''fund_report'')]"
proof -
  obtain ret st1 where
    g: "get_fund_data lib clk env (req_stock_code state) (req_end_date state) st = (ret, st1)"
    by (cases "get_fund_data lib clk env (req_stock_code state) (req_end_date state) st")
  note e = get_fund_data_effect [OF g]
  let ?r = "case chain ag (asc ''FUND_PROMPT'')
                   (analyst_inputs ag (req_stock_code state) (asc ''fund_data'') (JStr ret)
                      (asc ''fund_analyst'') (req_end_date state)) of
              Raised e \<Rightarrow> fund_default_report e
            | Returned content \<Rightarrow> parse_analyst_report lib content"
  show ?thesis
    by (rule exI [of _ ?r])
      (simp add: node_writes_def run_fund_analysis_def Let_def g e save_report_written save_report_files)
qed

lemma load_news_data_none:
  "no_stored_news clk state st \<Longrightarrow> load_news_data clk (req_stock_code state) (req_end_date state) st = None"
  by (simp add: no_stored_news_def load_news_data_def load_tool_result_def tool_path_def)

lemma run_news_analysis_writes:
  assumes "llm_returns ag" and "no_stored_news clk state st"
  shows "\<exists>r. node_writes (run_news_analysis lib clk env ag state st) st
               (state\<lparr>news_report := Some r\<rparr>)
               [tool_path clk state (asc ''news_data''), report_path clk state (asc ''news_report'')]"
proof -
  obtain ret st1 where
    g: "get_news lib clk env (req_stock_code state) (req_end_date state) st = (ret, st1)"
    by (cases "get_news lib clk env (req_stock_code state) (req_end_date state) st")
  note e = get_news_effect [OF g]
  from assms obtain content where
    c: "chain ag (asc ''NEWS_PROMPT'')
          (analyst_inputs ag (req_stock_code state) (asc ''news_data'') (JStr ret)
             (asc ''news_analyst'') (req_end_date state)) = Returned content"
    using llm_returnsD by blast
  show ?thesis
    by (rule exI [of _ "parse_analyst_report lib content"])
      (simp add: node_writes_def run_news_analysis_def Let_def load_news_data_none [OF assms(2)]
        stored_news_data_def g c e save_report_written save_report_files)
qed

lemma run_sentiment_analysis_writes:
  assumes "llm_returns ag"
  shows "\<exists>r. node_writes (run_sentiment_analysis lib clk env ag state st) st
               (state\<lparr>sentiment_report := Some r\<rparr>)
               [tool_path clk state (asc ''sentiment_input''),
                report_path clk state (asc ''sentiment_report'')]"
proof -
  let ?input = "sentiment_input_of clk env state st"
  from assms obtain content where
    c: "chain ag (asc ''SENTIMENT_PROMPT'')
          (analyst_inputs ag (req_stock_code state) (asc ''sentiment_data'') (JStr (dumps lib ?input))
             (asc ''sentiment_analyst'') (req_end_date state)) = Returned content"
    using llm_returnsD by blast
  show ?thesis
    by (rule exI [of _ "parse_analyst_report lib content"])
      (simp add: node_writes_def run_sentiment_analysis_def Let_def c save_tool_result_written
        save_tool_result_files save_report_written save_report_files)
qed

lemma run_supervisor_writes:
  assumes "llm_returns ag"
  shows "\<exists>r. node_writes (run_supervisor lib clk ag state st) st
               (state\<lparr>supervisor_report := Some r\<rparr>)
               [report_path clk state (asc ''supervisor_report'')]"
proof -
  from assms obtain content where
    c: "chain ag (asc ''SUPERVISOR_PROMPT'') (JObj (supervisor_inputs clk ag state st)) = Returned content"
    using llm_returnsD by blast
  show ?thesis
    by (rule exI [of _ "parse_supervisor_report lib content"])
      (simp add: node_writes_def run_supervisor_def Let_def c save_report_written save_report_files)
qed

lemma node_writesE:
  assumes "node_writes r st state' ps"
  obtains st' where "r = Returned (state', st')" "written st' = written st @ ps"
    "\<And>q. q \<notin> set ps \<Longrightarrow> files st' q = files st q"
  using assms by (auto simp: node_writes_def)

lemma run_news_analysis_stored:
  assumes "llm_returns ag" and "no_stored_news clk state st"
    and "run_news_analysis lib clk env ag state st = Returned (state', st')"
  shows "files st' (tool_path clk state (asc ''news_data''))
           = Some (tool_result_payload lib clk (asc ''news_data'')
                     (fst (news_output env (req_stock_code state) (req_end_date state)))
                     (req_end_date state))"
proof -
  have ne: "tool_path clk state (asc ''news_data'') \<noteq> report_path clk state (asc ''news_report'')"
    by (simp add: tool_path_def report_path_def asc_def)
  from assms(3) show ?thesis
    by (auto simp: run_news_analysis_def Let_def load_news_data_none [OF assms(2)]
        stored_news_data_def get_news_def save_report_files [OF ne] save_tool_result_stored
        split: prod.splits outcome.splits)
qed

definition analyst_paths :: "clock \<Rightarrow> agent_state \<Rightarrow> path list" where
  "analyst_paths clk state =
     [tool_path clk state (asc ''fundamental_data''), report_path clk state (asc ''fundamental_report''),
      tool_path clk state (asc ''news_data''), report_path clk state (asc ''news_report''),
      tool_path clk state (asc ''tech_data''), report_path clk state (asc ''technical_report''),
      tool_path clk state (asc ''fund_data''), report_path clk state (asc ''fund_report''),
      tool_path clk state (asc ''sentiment_input''), report_path clk state (asc ''sentiment_report'')]"

lemma run_analysts_result:
  assumes llm: "llm_returns ag" and ns: "no_stored_news clk state st0"
  shows "\<exists>r1 r2 r3 r4 r5 st5.
     run_analysts lib clk env ag state st0 =
       Returned (state\<lparr>fundamental_report := Some r1, news_report := Some r2,
                   technical_report := Some r3, fund_report := Some r4,
                   sentiment_report := Some r5\<rparr>, st5)
     \<and> written st5 = written st0 @ analyst_paths clk state
     \<and> (\<forall>q. q \<notin> set (analyst_paths clk state) \<longrightarrow> files st5 q = files st0 q)
     \<and> files st5 (tool_path clk state (asc ''news_data''))
         = Some (tool_result_payload lib clk (asc ''news_data'')
                   (fst (news_output env (req_stock_code state) (req_end_date state)))
                   (req_end_date state))"
proof -
  from run_fundamental_analysis_writes [OF llm, of lib clk env state st0]
  obtain r1 st1 where
    n1: "run_fundamental_analysis lib clk env ag state st0 = Returned (state\<lparr>fundamental_report := Some r1\<rparr>, st1)"
    and w1: "written st1 = written st0 @ [tool_path clk state (asc ''fundamental_data''),
                                         report_path clk state (asc ''fundamental_report'')]"
    and f1: "\<And>q. q \<notin> set [tool_path clk state (asc ''fundamental_data''),
                              report_path clk state (asc ''fundamental_report'')] \<Longrightarrow> files st1 q = files st0 q"
    by (auto elim: node_writesE)
  define s1 where "s1 = state\<lparr>fundamental_report := Some r1\<rparr>"
  have p1: "tool_path clk s1 = tool_path clk state" "report_path clk s1 = report_path clk state"
    by (auto simp: s1_def tool_path_def report_path_def)
  have ns1: "no_stored_news clk s1 st1"
    using ns by (simp add: no_stored_news_def p1 f1 tool_path_def report_path_def asc_def)
  from run_news_analysis_writes [OF llm ns1, of lib env]
  obtain r2 st2 where
    n2: "run_news_analysis lib clk env ag s1 st1 = Returned (s1\<lparr>news_report := Some r2\<rparr>, st2)"
    and w2: "written st2 = written st1 @ [tool_path clk state (asc ''news_data''),
                                         report_path clk state (asc ''news_report'')]"
    and f2: "\<And>q. q \<notin> set [tool_path clk state (asc ''news_data''),
                              report_path clk state (asc ''news_report'')] \<Longrightarrow> files st2 q = files st1 q"
    by (auto elim: node_writesE simp: p1)
  have c2: "files st2 (tool_path clk state (asc ''news_data''))
              = Some (tool_result_payload lib clk (asc ''news_data'')
                        (fst (news_output env (req_stock_code state) (req_end_date state)))
                        (req_end_date state))"
    using run_news_analysis_stored [OF llm ns1 n2] by (simp add: p1) (simp add: s1_def)
  define s2 where "s2 = s1\<lparr>news_report := Some r2\<rparr>"
  have p2: "tool_path clk s2 = tool_path clk state" "report_path clk s2 = report_path clk state"
    by (auto simp: s2_def s1_def tool_path_def report_path_def)
  from run_technical_analysis_writes [OF llm, of lib clk env s2 st2]
  obtain r3 st3 where
    n3: "run_technical_analysis lib clk env ag s2 st2 = Returned (s2\<lparr>technical_report := Some r3\<rparr>, st3)"
    and w3: "written st3 = written st2 @ [tool_path clk state (asc ''tech_data''),
                                         report_path clk state (asc ''technical_report'')]"
    and f3: "\<And>q. q \<notin> set [tool_path clk state (asc ''tech_data''),
                              report_path clk state (asc ''technical_report'')] \<Longrightarrow> files st3 q = files st2 q"
    by (auto elim: node_writesE simp: p2)
  define s3 where "s3 = s2\<lparr>technical_report := Some r3\<rparr>"
  have p3: "tool_path clk s3 = tool_path clk state" "report_path clk s3 = report_path clk state"
    by (auto simp: s3_def s2_def s1_def tool_path_def report_path_def)
  from run_fund_analysis_writes [of lib clk env ag s3 st3]
  obtain r4 st4 where
    n4: "run_fund_analysis lib clk env ag s3 st3 = Returned (s3\<lparr>fund_report := Some r4\<rparr>, st4)"
    and w4: "written st4 = written st3 @ [tool_path clk state (asc ''fund_data''),
                                         report_path clk state (asc ''fund_report'')]"
    and f4: "\<And>q. q \<notin> set [tool_path clk state (asc ''fund_data''),
                              report_path clk state (asc ''fund_report'')] \<Longrightarrow> files st4 q = files st3 q"
    by (auto elim: node_writesE simp: p3)
  define s4 where "s4 = s3\<lparr>fund_report := Some r4\<rparr>"
  have p4: "tool_path clk s4 = tool_path clk state" "report_path clk s4 = report_path clk state"
    by (auto simp: s4_def s3_def s2_def s1_def tool_path_def report_path_def)
  from run_sentiment_analysis_writes [OF llm, of lib clk env s4 st4]
  obtain r5 st5 where
    n5: "run_sentiment_analysis lib clk env ag s4 st4 = Returned (s4\<lparr>sentiment_report := Some r5\<rparr>, st5)"
    and w5: "written st5 = written st4 @ [tool_path clk state (asc ''sentiment_input''),
                                         report_path clk state (asc ''sentiment_report'')]"
    and f5: "\<And>q. q \<notin> set [tool_path clk state (asc ''sentiment_input''),
                              report_path clk state (asc ''sentiment_report'')] \<Longrightarrow> files st5 q = files st4 q"
    by (auto elim: node_writesE simp: p4)
  have run: "run_analysts lib clk env ag state st0 =
       Returned (state\<lparr>fundamental_report := Some r1, news_report := Some r2,
                   technical_report := Some r3, fund_report := Some r4,
                   sentiment_report := Some r5\<rparr>, st5)"
    using n1 n2 n3 n4 n5
    by (simp add: run_analysts_def then_node_def s1_def s2_def s3_def s4_def)
  have written: "written st5 = written st0 @ analyst_paths clk state"
    by (simp add: w1 w2 w3 w4 w5 analyst_paths_def)
  have frame: "files st5 q = files st0 q" if "q \<notin> set (analyst_paths clk state)" for q
    using that by (simp add: analyst_paths_def f1 f2 f3 f4 f5)
  have news: "files st5 (tool_path clk state (asc ''news_data''))
         = Some (tool_result_payload lib clk (asc ''news_data'')
                   (fst (news_output env (req_stock_code state) (req_end_date state)))
                   (req_end_date state))"
  proof -
    have "files st5 (tool_path clk state (asc ''news_data'')) = files st2 (tool_path clk state (asc ''news_data''))"
      by (simp add: f3 f4 f5 tool_path_def report_path_def asc_def)
    with c2 show ?thesis by simp
  qed
  from run written frame news show ?thesis by blast
qed


lemma save_reports_loop_written:
  "\<exists>ws. written (snd (save_reports_loop clk state ms acc)) = written (snd acc) @ ws
        \<and> set ws \<subseteq> (\<lambda>m. report_path clk state (snd (snd m) @ asc ''_report''))
                       ` {m \<in> set ms. fst m state \<noteq> None}"
proof (induction ms arbitrary: acc)
  case Nil
  then show ?case by simp
next
  case (Cons m ms)
  obtain sel k t where m: "m = (sel, k, t)" by (cases m)
  obtain sf st where acc: "acc = (sf, st)" by (cases acc)
  have mono: "(\<lambda>m. report_path clk state (snd (snd m) @ asc ''_report'')) ` {m \<in> set ms. fst m state \<noteq> None}
      \<subseteq> (\<lambda>m. report_path clk state (snd (snd m) @ asc ''_report''))
           ` {m' \<in> set (m # ms). fst m' state \<noteq> None}"
    by (intro image_mono) auto
  show ?case
  proof (cases "sel state")
    case None
    from Cons.IH [of "(sf, st)"] obtain ws where
      w: "written (snd (save_reports_loop clk state ms (sf, st))) = written st @ ws" and
      sub: "set ws \<subseteq> (\<lambda>m. report_path clk state (snd (snd m) @ asc ''_report'')) ` {m \<in> set ms. fst m state \<noteq> None}"
      by auto
    have "written (snd (save_reports_loop clk state (m # ms) acc)) = written (snd acc) @ ws"
      using w by (simp add: m acc None)
    moreover note subset_trans [OF sub mono]
    ultimately show ?thesis by blast
  next
    case (Some report)
    show ?thesis
    proof (cases "py_truthy report")
      case False
      from Cons.IH [of "(sf, st)"] obtain ws where
        w: "written (snd (save_reports_loop clk state ms (sf, st))) = written st @ ws" and
        sub: "set ws \<subseteq> (\<lambda>m. report_path clk state (snd (snd m) @ asc ''_report'')) ` {m \<in> set ms. fst m state \<noteq> None}"
        by auto
      have "written (snd (save_reports_loop clk state (m # ms) acc)) = written (snd acc) @ ws"
        using w by (simp add: m acc Some False)
      moreover note subset_trans [OF sub mono]
      ultimately show ?thesis by blast
    next
      case True
      let ?p = "report_path clk state (t @ asc ''_report'')"
      let ?st' = "snd (save_report clk (req_stock_code state) t report None (req_end_date state) st)"
      have w: "written ?st' = written st @ [?p]"
        by (simp add: save_report_def report_path_def Let_def)
      from Cons.IH [of "(sf @ [(k, fst (save_report clk (req_stock_code state) t report None (req_end_date state) st))], ?st')"]
      obtain ws where
        ws: "written (snd (save_reports_loop clk state ms
               (sf @ [(k, fst (save_report clk (req_stock_code state) t report None (req_end_date state) st))], ?st')))
             = written ?st' @ ws"
        "set ws \<subseteq> (\<lambda>m. report_path clk state (snd (snd m) @ asc ''_report'')) ` {m \<in> set ms. fst m state \<noteq> None}"
        by auto
      have "written (snd (save_reports_loop clk state (m # ms) acc)) = written (snd acc) @ (?p # ws)"
        using ws(1) w m acc Some True by (simp add: case_prod_beta)
      moreover have "set (?p # ws) \<subseteq> (\<lambda>m. report_path clk state (snd (snd m) @ asc ''_report''))
                       ` {m' \<in> set (m # ms). fst m' state \<noteq> None}"
      proof -
        have "?p \<in> (\<lambda>m. report_path clk state (snd (snd m) @ asc ''_report''))
                       ` {m' \<in> set (m # ms). fst m' state \<noteq> None}"
          by (rule image_eqI [of _ _ m]) (simp_all add: m Some)
        with subset_trans [OF ws(2) mono] show ?thesis by simp
      qed
      ultimately show ?thesis by blast
    qed
  qed
qed

text \<open>The address of the summary: the date directory of a call without \<open>end_date\<close>.\<close>

definition summary_path :: "clock \<Rightarrow> agent_state \<Rightarrow> path" where
  "summary_path clk state = (req_stock_code state, get_date_dir clk None, asc ''analysis_summary.json'')"

lemma final_result_save_written:
  "\<exists>ws. written (snd (final_result_save clk ag state st)) = written st @ ws @ [summary_path clk state]
        \<and> set ws \<subseteq> (\<lambda>m. report_path clk state (snd (snd m) @ asc ''_report''))
                       ` {m \<in> set report_mapping. fst m state \<noteq> None}"
proof -
  from save_reports_loop_written [of clk state report_mapping "([], st)"]
  obtain ws where
    ws: "written (snd (save_all_reports clk state st)) = written st @ ws"
    "set ws \<subseteq> (\<lambda>m. report_path clk state (snd (snd m) @ asc ''_report''))
                  ` {m \<in> set report_mapping. fst m state \<noteq> None}"
    by (auto simp: save_all_reports_def)
  have "written (snd (final_result_save clk ag state st)) = written st @ ws @ [summary_path clk state]"
    using ws(1)
    by (cases "save_all_reports clk state st")
      (simp add: final_result_save_def save_report_def summary_path_def Let_def asc_def)
  with ws(2) show ?thesis by blast
qed

definition run_paths :: "clock \<Rightarrow> agent_state \<Rightarrow> path set" where
  "run_paths clk state =
     set (analyst_paths clk state)
     \<union> {report_path clk state (asc ''supervisor_report''), summary_path clk state}"

lemma run_graph_result:
  assumes llm: "llm_returns ag" and ns: "no_stored_news clk (initial_state stock ed) st0"
  shows "\<exists>state' st' ws.
     run_graph lib clk env ag (initial_state stock ed) st0 = Returned (state', st')
     \<and> written st' = written st0 @ ws
     \<and> set ws = run_paths clk (initial_state stock ed)"
proof -
  let ?s0 = "initial_state stock ed"
  from run_analysts_result [OF llm ns, of lib env]
  obtain r1 r2 r3 r4 r5 st5 where
    run5: "run_analysts lib clk env ag ?s0 st0 =
       Returned (?s0\<lparr>fundamental_report := Some r1, news_report := Some r2,
                   technical_report := Some r3, fund_report := Some r4,
                   sentiment_report := Some r5\<rparr>, st5)"
    and w5: "written st5 = written st0 @ analyst_paths clk ?s0"
    by blast
  define s5 where "s5 = ?s0\<lparr>fundamental_report := Some r1, news_report := Some r2,
                   technical_report := Some r3, fund_report := Some r4,
                   sentiment_report := Some r5\<rparr>"
  have p5: "tool_path clk s5 = tool_path clk ?s0" "report_path clk s5 = report_path clk ?s0"
    by (auto simp: s5_def tool_path_def report_path_def)
  from run_supervisor_writes [OF llm, of lib clk s5 st5]
  obtain r6 st6 where
    n6: "run_supervisor lib clk ag s5 st5 = Returned (s5\<lparr>supervisor_report := Some r6\<rparr>, st6)"
    and w6: "written st6 = written st5 @ [report_path clk ?s0 (asc ''supervisor_report'')]"
    by (auto elim: node_writesE simp: p5)
  define s6 where "s6 = s5\<lparr>supervisor_report := Some r6\<rparr>"
  have p6: "report_path clk s6 = report_path clk ?s0" "summary_path clk s6 = summary_path clk ?s0"
    by (auto simp: s6_def s5_def report_path_def summary_path_def)
  from final_result_save_written [of clk ag s6 st6]
  obtain ws where
    w7: "written (snd (final_result_save clk ag s6 st6)) = written st6 @ ws @ [summary_path clk ?s0]"
    and sub: "set ws \<subseteq> (\<lambda>m. report_path clk ?s0 (snd (snd m) @ asc ''_report''))
                  ` {m \<in> set report_mapping. fst m s6 \<noteq> None}"
    by (auto simp: p6)
  have saved: "(\<lambda>m. report_path clk ?s0 (snd (snd m) @ asc ''_report''))
                  ` {m \<in> set report_mapping. fst m s6 \<noteq> None}
               \<subseteq> set (analyst_paths clk ?s0) \<union> {report_path clk ?s0 (asc ''supervisor_report'')}"
    by (auto simp: report_mapping_def s6_def s5_def initial_state_def analyst_paths_def asc_def)
  let ?ws = "analyst_paths clk ?s0 @ [report_path clk ?s0 (asc ''supervisor_report'')] @ ws
               @ [summary_path clk ?s0]"
  have "run_graph lib clk env ag ?s0 st0 = Returned (s6, snd (final_result_save clk ag s6 st6))"
    using run5 n6 by (simp add: run_graph_def then_node_def s5_def s6_def)
  moreover have "written (snd (final_result_save clk ag s6 st6)) = written st0 @ ?ws"
    by (simp add: w7 w6 w5)
  moreover have "set ?ws = run_paths clk ?s0"
    using sub saved by (auto simp: run_paths_def)
  ultimately show ?thesis by blast
qed

section \<open>The files of a run\<close>

definition file_name :: "path \<Rightarrow> ustr" where
  "file_name p = snd (snd p)"

text \<open>The file names a run writes.\<close>

definition run_file_names :: "ustr list" where
  "run_file_names = map asc
     [''fundamental_data_tool_result.json'', ''tech_data_tool_result.json'',
      ''fund_data_tool_result.json'', ''news_data_tool_result.json'',
      ''sentiment_input_tool_result.json'',
      ''fundamental_report.json'', ''technical_report.json'', ''fund_report.json'',
      ''news_report.json'', ''sentiment_report.json'', ''supervisor_report.json'',
      ''analysis_summary.json'']"

text \<open>The file names as the specification lists them.\<close>

definition spec_file_names :: "ustr list" where
  "spec_file_names = map asc
     [''fundamental_data.json'', ''tech_data.json'', ''fund_data.json'', ''news_data.json'',
      ''fundamental_report.json'', ''technical_report.json'', ''fund_report.json'',
      ''news_report.json'', ''sentiment_report.json'', ''supervisor_report.json'',
      ''sentiment_input.json'', ''analysis_summary.json'']"

lemma run_paths_file_names:
  "file_name ` run_paths clk (initial_state stock ed) = set run_file_names"
  by (simp add: run_paths_def analyst_paths_def tool_path_def report_path_def summary_path_def
      file_name_def run_file_names_def asc_def insert_commute)

lemma run_paths_places:
  assumes "p \<in> run_paths clk (initial_state stock ed)"
  shows "fst p = stock \<and> (file_name p \<noteq> asc ''analysis_summary.json'' \<longrightarrow> fst (snd p) = get_date_dir clk ed)"
  using assms
  by (auto simp: run_paths_def analyst_paths_def tool_path_def report_path_def summary_path_def
      file_name_def initial_state_def)

text \<open>
  C2 (as the code has it), for an end date that is an ASCII text. A run whose chains all
  return, on a store without the two files
  that \<open>load_news_data\<close> reads (a fresh directory is such a store), returns, and the set of
  file names it writes is exactly: \<open><tool>_tool_result.json\<close> for the tools
  \<open>fundamental_data\<close>, \<open>tech_data\<close>, \<open>fund_data\<close>, \<open>news_data\<close> and \<open>sentiment_input\<close>;
  \<open><kind>_report.json\<close> for fundamental, technical, fund, news, sentiment and supervisor; and
  \<open>analysis_summary.json\<close>. Every file lies below the stock code, and every file but the
  summary in the date directory of the request.
\<close>

theorem run_writes_these_files:
  assumes "llm_returns ag" and "no_stored_news clk (initial_state stock ed) st0"
    and "ascii_end_date ed"
  shows "\<exists>state' st' ws.
     run_graph lib clk env ag (initial_state stock ed) st0 = Returned (state', st')
     \<and> written st' = written st0 @ ws
     \<and> file_name ` set ws = set run_file_names
     \<and> (\<forall>p \<in> set ws. fst p = stock
           \<and> (file_name p \<noteq> asc ''analysis_summary.json'' \<longrightarrow> fst (snd p) = get_date_dir clk ed))"
proof -
  from run_graph_result [OF assms(1,2), of lib env] obtain state' st' ws where
    r: "run_graph lib clk env ag (initial_state stock ed) st0 = Returned (state', st')"
    "written st' = written st0 @ ws" "set ws = run_paths clk (initial_state stock ed)"
    by blast
  have "file_name ` set ws = set run_file_names"
    by (simp add: r(3) run_paths_file_names)
  moreover have "\<forall>p \<in> set ws. fst p = stock
           \<and> (file_name p \<noteq> asc ''analysis_summary.json'' \<longrightarrow> fst (snd p) = get_date_dir clk ed)"
    using run_paths_places by (simp add: r(3))
  ultimately show ?thesis using r(1,2) by blast
qed


subsection \<open>A sample run\<close>

text \<open>
  A request and its surroundings for the examples: the stock \<open>000001.SZ\<close> at the end date
  \<open>20250914\<close>, run on 3 November 2026; a language model that answers every prompt with the
  same prose; a JSON library that is only asked about that prose and about the text \<open>{}\<close>
  (it decodes \<open>{}\<close>, rejects everything else, and encodes every document as \<open>{}\<close>).
\<close>

definition sample_stock :: ustr where
  "sample_stock = asc ''000001.SZ''"

definition sample_end_date :: "ustr option" where
  "sample_end_date = Some (asc ''20250914'')"

definition sample_clock :: clock where
  "sample_clock = \<lparr>today = \<lparr>year = 2026, month = 11, day = 3\<rparr>, now_text = asc ''2026-11-03 10:00:00''\<rparr>"

definition sample_prose :: ustr where
  "sample_prose = asc ''The trend is up.''"

definition sample_lib :: json_lib where
  "sample_lib =
     \<lparr>loads = (\<lambda>s. if s = asc ''{}'' then Some (JObj []) else None),
      dumps = (\<lambda>v. asc ''{}''),
      type_error_text = (\<lambda>v. asc ''TypeError'')\<rparr>"

definition sample_agents :: agents where
  "sample_agents =
     \<lparr>chain = (\<lambda>p inputs. Returned sample_prose),
      roles = (\<lambda>r. asc ''analyst''),
      result_summary = (\<lambda>stock st. asc ''summary'')\<rparr>"

definition sample_run_store :: store where
  "sample_run_store =
     (case run_graph sample_lib sample_clock sample_env sample_agents
             (initial_state sample_stock sample_end_date) empty_store of
        Returned (state', st') \<Rightarrow> st'
      | Raised e \<Rightarrow> empty_store)"

lemma sample_llm_returns: "llm_returns sample_agents"
  by (simp add: llm_returns_def sample_agents_def)

lemma empty_store_no_news: "no_stored_news clk state empty_store"
  by (simp add: no_stored_news_def empty_store_def)

lemma sample_run_written:
  "set (written sample_run_store) = run_paths sample_clock (initial_state sample_stock sample_end_date)"
proof -
  from run_graph_result [OF sample_llm_returns empty_store_no_news, of sample_lib sample_clock sample_env
      sample_stock sample_end_date]
  obtain state' st' ws where
    "run_graph sample_lib sample_clock sample_env sample_agents
       (initial_state sample_stock sample_end_date) empty_store = Returned (state', st')"
    "written st' = written empty_store @ ws"
    "set ws = run_paths sample_clock (initial_state sample_stock sample_end_date)"
    by blast
  then show ?thesis
    by (simp add: sample_run_store_def empty_store_def)
qed

lemma sample_end_date_ascii: "ascii_end_date sample_end_date"
  by (simp add: ascii_end_date_def ascii_text_def sample_end_date_def asc_def)

theorem run_writes_these_files_witness:
  "llm_returns sample_agents
   \<and> no_stored_news sample_clock (initial_state sample_stock sample_end_date) empty_store
   \<and> ascii_end_date sample_end_date
   \<and> file_name ` set (written sample_run_store) = set run_file_names"
proof -
  from run_writes_these_files [where lib = sample_lib and env = sample_env,
      OF sample_llm_returns empty_store_no_news sample_end_date_ascii]
  obtain state' st' ws where
    "run_graph sample_lib sample_clock sample_env sample_agents
       (initial_state sample_stock sample_end_date) empty_store = Returned (state', st')"
    "written st' = written empty_store @ ws"
    "file_name ` set ws = set run_file_names"
    by blast
  then have "file_name ` set (written sample_run_store) = set run_file_names"
    by (simp add: sample_run_store_def empty_store_def)
  with sample_llm_returns empty_store_no_news sample_end_date_ascii show ?thesis by simp
qed

text \<open>
  C2 (as stated) fails: the tool results are not written under the names
  \<open>fundamental_data.json\<close>, \<open>tech_data.json\<close>, ... of the specification, since
  \<open>save_tool_result\<close> appends \<open>_tool_result\<close> to the name of the tool. In the sample run
  the file \<open>fundamental_data.json\<close> is not written and
  \<open>fundamental_data_tool_result.json\<close> is.
\<close>

theorem spec_file_names_counterexample:
  "asc ''fundamental_data.json'' \<in> set spec_file_names
   \<and> asc ''fundamental_data.json'' \<notin> file_name ` set (written sample_run_store)
   \<and> asc ''fundamental_data_tool_result.json'' \<in> file_name ` set (written sample_run_store)
   \<and> asc ''fundamental_data_tool_result.json'' \<notin> set spec_file_names
   \<and> file_name ` set (written sample_run_store) \<noteq> set spec_file_names"
proof -
  have w: "file_name ` set (written sample_run_store) = set run_file_names"
    by (simp add: sample_run_written run_paths_file_names)
  have a: "asc ''fundamental_data.json'' \<in> set spec_file_names"
    by (simp add: spec_file_names_def)
  have b: "asc ''fundamental_data.json'' \<notin> set run_file_names"
    by (simp add: run_file_names_def asc_def)
  have c: "asc ''fundamental_data_tool_result.json'' \<in> set run_file_names"
    by (simp add: run_file_names_def)
  have d: "asc ''fundamental_data_tool_result.json'' \<notin> set spec_file_names"
    by (simp add: spec_file_names_def asc_def)
  from a b have "set run_file_names \<noteq> set spec_file_names" by blast
  with a b c d show ?thesis by (simp add: w)
qed


section \<open>The inputs of the supervisor\<close>

lemma py_join_nonempty: "xs \<noteq> [] \<Longrightarrow> hd xs \<noteq> [] \<Longrightarrow> py_join sep xs \<noteq> []"
  by (cases "(sep, xs)" rule: py_join.cases) auto

lemma combined_summary_text_nonempty: "combined_summary_text ifs \<noteq> []"
proof -
  let ?parts = "concat (map (\<lambda>k. case map_of ifs k of
                                None \<Rightarrow> []
                              | Some i \<Rightarrow> if if_result i \<noteq> [] then [if_result i] else [])
                        [asc ''news'', asc ''major_news'', asc ''cctv_news''])"
  have all: "\<forall>x \<in> set ?parts. x \<noteq> []"
    by (auto split: option.splits if_splits)
  show ?thesis
  proof (cases "?parts = []")
    case True
    then show ?thesis
      by (simp add: combined_summary_text_def Let_def txt_no_news_summary_def)
  next
    case False
    then have "hd ?parts \<in> set ?parts" by (rule hd_in_set)
    with all have "hd ?parts \<noteq> []" by blast
    with False have "py_join txt_summary_sep ?parts \<noteq> []" by (rule py_join_nonempty)
    with False show ?thesis by (simp add: combined_summary_text_def Let_def)
  qed
qed

lemma supervisor_news_summary_empty:
  "no_stored_news clk state st \<Longrightarrow> supervisor_news_summary clk state st = JStr []"
  by (simp add: supervisor_news_summary_def load_news_data_none)

text \<open>What the sentiment node reads from a news tool result written on the regular path of
  \<open>get_news\<close>: its combined summary.\<close>

lemma news_combined_summary_of_payload:
  "news_combined_summary_of
     (Some (tool_result_payload lib clk (asc ''news_data'') (Structured (news_final_result ifs)) ed))
   = JStr (combined_summary_text ifs)"
  by (simp add: news_combined_summary_of_def tool_result_payload_def news_final_result_def
      dict_get_def get_or_empty_def has_len_def asc_def Let_def)

lemma news_output_regular:
  assumes "init_failure env = None" "news_provider_present env" "make_processor env = Returned ()"
  shows "fst (news_output env stock ed) = Structured (news_final_result (news_interfaces env ed))"
  using assms by (simp add: news_output_def Let_def)

text \<open>The keys of the supervisor's inputs: the four reports and the news summary; the news
  report is not among them.\<close>

lemma supervisor_input_keys:
  "map fst (supervisor_inputs clk ag state st) =
     map asc [''stock_code'', ''fundamental_report'', ''technical_report'', ''sentiment_report'',
              ''fund_report'', ''news_summary'', ''role_description'', ''analysis_period'']"
  "asc ''news_report'' \<notin> set (map fst (supervisor_inputs clk ag state st))"
  by (simp_all add: supervisor_inputs_def asc_def)

text \<open>
  C3 at the failing input. After the five analyst nodes have run on a store without the files
  \<open>news_sentiment*_tool_result.json\<close> (a fresh directory), with the news tool on its regular
  path, the tool result \<open>news_data\<close> is in the store and its combined summary, as the sentiment
  node reads it, is a non-empty text; the news summary among the supervisor's inputs is
  nevertheless the empty string, because the supervisor looks for two files that no node
  writes.
\<close>

theorem supervisor_news_summary_is_empty:
  assumes "llm_returns ag" and "no_stored_news clk (initial_state stock ed) st0"
    and "init_failure env = None" and "news_provider_present env"
    and "make_processor env = Returned ()"
  shows "\<exists>state5 st5.
     run_analysts lib clk env ag (initial_state stock ed) st0 = Returned (state5, st5)
     \<and> news_combined_summary_of (load_tool_result clk stock (asc ''news_data'') ed st5)
         = JStr (combined_summary_text (news_interfaces env ed))
     \<and> combined_summary_text (news_interfaces env ed) \<noteq> []
     \<and> dict_get (supervisor_inputs clk ag state5 st5) (asc ''news_summary'') = Some (JStr [])"
proof -
  let ?s0 = "initial_state stock ed"
  from run_analysts_result [OF assms(1,2), of lib env]
  obtain r1 r2 r3 r4 r5 st5 where
    run: "run_analysts lib clk env ag ?s0 st0 =
       Returned (?s0\<lparr>fundamental_report := Some r1, news_report := Some r2,
                   technical_report := Some r3, fund_report := Some r4,
                   sentiment_report := Some r5\<rparr>, st5)"
    and frame: "\<And>q. q \<notin> set (analyst_paths clk ?s0) \<Longrightarrow> files st5 q = files st0 q"
    and news: "files st5 (tool_path clk ?s0 (asc ''news_data''))
         = Some (tool_result_payload lib clk (asc ''news_data'')
                   (fst (news_output env (req_stock_code ?s0) (req_end_date ?s0)))
                   (req_end_date ?s0))"
    by blast
  define s5 where "s5 = ?s0\<lparr>fundamental_report := Some r1, news_report := Some r2,
                   technical_report := Some r3, fund_report := Some r4,
                   sentiment_report := Some r5\<rparr>"
  have req: "req_stock_code ?s0 = stock" "req_end_date ?s0 = ed"
    by (simp_all add: initial_state_def)
  have p5: "tool_path clk s5 = tool_path clk ?s0"
    by (auto simp: s5_def tool_path_def)
  have "no_stored_news clk s5 st5"
    using assms(2)
    by (simp add: no_stored_news_def p5 frame analyst_paths_def tool_path_def report_path_def asc_def)
  then have sup: "supervisor_news_summary clk s5 st5 = JStr []"
    by (rule supervisor_news_summary_empty)
  have "load_tool_result clk stock (asc ''news_data'') ed st5
          = Some (tool_result_payload lib clk (asc ''news_data'')
                    (Structured (news_final_result (news_interfaces env ed))) ed)"
    using news news_output_regular [OF assms(3,4,5), of stock ed]
    by (simp add: load_tool_result_def tool_path_def req)
  then have read: "news_combined_summary_of (load_tool_result clk stock (asc ''news_data'') ed st5)
                     = JStr (combined_summary_text (news_interfaces env ed))"
    by (simp add: news_combined_summary_of_payload)
  have "dict_get (supervisor_inputs clk ag s5 st5) (asc ''news_summary'') = Some (JStr [])"
    by (simp add: supervisor_inputs_def dict_get_def sup asc_def)
  with run read combined_summary_text_nonempty show ?thesis
    unfolding s5_def by blast
qed

lemma sample_env_regular:
  "init_failure sample_env = None" "news_provider_present sample_env"
  "make_processor sample_env = Returned ()"
  by (simp_all add: init_failure_def sample_env_def)

definition sample_before_supervisor :: "agent_state \<times> store" where
  "sample_before_supervisor =
     (case run_analysts sample_lib sample_clock sample_env sample_agents
             (initial_state sample_stock sample_end_date) empty_store of
        Returned x \<Rightarrow> x
      | Raised e \<Rightarrow> (initial_state sample_stock sample_end_date, empty_store))"

theorem supervisor_news_summary_is_empty_witness:
  "news_combined_summary_of
       (load_tool_result sample_clock sample_stock (asc ''news_data'') sample_end_date
          (snd sample_before_supervisor))
     = JStr (combined_summary_text (news_interfaces sample_env sample_end_date))
   \<and> combined_summary_text (news_interfaces sample_env sample_end_date) \<noteq> []
   \<and> dict_get (supervisor_inputs sample_clock sample_agents (fst sample_before_supervisor)
                  (snd sample_before_supervisor)) (asc ''news_summary'') = Some (JStr [])"
proof -
  from supervisor_news_summary_is_empty [where lib = sample_lib and clk = sample_clock
      and stock = sample_stock and ed = sample_end_date,
      OF sample_llm_returns empty_store_no_news sample_env_regular]
  obtain state5 st5 where
    "run_analysts sample_lib sample_clock sample_env sample_agents
       (initial_state sample_stock sample_end_date) empty_store = Returned (state5, st5)"
    "news_combined_summary_of (load_tool_result sample_clock sample_stock (asc ''news_data'') sample_end_date st5)
       = JStr (combined_summary_text (news_interfaces sample_env sample_end_date))"
    "combined_summary_text (news_interfaces sample_env sample_end_date) \<noteq> []"
    "dict_get (supervisor_inputs sample_clock sample_agents state5 st5) (asc ''news_summary'') = Some (JStr [])"
    by blast
  then show ?thesis by (simp add: sample_before_supervisor_def)
qed

section \<open>A response that is not JSON\<close>







section \<open>The event stream of the analysis (api/streaming_protocol.py, api/impl_stock.py)\<close>

text \<open>
  A frame of the stream is the text \<open>data: <json>\<close> followed by an empty line. The record
  below is the JSON object of a frame: a field that is \<open>None\<close> here is absent from the
  object (\<open>model_dump_json(exclude_none=True)\<close>; the two frames that the generator
  builds itself are dicts with six keys).
\<close>

record frame =
  fr_event_type :: ustr
  fr_thread_id :: ustr
  fr_agent :: ustr
  fr_id :: ustr
  fr_role :: "ustr option"
  fr_content :: "ustr option"
  fr_finish_reason :: "ustr option"
  fr_progress_symbol :: "bool option"
  fr_tool_calls :: "json list option"
  fr_tool_call_chunks :: "json list option"
  fr_node_status :: "ustr option"
  fr_result_data :: "(ustr \<times> json) list option"

text \<open>
  What \<open>format_event\<close> reads of a chunk of a chat model and of an event of the graph:
  \<open>ev_output\<close> is \<open>data["data"]["output"]\<close> and \<open>ev_tool\<close> is
  \<open>data["data"]["input"]["tool"]\<close>, \<open>None\<close> when a key on the way is absent.
\<close>

record chunk =
  ck_tool_call_chunks :: "json list"
  ck_content :: ustr
  ck_finish_reason :: "ustr option"
  ck_tool_calls :: "json list"

record raw_event =
  ev_event :: "ustr option"
  ev_run_id :: "ustr option"
  ev_name :: "ustr option"
  ev_output :: "json option"
  ev_tool :: "ustr option"
  ev_chunk :: "chunk option"

text \<open>How the iteration over \<open>astream_events\<close> ends: the events are exhausted, or the
  iterator raises an \<open>Exception\<close>, of which \<open>str(e)\<close> is kept.\<close>

datatype source_end = Exhausted | Failed ustr

text \<open>
  What the stream takes from its libraries:
  \<^item> \<open>uuid4\<close>: the thread id, \<open>str(uuid.uuid4())\<close>;
  \<^item> \<open>str_of\<close>: \<open>str(x)\<close> of a value that is not a string;
  \<^item> \<open>validation_error\<close>: the text of the \<open>ValidationError\<close> of a \<open>StreamEvent\<close> whose
    \<open>id\<close> or \<open>agent\<close> is \<open>None\<close>;
  \<^item> \<open>no_len_error\<close>, \<open>not_a_dict_error\<close>: the text of the exception for \<open>len\<close> of a
    value without a length, and for a node output that is not a dict;
  \<^item> \<open>dump_tool_call_chunks\<close>, \<open>dump_tool_calls\<close>: \<open>[c.dict() for c in ...]\<close> validated
    by the model of the event; \<open>Raised\<close> when either step raises;
  \<^item> \<open>astream_events\<close>: the events of the run of the graph for a stock code and an end
    date, and how the iteration ends.
\<close>

record stream_lib =
  uuid4 :: ustr
  str_of :: "json \<Rightarrow> ustr"
  validation_error :: ustr
  no_len_error :: "json \<Rightarrow> ustr"
  not_a_dict_error :: "json \<Rightarrow> ustr"
  dump_tool_call_chunks :: "json list \<Rightarrow> json list outcome"
  dump_tool_calls :: "json list \<Rightarrow> json list outcome"
  astream_events :: "ustr \<Rightarrow> ustr \<Rightarrow> raw_event list \<times> source_end"

text \<open>U+8282 U+70B9 (node), a space and an apostrophe.\<close>

definition txt_node_open :: ustr where
  "txt_node_open = [33410, 28857, 32, 39]"

text \<open>An apostrophe, a space, U+6267 U+884C U+5B8C U+6210 (execution completed).\<close>

definition txt_node_completed :: ustr where
  "txt_node_completed = [39, 32, 25191, 34892, 23436, 25104]"

text \<open>An apostrophe, a space, U+5F00 U+59CB U+6267 U+884C (starts executing) and three dots.\<close>

definition txt_node_starting :: ustr where
  "txt_node_starting = [39, 32, 24320, 22987, 25191, 34892, 46, 46, 46]"

text \<open>U+672A U+77E5 U+5DE5 U+5177 (unknown tool).\<close>

definition txt_unknown_tool :: ustr where
  "txt_unknown_tool = [26410, 30693, 24037, 20855]"

text \<open>U+5DE5 U+5177 (tool), a space and an apostrophe.\<close>

definition txt_tool_open :: ustr where
  "txt_tool_open = [24037, 20855, 32, 39]"

text \<open>An apostrophe, a space, U+6B63 U+5728 U+6267 U+884C (is executing) and three dots.\<close>

definition txt_tool_running :: ustr where
  "txt_tool_running = [39, 32, 27491, 22312, 25191, 34892, 46, 46, 46]"

text \<open>An apostrophe, a space, U+6267 U+884C U+5B8C U+6210 (execution completed), a colon and a space.\<close>

definition txt_tool_completed :: ustr where
  "txt_tool_completed = [39, 32, 25191, 34892, 23436, 25104, 58, 32]"

text \<open>U+5DF2 U+4FDD U+5B58 U+6587 U+4EF6 U+6570 U+91CF (number of saved files), a colon and a space.\<close>

definition txt_saved_count :: ustr where
  "txt_saved_count = [24050, 20445, 23384, 25991, 20214, 25968, 37327, 58, 32]"

text \<open>U+6458 U+8981 U+6587 U+4EF6 U+8DEF U+5F84 (path of the summary file), a colon and a space.\<close>

definition txt_summary_path :: ustr where
  "txt_summary_path = [25688, 35201, 25991, 20214, 36335, 24452, 58, 32]"

text \<open>U+62A5 U+544A (report).\<close>

definition txt_report_suffix :: ustr where
  "txt_report_suffix = [25253, 21578]"

text \<open>U+5206 U+6790 U+8FC7 U+7A0B U+4E2D U+51FA U+73B0 U+4E25 U+91CD U+9519 U+8BEF (a severe error occurred during the analysis), a colon and a space.\<close>

definition txt_severe_error :: ustr where
  "txt_severe_error =
    [20998, 26512, 36807, 31243, 20013, 20986, 29616, 20005, 37325, 38169, 35823, 58, 32]"

text \<open>U+5206 U+6790 U+6D41 U+7A0B U+5DF2 U+7ED3 U+675F U+3002 (the analysis has ended).\<close>

definition txt_analysis_ended :: ustr where
  "txt_analysis_ended = [20998, 26512, 27969, 31243, 24050, 32467, 26463, 12290]"

text \<open>The titles of the reports (\<open>report_type_map\<close>), in Chinese in the source: each is the
  name of the analysis followed by U+62A5 U+544A (report); the last is U+6700 U+7EC8 U+7ED3 U+679C U+4FDD U+5B58
  (saving of the final result).\<close>

definition report_type_map :: "(ustr \<times> ustr) list" where
  "report_type_map =
    [(asc ''fundamental_analysis'', [22522, 26412, 38754, 20998, 26512, 25253, 21578]),
     (asc ''technical_analysis'', [25216, 26415, 20998, 26512, 25253, 21578]),
     (asc ''sentiment_analysis'', [24773, 32490, 20998, 26512, 25253, 21578]),
     (asc ''news_analysis'', [26032, 38395, 20998, 26512, 25253, 21578]),
     (asc ''fund_analysis'', [36164, 37329, 20998, 26512, 25253, 21578]),
     (asc ''bull_debate'', [22810, 22836, 36777, 35770, 25253, 21578]),
     (asc ''bear_debate'', [31354, 22836, 36777, 35770, 25253, 21578]),
     (asc ''debate_analyst'', [36777, 35770, 20998, 26512, 25253, 21578]),
     (asc ''supervisor'', [24635, 20915, 31574, 25253, 21578]),
     (asc ''final_result_save'', [26368, 32456, 32467, 26524, 20445, 23384])]"

text \<open>\<open>str(n)\<close> of a natural number.\<close>

fun str_nat :: "nat \<Rightarrow> ustr" where
  "str_nat n = (if n < 10 then [48 + n] else str_nat (n div 10) @ [48 + n mod 10])"

declare str_nat.simps [simp del]

definition py_endswith :: "ustr \<Rightarrow> ustr \<Rightarrow> bool" where
  "py_endswith s suf = (length suf \<le> length s \<and> drop (length s - length suf) s = suf)"

text \<open>\<open>len(x)\<close>; \<open>None\<close> is the \<open>TypeError\<close> of a value without a length.\<close>

fun py_len :: "json \<Rightarrow> nat option" where
  "py_len (JStr s) = Some (length s)"
| "py_len (JArr xs) = Some (length xs)"
| "py_len (JObj kvs) = Some (length kvs)"
| "py_len _ = None"

definition report_nodes :: "ustr list" where
  "report_nodes =
     [asc ''fundamental_analysis'', asc ''technical_analysis'', asc ''sentiment_analysis'',
      asc ''news_analysis'', asc ''fund_analysis'', asc ''bull_debate'', asc ''bear_debate'',
      asc ''debate_analyst'', asc ''supervisor'', asc ''final_result_save'']"

text \<open>\<open>StreamEvent(event_type=..., thread_id=..., agent=..., id=...)\<close> with the defaults of the
  model: the role is \<open>assistant\<close>, the content is the empty string.\<close>

definition stream_event :: "ustr \<Rightarrow> ustr \<Rightarrow> ustr \<Rightarrow> ustr \<Rightarrow> frame" where
  "stream_event etype tid agent rid =
     \<lparr>fr_event_type = etype, fr_thread_id = tid, fr_agent = agent, fr_id = rid,
      fr_role = Some (asc ''assistant''), fr_content = Some [], fr_finish_reason = None,
      fr_progress_symbol = None, fr_tool_calls = None, fr_tool_call_chunks = None,
      fr_node_status = None, fr_result_data = None\<rparr>"

text \<open>The fields \<open>id\<close> and \<open>agent\<close> of the model are strings: \<open>None\<close> for either raises.\<close>

definition validated :: "stream_lib \<Rightarrow> ustr option \<Rightarrow> ustr option \<Rightarrow> (ustr \<Rightarrow> ustr \<Rightarrow> 'a outcome) \<Rightarrow> 'a outcome" where
  "validated lib agent rid k =
     (case agent of
        None \<Rightarrow> Raised (validation_error lib)
      | Some a \<Rightarrow> (case rid of None \<Rightarrow> Raised (validation_error lib) | Some r \<Rightarrow> k a r))"

text \<open>The text of the report of a node other than \<open>final_result_save\<close>: the values of the
  keys that end with \<open>_report\<close> or \<open>_result\<close>.\<close>

fun report_lines :: "stream_lib \<Rightarrow> (ustr \<times> json) list \<Rightarrow> ustr" where
  "report_lines lib [] = []"
| "report_lines lib ((key, v) # kvs) =
     (if py_endswith key (asc ''_report'') \<or> py_endswith key (asc ''_result'')
      then (case v of
              JStr s \<Rightarrow> s @ [10, 10]
            | _ \<Rightarrow> key @ asc '': '' @ str_of lib v @ [10, 10])
      else []) @ report_lines lib kvs"

text \<open>The text of the report of \<open>final_result_save\<close>.\<close>

definition save_lines :: "stream_lib \<Rightarrow> (ustr \<times> json) list \<Rightarrow> ustr outcome" where
  "save_lines lib output =
     (let rest =
            (case dict_get output (asc ''summary_filepath'') of
               Some (JStr s) \<Rightarrow> txt_summary_path @ s @ [10]
             | Some v \<Rightarrow> txt_summary_path @ str_of lib v @ [10]
             | None \<Rightarrow> [])
            @ (case dict_get output (asc ''final_report'') of
                 Some (JStr s) \<Rightarrow> s @ [10]
               | Some v \<Rightarrow> str_of lib v @ [10]
               | None \<Rightarrow> [])
      in case dict_get output (asc ''saved_files'') of
           None \<Rightarrow> Returned rest
         | Some v \<Rightarrow>
             (case py_len v of
                None \<Rightarrow> Raised (no_len_error lib v)
              | Some n \<Rightarrow> Returned (txt_saved_count @ str_nat n @ [10] @ rest)))"

definition report_title :: "ustr \<Rightarrow> ustr" where
  "report_title node_name =
     (case map_of report_type_map node_name of
        Some t \<Rightarrow> t
      | None \<Rightarrow> node_name @ txt_report_suffix)"

text \<open>The frames of a node that has completed: \<open>node_complete\<close>, and \<open>analysis_result\<close> when
  the output of the node is not empty.\<close>

definition chain_end_frames :: "stream_lib \<Rightarrow> ustr \<Rightarrow> ustr \<Rightarrow> ustr \<Rightarrow> json \<Rightarrow> frame list outcome" where
  "chain_end_frames lib tid node_name rid output =
     (let complete_event =
            (stream_event (asc ''node_complete'') tid node_name rid)
              \<lparr>fr_content := Some (txt_node_open @ node_name @ txt_node_completed),
               fr_node_status := Some (asc ''completed''),
               fr_finish_reason := Some (asc ''stop'')\<rparr>
      in if \<not> py_truthy output then Returned [complete_event]
         else (case output of
                 JObj kvs \<Rightarrow>
                   (case (if node_name = asc ''final_result_save'' then save_lines lib kvs
                          else Returned (report_lines lib kvs)) of
                      Raised e \<Rightarrow> Raised e
                    | Returned body \<Rightarrow>
                        Returned
                          [complete_event,
                           (stream_event (asc ''analysis_result'') tid node_name rid)
                             \<lparr>fr_content :=
                                 Some (asc ''=== '' @ report_title node_name @ asc '' ==='' @ [10] @ body),
                              fr_result_data := Some kvs,
                              fr_finish_reason := Some (asc ''stop'')\<rparr>])
               | _ \<Rightarrow> Raised (not_a_dict_error lib output)))"

text \<open>The text shown for the output of a tool: a string longer than 200 characters is cut.\<close>

definition tool_output_text :: "stream_lib \<Rightarrow> json option \<Rightarrow> ustr" where
  "tool_output_text lib out =
     (case out of
        None \<Rightarrow> []
      | Some (JStr s) \<Rightarrow> (if length s > 200 then take 200 s @ asc ''...'' else s)
      | Some v \<Rightarrow> str_of lib v)"

definition tool_name_of :: "raw_event \<Rightarrow> ustr" where
  "tool_name_of ev = (case ev_tool ev of Some t \<Rightarrow> t | None \<Rightarrow> txt_unknown_tool)"

text \<open>The frame of a chunk of a chat model: tool call chunks first, then the text, then the
  tool calls; \<open>None\<close> for a chunk with none of them.\<close>

definition chunk_frames ::
  "stream_lib \<Rightarrow> ustr \<Rightarrow> ustr option \<Rightarrow> ustr option \<Rightarrow> chunk \<Rightarrow> frame list option outcome" where
  "chunk_frames lib tid node_name run_id ck =
     (if ck_tool_call_chunks ck \<noteq> [] then
        (case dump_tool_call_chunks lib (ck_tool_call_chunks ck) of
           Raised e \<Rightarrow> Raised e
         | Returned cs \<Rightarrow>
             validated lib node_name run_id (\<lambda>a r.
               Returned (Some [(stream_event (asc ''tool_call_chunks'') tid a r)
                                 \<lparr>fr_tool_call_chunks := Some cs\<rparr>])))
      else if ck_content ck \<noteq> [] then
        validated lib node_name run_id (\<lambda>a r.
          Returned (Some [(stream_event (asc ''message_chunk'') tid a r)
                            \<lparr>fr_content := Some (ck_content ck),
                             fr_finish_reason := ck_finish_reason ck\<rparr>]))
      else if ck_tool_calls ck \<noteq> [] then
        (case dump_tool_calls lib (ck_tool_calls ck) of
           Raised e \<Rightarrow> Raised e
         | Returned cs \<Rightarrow>
             validated lib node_name run_id (\<lambda>a r.
               Returned (Some [(stream_event (asc ''tool_calls'') tid a r)
                                 \<lparr>fr_tool_calls := Some cs,
                                  fr_finish_reason := Some (asc ''tool_calls'')\<rparr>])))
      else Returned None)"

text \<open>
  \<open>format_event\<close>: the frames of an event of the graph. \<open>Returned None\<close> is the \<open>None\<close> of
  the source, for an event that is not shown; the text that the source returns is the
  concatenation of the frames.
\<close>

definition format_event :: "stream_lib \<Rightarrow> raw_event \<Rightarrow> ustr \<Rightarrow> frame list option outcome" where
  "format_event lib ev tid =
     (let event_name = ev_event ev; run_id = ev_run_id ev; node_name = ev_name ev
      in if event_name = Some (asc ''on_graph_end'') then Returned None
         else if event_name = Some (asc ''on_chain_end'')
                 \<and> (case node_name of Some n \<Rightarrow> n \<in> set report_nodes | None \<Rightarrow> False) then
           validated lib node_name run_id (\<lambda>a r.
             case chain_end_frames lib tid a r
                    (case ev_output ev of Some out \<Rightarrow> out | None \<Rightarrow> JObj []) of
               Raised e \<Rightarrow> Raised e
             | Returned fs \<Rightarrow> Returned (Some fs))
         else if event_name = Some (asc ''on_chain_start'') then
           validated lib node_name run_id (\<lambda>a r.
             Returned (Some [(stream_event (asc ''progress'') tid a r)
                               \<lparr>fr_content := Some (txt_node_open @ a @ txt_node_starting),
                                fr_node_status := Some (asc ''started''),
                                fr_progress_symbol := Some True\<rparr>]))
         else if event_name = Some (asc ''on_tool_start'') then
           validated lib node_name run_id (\<lambda>a r.
             Returned (Some [(stream_event (asc ''progress'') tid a r)
                               \<lparr>fr_content := Some (txt_tool_open @ tool_name_of ev @ txt_tool_running),
                                fr_progress_symbol := Some True\<rparr>]))
         else if event_name = Some (asc ''on_tool_end'') then
           validated lib node_name run_id (\<lambda>a r.
             Returned (Some [(stream_event (asc ''progress'') tid a r)
                               \<lparr>fr_content :=
                                   Some (txt_tool_open @ tool_name_of ev @ txt_tool_completed
                                         @ tool_output_text lib (ev_output ev)),
                                fr_progress_symbol := Some False\<rparr>]))
         else if event_name = Some (asc ''on_chat_model_stream'') then
           (case ev_chunk ev of
              None \<Rightarrow> Returned None
            | Some ck \<Rightarrow> chunk_frames lib tid node_name run_id ck)
         else Returned None)"

text \<open>
  The loop of the generator: every event is formatted and its frames are sent, unless
  \<open>format_event\<close> returned \<open>None\<close>. The loop ends when the events are exhausted, when the
  iterator raises and when \<open>format_event\<close> raises; the second component is \<open>str(e)\<close> of
  the exception.
\<close>

fun stream_loop :: "stream_lib \<Rightarrow> ustr \<Rightarrow> raw_event list \<Rightarrow> source_end \<Rightarrow> frame list \<times> ustr option" where
  "stream_loop lib tid [] Exhausted = ([], None)"
| "stream_loop lib tid [] (Failed e) = ([], Some e)"
| "stream_loop lib tid (ev # evs) fin =
     (case format_event lib ev tid of
        Raised e \<Rightarrow> ([], Some e)
      | Returned None \<Rightarrow> stream_loop lib tid evs fin
      | Returned (Some fs) \<Rightarrow>
          (case stream_loop lib tid evs fin of (sent, err) \<Rightarrow> (fs @ sent, err)))"

text \<open>The two frames that the generator builds itself.\<close>

definition error_event :: "ustr \<Rightarrow> ustr \<Rightarrow> frame" where
  "error_event tid e =
     \<lparr>fr_event_type = asc ''message_chunk'', fr_thread_id = tid, fr_agent = asc ''system_error'',
      fr_id = asc ''error-run'', fr_role = None, fr_content = Some (txt_severe_error @ e),
      fr_finish_reason = Some (asc ''stop''), fr_progress_symbol = None, fr_tool_calls = None,
      fr_tool_call_chunks = None, fr_node_status = None, fr_result_data = None\<rparr>"

definition final_event :: "ustr \<Rightarrow> frame" where
  "final_event tid =
     \<lparr>fr_event_type = asc ''message_chunk'', fr_thread_id = tid, fr_agent = asc ''system'',
      fr_id = asc ''final-run'', fr_role = None, fr_content = Some txt_analysis_ended,
      fr_finish_reason = Some (asc ''stop''), fr_progress_symbol = None, fr_tool_calls = None,
      fr_tool_call_chunks = None, fr_node_status = None, fr_result_data = None\<rparr>"

text \<open>
  \<open>stream_analysis_generator\<close>: the frames of the stream, in the order in which they are
  sent. The \<open>except Exception\<close> clause sends the error frame, the \<open>finally\<close> clause the
  final one. (The construction of the graph, before the \<open>try\<close>, adds nodes and edges to
  a graph of the library and is taken to return.)
\<close>

definition stream_inputs_end_date :: "clock \<Rightarrow> ustr option \<Rightarrow> ustr" where
  "stream_inputs_end_date clk ed = (case ed of None \<Rightarrow> strftime_compact (today clk) | Some s \<Rightarrow> s)"

definition stream_analysis_generator :: "stream_lib \<Rightarrow> clock \<Rightarrow> ustr \<Rightarrow> ustr option \<Rightarrow> frame list" where
  "stream_analysis_generator lib clk stock ed =
     (let thread_id = uuid4 lib;
          (events, fin) = astream_events lib stock (stream_inputs_end_date clk ed)
      in case stream_loop lib thread_id events fin of
           (sent, None) \<Rightarrow> sent @ [final_event thread_id]
         | (sent, Some e) \<Rightarrow> sent @ [error_event thread_id e] @ [final_event thread_id])"


subsection \<open>How a stream ends\<close>

text \<open>A \<open>message_chunk\<close> frame with the finish reason \<open>stop\<close> on the agent \<open>system\<close> or
  \<open>system_error\<close>.\<close>

definition system_stop_chunk :: "frame \<Rightarrow> bool" where
  "system_stop_chunk f =
     (fr_event_type f = asc ''message_chunk'' \<and> fr_finish_reason f = Some (asc ''stop'')
      \<and> (fr_agent f = asc ''system'' \<or> fr_agent f = asc ''system_error''))"

text \<open>The exception that ends the \<open>try\<close> block of the generator, if any.\<close>

definition stream_failure :: "stream_lib \<Rightarrow> clock \<Rightarrow> ustr \<Rightarrow> ustr option \<Rightarrow> ustr option" where
  "stream_failure lib clk stock ed =
     (case astream_events lib stock (stream_inputs_end_date clk ed) of
        (events, fin) \<Rightarrow> snd (stream_loop lib (uuid4 lib) events fin))"

definition event_names :: "stream_lib \<Rightarrow> clock \<Rightarrow> ustr \<Rightarrow> ustr option \<Rightarrow> ustr option list" where
  "event_names lib clk stock ed =
     map ev_name (fst (astream_events lib stock (stream_inputs_end_date clk ed)))"

lemma validated_cases:
  assumes "validated lib agent rid k = Returned x"
  obtains a r where "agent = Some a" "rid = Some r" "k a r = Returned x"
  using assms by (auto simp: validated_def split: option.splits)

lemma stream_event_agent [simp]: "fr_agent (stream_event etype tid a r) = a"
  by (simp add: stream_event_def)

lemma chain_end_frames_agent:
  assumes "chain_end_frames lib tid a r out = Returned fs" and "f \<in> set fs"
  shows "fr_agent f = a"
  using assms
  by (auto simp: chain_end_frames_def Let_def split: if_splits json.splits outcome.splits)

lemma chunk_frames_agent:
  assumes "chunk_frames lib tid nm rid ck = Returned (Some fs)" and "f \<in> set fs"
  shows "nm = Some (fr_agent f)"
  using assms
  by (auto simp: chunk_frames_def split: if_splits outcome.splits elim!: validated_cases)

lemma format_event_agent:
  assumes "format_event lib ev tid = Returned (Some fs)" and "f \<in> set fs"
  shows "ev_name ev = Some (fr_agent f)"
  using assms
  by (auto simp: format_event_def Let_def
      split: if_splits outcome.splits option.splits elim!: validated_cases
      dest: chain_end_frames_agent chunk_frames_agent)

lemma stream_loop_agents:
  assumes "stream_loop lib tid evs fin = (sent, err)" and "f \<in> set sent"
  shows "Some (fr_agent f) \<in> ev_name ` set evs"
  using assms
proof (induction evs arbitrary: sent err)
  case Nil
  then show ?case by (cases fin) auto
next
  case (Cons ev evs)
  show ?case
  proof (cases "format_event lib ev tid")
    case (Raised e)
    with Cons.prems show ?thesis by simp
  next
    case (Returned r)
    show ?thesis
    proof (cases r)
      case None
      with Returned Cons show ?thesis by auto
    next
      case (Some fs)
      obtain sent' err' where l: "stream_loop lib tid evs fin = (sent', err')"
        by (cases "stream_loop lib tid evs fin")
      with Returned Some Cons.prems have "sent = fs @ sent'" by simp
      with Cons.prems(2) consider "f \<in> set fs" | "f \<in> set sent'" by auto
      then show ?thesis
      proof cases
        case 1
        from format_event_agent [OF _ 1] Returned Some show ?thesis by simp
      next
        case 2
        from Cons.IH [OF l 2] show ?thesis by auto
      qed
    qed
  qed
qed

lemma final_event_stop [simp]: "system_stop_chunk (final_event tid)"
  by (simp add: system_stop_chunk_def final_event_def)

lemma error_event_stop [simp]: "system_stop_chunk (error_event tid e)"
  by (simp add: system_stop_chunk_def error_event_def)

lemma stream_analysis_generator_eq:
  "stream_analysis_generator lib clk stock ed =
     (case astream_events lib stock (stream_inputs_end_date clk ed) of
        (events, fin) \<Rightarrow>
          fst (stream_loop lib (uuid4 lib) events fin)
          @ (case snd (stream_loop lib (uuid4 lib) events fin) of
               None \<Rightarrow> [final_event (uuid4 lib)]
             | Some e \<Rightarrow> [error_event (uuid4 lib) e, final_event (uuid4 lib)]))"
  by (simp add: stream_analysis_generator_def Let_def split: prod.splits option.splits)

text \<open>
  C6, as the code has it. Of a run none of whose events is named \<open>system\<close> or
  \<open>system_error\<close>, the stream is the frames of the events, none of them a \<open>message_chunk\<close>
  with the finish reason \<open>stop\<close> on \<open>system\<close> or \<open>system_error\<close>, followed
  \<^item> by the final frame alone (a \<open>message_chunk\<close> with the finish reason \<open>stop\<close> on the agent
    \<open>system\<close>) when the loop over the events ends without an exception: one such frame;
  \<^item> by the error frame (a \<open>message_chunk\<close> with the finish reason \<open>stop\<close> on the agent
    \<open>system_error\<close>) and then the final frame when the loop raises: two such frames.
\<close>

theorem stream_ends_with_system_frames:
  assumes "Some (asc ''system'') \<notin> set (event_names lib clk stock ed)"
    and "Some (asc ''system_error'') \<notin> set (event_names lib clk stock ed)"
  shows "\<exists>sent. \<not> list_ex system_stop_chunk sent
           \<and> (case stream_failure lib clk stock ed of
                None \<Rightarrow>
                  stream_analysis_generator lib clk stock ed = sent @ [final_event (uuid4 lib)]
                  \<and> length (filter system_stop_chunk (stream_analysis_generator lib clk stock ed)) = 1
              | Some e \<Rightarrow>
                  stream_analysis_generator lib clk stock ed
                    = sent @ [error_event (uuid4 lib) e, final_event (uuid4 lib)]
                  \<and> length (filter system_stop_chunk (stream_analysis_generator lib clk stock ed)) = 2)
           \<and> fr_agent (final_event (uuid4 lib)) = asc ''system''
           \<and> (\<forall>e. fr_agent (error_event (uuid4 lib) e) = asc ''system_error'')"
proof -
  obtain events fin where a: "astream_events lib stock (stream_inputs_end_date clk ed) = (events, fin)"
    by (cases "astream_events lib stock (stream_inputs_end_date clk ed)")
  obtain sent err where l: "stream_loop lib (uuid4 lib) events fin = (sent, err)"
    by (cases "stream_loop lib (uuid4 lib) events fin")
  have none: "\<not> system_stop_chunk f" if "f \<in> set sent" for f
  proof
    assume s: "system_stop_chunk f"
    from stream_loop_agents [OF l that] obtain ev where
      ev: "ev \<in> set events" "ev_name ev = Some (fr_agent f)" by auto
    then have "Some (fr_agent f) \<in> set (event_names lib clk stock ed)"
      by (force simp: event_names_def a)
    with s assms show False by (auto simp: system_stop_chunk_def)
  qed
  then have f: "filter system_stop_chunk sent = []" by (simp add: filter_empty_conv)
  have nex: "\<not> list_ex system_stop_chunk sent" using none by (simp add: list_ex_iff)
  have g: "stream_analysis_generator lib clk stock ed =
             sent @ (case err of None \<Rightarrow> [final_event (uuid4 lib)]
                     | Some e \<Rightarrow> [error_event (uuid4 lib) e, final_event (uuid4 lib)])"
    by (simp add: stream_analysis_generator_eq a l)
  have sf: "stream_failure lib clk stock ed = err"
    by (simp add: stream_failure_def a l)
  have ag: "fr_agent (final_event (uuid4 lib)) = asc ''system''"
    "\<forall>e. fr_agent (error_event (uuid4 lib) e) = asc ''system_error''"
    by (simp_all add: final_event_def error_event_def)
  show ?thesis
  proof (intro exI [of _ sent] conjI nex ag)
    show "case stream_failure lib clk stock ed of
            None \<Rightarrow>
              stream_analysis_generator lib clk stock ed = sent @ [final_event (uuid4 lib)]
              \<and> length (filter system_stop_chunk (stream_analysis_generator lib clk stock ed)) = 1
          | Some e \<Rightarrow>
              stream_analysis_generator lib clk stock ed
                = sent @ [error_event (uuid4 lib) e, final_event (uuid4 lib)]
              \<and> length (filter system_stop_chunk (stream_analysis_generator lib clk stock ed)) = 2"
      by (cases err) (simp_all add: sf g f)
  qed
qed

text \<open>A run of three events: the supervisor starts, its model sends the text \<open>Buy.\<close> with
  the finish reason \<open>stop\<close>, and the supervisor completes with an empty output.\<close>

definition sample_event :: "string \<Rightarrow> string \<Rightarrow> raw_event" where
  "sample_event ev nm =
     \<lparr>ev_event = Some (asc ev), ev_run_id = Some (asc ''run-1''), ev_name = Some (asc nm),
      ev_output = None, ev_tool = None, ev_chunk = None\<rparr>"

definition sample_chunk :: chunk where
  "sample_chunk =
     \<lparr>ck_tool_call_chunks = [], ck_content = asc ''Buy.'',
      ck_finish_reason = Some (asc ''stop''), ck_tool_calls = []\<rparr>"

definition sample_events :: "raw_event list" where
  "sample_events =
     [sample_event ''on_chain_start'' ''supervisor'',
      (sample_event ''on_chat_model_stream'' ''ChatOpenAI'') \<lparr>ev_chunk := Some sample_chunk\<rparr>,
      sample_event ''on_chain_end'' ''supervisor'']"

definition sample_stream_lib :: stream_lib where
  "sample_stream_lib =
     \<lparr>uuid4 = asc ''t-1'',
      str_of = (\<lambda>v. asc ''{}''),
      validation_error = asc ''validation error'',
      no_len_error = (\<lambda>v. asc ''object has no len()''),
      not_a_dict_error = (\<lambda>v. asc ''not a dict''),
      dump_tool_call_chunks = Returned,
      dump_tool_calls = Returned,
      astream_events = (\<lambda>stock ed. (sample_events, Exhausted))\<rparr>"

text \<open>The same run, but the iterator raises after the first event.\<close>

definition failing_stream_lib :: stream_lib where
  "failing_stream_lib =
     sample_stream_lib
       \<lparr>astream_events := (\<lambda>stock ed. ([sample_event ''on_chain_start'' ''supervisor''],
                                         Failed (asc ''boom'')))\<rparr>"

lemmas stream_eval =
  format_event_def chunk_frames_def chain_end_frames_def validated_def stream_event_def
  sample_event_def sample_chunk_def report_nodes_def asc_def Let_def

lemma sample_stream_loop:
  "stream_loop sample_stream_lib (asc ''t-1'') sample_events Exhausted =
     ([(stream_event (asc ''progress'') (asc ''t-1'') (asc ''supervisor'') (asc ''run-1''))
         \<lparr>fr_content := Some (txt_node_open @ asc ''supervisor'' @ txt_node_starting),
          fr_node_status := Some (asc ''started''),
          fr_progress_symbol := Some True\<rparr>,
       (stream_event (asc ''message_chunk'') (asc ''t-1'') (asc ''ChatOpenAI'') (asc ''run-1''))
         \<lparr>fr_content := Some (asc ''Buy.''),
          fr_finish_reason := Some (asc ''stop'')\<rparr>,
       (stream_event (asc ''node_complete'') (asc ''t-1'') (asc ''supervisor'') (asc ''run-1''))
         \<lparr>fr_content := Some (txt_node_open @ asc ''supervisor'' @ txt_node_completed),
          fr_node_status := Some (asc ''completed''),
          fr_finish_reason := Some (asc ''stop'')\<rparr>], None)"
  by (simp add: sample_events_def stream_eval)

lemma failing_stream_loop:
  "stream_loop failing_stream_lib (asc ''t-1'') [sample_event ''on_chain_start'' ''supervisor'']
       (Failed (asc ''boom'')) =
     ([(stream_event (asc ''progress'') (asc ''t-1'') (asc ''supervisor'') (asc ''run-1''))
         \<lparr>fr_content := Some (txt_node_open @ asc ''supervisor'' @ txt_node_starting),
          fr_node_status := Some (asc ''started''),
          fr_progress_symbol := Some True\<rparr>], Some (asc ''boom''))"
  by (simp add: stream_eval)

theorem stream_ends_with_system_frames_witness:
  "Some (asc ''system'') \<notin> set (event_names sample_stream_lib sample_clock sample_stock sample_end_date)
   \<and> Some (asc ''system_error'') \<notin> set (event_names sample_stream_lib sample_clock sample_stock sample_end_date)
   \<and> stream_failure sample_stream_lib sample_clock sample_stock sample_end_date = None
   \<and> last (stream_analysis_generator sample_stream_lib sample_clock sample_stock sample_end_date)
       = final_event (asc ''t-1'')
   \<and> length (filter system_stop_chunk
         (stream_analysis_generator sample_stream_lib sample_clock sample_stock sample_end_date)) = 1"
proof -
  have n1: "Some (asc ''system'') \<notin> set (event_names sample_stream_lib sample_clock sample_stock sample_end_date)"
    by (simp add: event_names_def sample_stream_lib_def sample_events_def sample_event_def asc_def)
  have n2: "Some (asc ''system_error'') \<notin> set (event_names sample_stream_lib sample_clock sample_stock sample_end_date)"
    by (simp add: event_names_def sample_stream_lib_def sample_events_def sample_event_def asc_def)
  have u: "uuid4 sample_stream_lib = asc ''t-1''"
    by (simp add: sample_stream_lib_def)
  have sf: "stream_failure sample_stream_lib sample_clock sample_stock sample_end_date = None"
    using sample_stream_loop by (simp add: stream_failure_def sample_stream_lib_def)
  from stream_ends_with_system_frames [OF n1 n2] sf u obtain sent where
    "stream_analysis_generator sample_stream_lib sample_clock sample_stock sample_end_date
       = sent @ [final_event (asc ''t-1'')]"
    "length (filter system_stop_chunk
       (stream_analysis_generator sample_stream_lib sample_clock sample_stock sample_end_date)) = 1"
    by auto
  with n1 n2 sf show ?thesis by simp
qed

text \<open>
  C6 (as stated) fails at a run whose iterator raises after the first event: the stream
  is three frames, and two of them, the last two, are \<open>message_chunk\<close> frames with the finish
  reason \<open>stop\<close> on \<open>system_error\<close> and on \<open>system\<close>; the stream does not end with exactly
  one such frame.
\<close>

theorem two_stop_frames_counterexample:
  "stream_analysis_generator failing_stream_lib sample_clock sample_stock sample_end_date =
     [(stream_event (asc ''progress'') (asc ''t-1'') (asc ''supervisor'') (asc ''run-1''))
        \<lparr>fr_content := Some (txt_node_open @ asc ''supervisor'' @ txt_node_starting),
         fr_node_status := Some (asc ''started''),
         fr_progress_symbol := Some True\<rparr>,
      error_event (asc ''t-1'') (asc ''boom''),
      final_event (asc ''t-1'')]
   \<and> filter system_stop_chunk
         (stream_analysis_generator failing_stream_lib sample_clock sample_stock sample_end_date)
       = [error_event (asc ''t-1'') (asc ''boom''), final_event (asc ''t-1'')]
   \<and> length (filter system_stop_chunk
         (stream_analysis_generator failing_stream_lib sample_clock sample_stock sample_end_date)) \<noteq> 1"
proof -
  have g: "stream_analysis_generator failing_stream_lib sample_clock sample_stock sample_end_date =
     [(stream_event (asc ''progress'') (asc ''t-1'') (asc ''supervisor'') (asc ''run-1''))
        \<lparr>fr_content := Some (txt_node_open @ asc ''supervisor'' @ txt_node_starting),
         fr_node_status := Some (asc ''started''),
         fr_progress_symbol := Some True\<rparr>,
      error_event (asc ''t-1'') (asc ''boom''),
      final_event (asc ''t-1'')]"
    using failing_stream_loop
    by (simp add: stream_analysis_generator_def failing_stream_lib_def sample_stream_lib_def Let_def)
  have p: "\<not> system_stop_chunk
     ((stream_event (asc ''progress'') (asc ''t-1'') (asc ''supervisor'') (asc ''run-1''))
        \<lparr>fr_content := Some (txt_node_open @ asc ''supervisor'' @ txt_node_starting),
         fr_node_status := Some (asc ''started''),
         fr_progress_symbol := Some True\<rparr>)"
    by (simp add: system_stop_chunk_def stream_event_def asc_def)
  show ?thesis by (simp add: g p)
qed


section \<open>The publication time of a news article (tools/crawler.py)\<close>

text \<open>
  A time of day on a date; seconds are not kept, as every time is formatted to the minute
  (\<open>strftime("%Y-%m-%d %H:%M")\<close>) and the arithmetic below is on whole minutes.
\<close>

record datetime =
  dt_date :: date
  dt_hour :: nat
  dt_minute :: nat

definition strftime_minute :: "datetime \<Rightarrow> ustr" where
  "strftime_minute dt =
     strftime_dashed (dt_date dt) @ asc '' '' @ pad2 (dt_hour dt) @ asc '':'' @ pad2 (dt_minute dt)"

text \<open>\<open>dt - timedelta(minutes=n)\<close>: \<open>None\<close> is the \<open>OverflowError\<close> of a result before year 1.\<close>

definition dt_minus_minutes :: "datetime \<Rightarrow> nat \<Rightarrow> datetime option" where
  "dt_minus_minutes dt n =
     (let total = (ymd2ord (dt_date dt) - 1) * 1440 + int (dt_hour dt) * 60 + int (dt_minute dt)
                  - int n
      in if total < 0 then None
         else Some \<lparr>dt_date = ord2ymd (total div 1440 + 1),
                    dt_hour = nat ((total mod 1440) div 60),
                    dt_minute = nat (total mod 60)\<rparr>)"

text \<open>
  The result of a crawl of a page, as far as the program reads it: \<open>success\<close>,
  \<open>extracted_content\<close> (\<open>None\<close> when absent or \<open>None\<close>), \<open>markdown\<close> and \<open>cleaned_html\<close>
  (the empty text when absent).
\<close>

record crawl_result =
  cr_success :: bool
  cr_extracted_content :: "ustr option"
  cr_markdown :: ustr
  cr_cleaned_html :: ustr

text \<open>
  What the code takes from its libraries:
  \<^item> \<open>re_search\<close>: for a pattern that compiles and a text, the groups 1, 2, ... of the first
    match of \<open>search\<close>, \<open>None\<close> when there is no match;
  \<^item> \<open>re_sub\<close>, \<open>re_fullmatch\<close>: \<open>re.sub(pattern, repl, s)\<close> and whether
    \<open>re.fullmatch(pattern, s)\<close> matches;
  \<^item> \<open>strptime_dt\<close>: \<open>datetime.strptime(s, format)\<close>, \<open>None\<close> for its \<open>ValueError\<close>;
  \<^item> \<open>int_of\<close>: \<open>int(s)\<close>, \<open>None\<close> for its \<open>ValueError\<close>;
  \<^item> \<open>from_timestamp_ms\<close>: \<open>datetime.fromtimestamp(ts/1000, tz=CHINA_TZ)\<close>, \<open>None\<close> when it
    raises;
  \<^item> \<open>astimezone_china\<close>: \<open>ref_dt.astimezone(CHINA_TZ)\<close> of a datetime without time zone,
    which reads it in the time zone of the machine; \<open>None\<close> when it raises;
  \<^item> \<open>now_china\<close>: \<open>datetime.now(tz=CHINA_TZ)\<close>;
  \<^item> \<open>arun\<close>: the crawl of a URL at the given attempt (0, 1, ...), \<open>Raised\<close> when it raises;
  \<^item> \<open>recursion_limit\<close>: the number of nested calls of \<open>_parse_any_dt_cn\<close> that the
    interpreter allows before it raises \<open>RecursionError\<close>, and \<open>recursion_error\<close> its text.
\<close>

record crawl_lib =
  re_search :: "ustr \<Rightarrow> ustr \<Rightarrow> ustr list option"
  re_sub :: "ustr \<Rightarrow> ustr \<Rightarrow> ustr \<Rightarrow> ustr"
  re_fullmatch :: "ustr \<Rightarrow> ustr \<Rightarrow> bool"
  strptime_dt :: "ustr \<Rightarrow> ustr \<Rightarrow> datetime option"
  int_of :: "ustr \<Rightarrow> nat option"
  from_timestamp_ms :: "nat \<Rightarrow> datetime option"
  astimezone_china :: "datetime \<Rightarrow> datetime option"
  now_china :: datetime
  arun :: "ustr \<Rightarrow> nat \<Rightarrow> crawl_result outcome"
  recursion_limit :: nat
  recursion_error :: ustr

text \<open>The pattern of the search in the visible text, as the raw string of the source has it
  (every backslash of the pattern text is doubled there): \<^verbatim>\<open>(20\\d{2}[\\-/.<U+5E74>]\\d{1,2}[\\-/.<U+6708>]\\d{1,2}(?:[\\sT]\\d{1,2}:\\d{2}(?::\\d{2})?)?)\<close>\<close>

definition visible_date_pattern :: ustr where
  "visible_date_pattern =
    [40, 50, 48, 92, 92, 100, 123, 50, 125, 91, 92, 92, 45, 47, 46, 24180, 93, 92, 92, 100,
    123, 49, 44, 50, 125, 91, 92, 92, 45, 47, 46, 26376, 93, 92, 92, 100, 123, 49, 44, 50, 125,
    40, 63, 58, 91, 92, 92, 115, 84, 93, 92, 92, 100, 123, 49, 44, 50, 125, 58, 92, 92, 100,
    123, 50, 125, 40, 63, 58, 58, 92, 92, 100, 123, 50, 125, 41, 63, 41, 63, 41]"

text \<open>The pattern of \<open>_url_dt_dash_re\<close>: \<^verbatim>\<open>/(20\d{2})[\-/](\d{1,2})[\-/](\d{1,2})(?:/|\b)\<close>\<close>

definition url_dt_dash_pattern :: ustr where
  "url_dt_dash_pattern =
    [47, 40, 50, 48, 92, 100, 123, 50, 125, 41, 91, 92, 45, 47, 93, 40, 92, 100, 123, 49, 44,
    50, 125, 41, 91, 92, 45, 47, 93, 40, 92, 100, 123, 49, 44, 50, 125, 41, 40, 63, 58, 47,
    124, 92, 98, 41]"

text \<open>The pattern of \<open>_url_dt_compact_re\<close>: \<^verbatim>\<open>/(20\d{2})(\d{2})(\d{2})(?:/|\b)\<close>\<close>

definition url_dt_compact_pattern :: ustr where
  "url_dt_compact_pattern =
    [47, 40, 50, 48, 92, 100, 123, 50, 125, 41, 40, 92, 100, 123, 50, 125, 41, 40, 92, 100,
    123, 50, 125, 41, 40, 63, 58, 47, 124, 92, 98, 41]"

text \<open>The pattern of \<open>_rel_min_re\<close> (minutes): \<^verbatim>\<open>(\d+)\s*<U+5206><U+949F>[<U+524D>]?\<close>\<close>

definition rel_min_pattern :: ustr where
  "rel_min_pattern = [40, 92, 100, 43, 41, 92, 115, 42, 20998, 38047, 91, 21069, 93, 63]"

text \<open>The pattern of \<open>_rel_hour_re\<close> (hours): \<^verbatim>\<open>(\d+)\s*<U+5C0F><U+65F6>[<U+524D>]?\<close>\<close>

definition rel_hour_pattern :: ustr where
  "rel_hour_pattern = [40, 92, 100, 43, 41, 92, 115, 42, 23567, 26102, 91, 21069, 93, 63]"

text \<open>The pattern of \<open>_rel_day_re\<close> (days): \<^verbatim>\<open>(\d+)\s*<U+5929>[<U+524D>]?\<close>\<close>

definition rel_day_pattern :: ustr where
  "rel_day_pattern = [40, 92, 100, 43, 41, 92, 115, 42, 22825, 91, 21069, 93, 63]"

text \<open>The pattern of \<open>_rel_month_re\<close> (months): \<^verbatim>\<open>(\d+)\s*<U+4E2A><U+6708>[<U+524D>]?\<close>\<close>

definition rel_month_pattern :: ustr where
  "rel_month_pattern = [40, 92, 100, 43, 41, 92, 115, 42, 20010, 26376, 91, 21069, 93, 63]"

text \<open>The pattern of the prefix that \<open>_parse_any_dt_cn\<close> removes: \<^verbatim>\<open>[\u3000\s]*<U+53D1><U+5E03><U+65F6><U+95F4>[:<U+FF1A>]\s*\<close>\<close>

definition prefix_pattern :: ustr where
  "prefix_pattern =
    [91, 92, 117, 51, 48, 48, 48, 92, 115, 93, 42, 21457, 24067, 26102, 38388, 91, 58, 65306,
    93, 92, 115, 42]"

text \<open>The pattern of a timestamp: \<^verbatim>\<open>\d{10,13}\<close>\<close>

definition timestamp_pattern :: ustr where
  "timestamp_pattern = [92, 100, 123, 49, 48, 44, 49, 51, 125]"

text \<open>The pattern of the last resort of \<open>_parse_any_dt_cn\<close>: \<^verbatim>\<open>(20\d{2}[-/.]\d{1,2}[-/.]\d{1,2}(?:[ T]\d{1,2}:\d{2}(?::\d{2})?)?)\<close>\<close>

definition any_date_pattern :: ustr where
  "any_date_pattern =
    [40, 50, 48, 92, 100, 123, 50, 125, 91, 45, 47, 46, 93, 92, 100, 123, 49, 44, 50, 125, 91,
    45, 47, 46, 93, 92, 100, 123, 49, 44, 50, 125, 40, 63, 58, 91, 32, 84, 93, 92, 100, 123,
    49, 44, 50, 125, 58, 92, 100, 123, 50, 125, 40, 63, 58, 58, 92, 100, 123, 50, 125, 41, 63,
    41, 63, 41]"

text \<open>The formats that \<open>_parse_any_dt_cn\<close> tries, in this order:
  \<^verbatim>\<open>%Y-%m-%d %H:%M:%S\<close>
  \<^verbatim>\<open>%Y-%m-%d %H:%M\<close>
  \<^verbatim>\<open>%Y/%m/%d %H:%M\<close>
  \<^verbatim>\<open>%Y.%m.%d %H:%M\<close>
  \<^verbatim>\<open>%Y-%m-%d\<close>
  \<^verbatim>\<open>%Y/%m/%d\<close>
  \<^verbatim>\<open>%Y.%m.%d\<close>
  \<^verbatim>\<open>%Y<U+5E74>%m<U+6708>%d<U+65E5> %H:%M\<close>
  \<^verbatim>\<open>%Y<U+5E74>%m<U+6708>%d<U+65E5>\<close>.\<close>

definition dt_formats :: "ustr list" where
  "dt_formats =
    [[37, 89, 45, 37, 109, 45, 37, 100, 32, 37, 72, 58, 37, 77, 58, 37, 83],
     [37, 89, 45, 37, 109, 45, 37, 100, 32, 37, 72, 58, 37, 77],
     [37, 89, 47, 37, 109, 47, 37, 100, 32, 37, 72, 58, 37, 77],
     [37, 89, 46, 37, 109, 46, 37, 100, 32, 37, 72, 58, 37, 77],
     [37, 89, 45, 37, 109, 45, 37, 100],
     [37, 89, 47, 37, 109, 47, 37, 100],
     [37, 89, 46, 37, 109, 46, 37, 100],
     [37, 89, 24180, 37, 109, 26376, 37, 100, 26085, 32, 37, 72, 58, 37, 77],
     [37, 89, 24180, 37, 109, 26376, 37, 100, 26085]]"

text \<open>\<open>TIME_KEYS\<close>:
  \<^verbatim>\<open>datePublished\<close>, \<^verbatim>\<open>dateModified\<close>, \<^verbatim>\<open>pubdate\<close>, \<^verbatim>\<open>publishdate\<close>, \<^verbatim>\<open>published_time\<close>, \<^verbatim>\<open><U+53D1><U+5E03><U+65F6><U+95F4>\<close>, \<^verbatim>\<open><U+53D1><U+8868><U+65F6><U+95F4>\<close>, \<^verbatim>\<open><U+65F6><U+95F4>\<close>, \<^verbatim>\<open>datetime\<close>, \<^verbatim>\<open>content_time\<close>.\<close>

definition TIME_KEYS :: "ustr list" where
  "TIME_KEYS =
    [asc ''datePublished'',
     asc ''dateModified'',
     asc ''pubdate'',
     asc ''publishdate'',
     asc ''published_time'',
     [21457, 24067, 26102, 38388],
     [21457, 34920, 26102, 38388],
     [26102, 38388],
     asc ''datetime'',
     asc ''content_time'']"

subsection \<open>Character ranges of a pattern\<close>

text \<open>
  The parser of the \<open>re\<close> module reads a pattern token by token, a backslash and the character
  after it being one token. In a character set \<open>[...]\<close> an item followed by \<open>-\<close> and another
  item is a range; the parser raises \<open>re.error\<close> (bad character range) when one of the two is
  a category such as \<open>\d\<close>, or when the second lies before the first. Of the parser, the
  functions below keep the tokens and this check: \<open>sre_range_error\<close> returns the message of
  the first such error, \<open>None\<close> when there is none or when a set holds an escape whose value
  is not modelled (a backslash before a letter other than those listed, or before a digit).
\<close>

type_synonym sre_token = "bool \<times> nat"

fun sre_tokens :: "ustr \<Rightarrow> sre_token list" where
  "sre_tokens [] = []"
| "sre_tokens [c] = [(False, c)]"
| "sre_tokens (c # d # cs) =
     (if c = 92 then (True, d) # sre_tokens cs else (False, c) # sre_tokens (d # cs))"

datatype set_item = Literal nat | Category | Unknown

text \<open>The value of an item of a set: a character stands for itself, and so does an escaped
  character that is not an ASCII letter or digit; \<open>\d \D \s \S \w \W\<close> are categories;
  \<open>\a \b \f \n \r \t \v\<close> are control characters.\<close>

definition class_code :: "sre_token \<Rightarrow> set_item" where
  "class_code t =
     (case t of
        (False, c) \<Rightarrow> Literal c
      | (True, c) \<Rightarrow>
          if c \<in> set (asc ''dDsSwW'') then Category
          else if c = 97 then Literal 7 else if c = 98 then Literal 8
          else if c = 102 then Literal 12 else if c = 110 then Literal 10
          else if c = 114 then Literal 13 else if c = 116 then Literal 9
          else if c = 118 then Literal 11
          else if (48 \<le> c \<and> c \<le> 57) \<or> (65 \<le> c \<and> c \<le> 90) \<or> (97 \<le> c \<and> c \<le> 122)
          then Unknown
          else Literal c)"

definition token_text :: "sre_token \<Rightarrow> ustr" where
  "token_text t = (case t of (False, c) \<Rightarrow> [c] | (True, c) \<Rightarrow> [92, c])"

definition bad_range :: "sre_token \<Rightarrow> sre_token \<Rightarrow> ustr" where
  "bad_range this that = asc ''bad character range '' @ token_text this @ asc ''-'' @ token_text that"

text \<open>The first argument is \<open>None\<close> outside a set, and inside a set tells whether the set has
  an item already (a \<open>]\<close> that comes first in a set is an item).\<close>

fun sre_scan :: "bool option \<Rightarrow> sre_token list \<Rightarrow> ustr option" where
  "sre_scan None [] = None"
| "sre_scan None [t] = (if t = (False, 91) then Some (asc ''unterminated character set'') else None)"
| "sre_scan None (t # u # ts) =
     (if t = (False, 91) then
        (if u = (False, 94) then sre_scan (Some False) ts else sre_scan (Some False) (u # ts))
      else sre_scan None (u # ts))"
| "sre_scan (Some nonempty) [] = Some (asc ''unterminated character set'')"
| "sre_scan (Some nonempty) [this] =
     (if this = (False, 93) \<and> nonempty then None else Some (asc ''unterminated character set''))"
| "sre_scan (Some nonempty) [this, dash] =
     (if this = (False, 93) \<and> nonempty then sre_scan None [dash]
      else if dash = (False, 45) then Some (asc ''unterminated character set'')
      else sre_scan (Some True) [dash])"
| "sre_scan (Some nonempty) (this # dash # that # ts) =
     (if this = (False, 93) \<and> nonempty then sre_scan None (dash # that # ts)
      else if dash = (False, 45) then
        (if that = (False, 93) then sre_scan None ts
         else (case (class_code this, class_code that) of
                 (Literal lo, Literal hi) \<Rightarrow>
                   if hi < lo then Some (bad_range this that) else sre_scan (Some True) ts
               | (Unknown, _) \<Rightarrow> None
               | (_, Unknown) \<Rightarrow> None
               | _ \<Rightarrow> Some (bad_range this that)))
      else sre_scan (Some True) (dash # that # ts))"

definition sre_range_error :: "ustr \<Rightarrow> ustr option" where
  "sre_range_error pattern = sre_scan None (sre_tokens pattern)"

text \<open>\<open>re.search(pattern, text)\<close> with the pattern given as a text: the pattern is compiled
  first, and \<open>Raised\<close> is the \<open>re.error\<close> of a bad character range.\<close>

definition re_search_text :: "crawl_lib \<Rightarrow> ustr \<Rightarrow> ustr \<Rightarrow> ustr list option outcome" where
  "re_search_text lib pattern text =
     (case sre_range_error pattern of
        Some e \<Rightarrow> Raised e
      | None \<Rightarrow> Returned (re_search lib pattern text))"


subsection \<open>Reading a time\<close>

text \<open>The loop \<open>for f in fmts: try: dt = datetime.strptime(s, f) ... except Exception: continue\<close>.\<close>

fun first_strptime :: "crawl_lib \<Rightarrow> ustr \<Rightarrow> ustr list \<Rightarrow> datetime option" where
  "first_strptime lib s [] = None"
| "first_strptime lib s (f # fs) =
     (case strptime_dt lib s f of Some dt \<Rightarrow> Some dt | None \<Rightarrow> first_strptime lib s fs)"

text \<open>A timestamp of 10 to 13 digits, in seconds when it has 10 digits and in milliseconds
  otherwise; \<open>None\<close> when the conversion raises.\<close>

definition timestamp_dt :: "crawl_lib \<Rightarrow> ustr \<Rightarrow> datetime option" where
  "timestamp_dt lib s =
     (case int_of lib (take 13 s) of
        None \<Rightarrow> None
      | Some ts \<Rightarrow> from_timestamp_ms lib (if length s = 10 then ts * 1000 else ts))"

text \<open>
  \<open>_parse_any_dt_cn\<close>. The first argument after the library counts the nested calls that
  are still allowed: the function calls itself on the date that its last pattern finds in
  the text, and when that is the whole text again (as for \<open>2025-08-12T10:30:00\<close>, which no
  format reads) the calls nest until the interpreter raises \<open>RecursionError\<close>.
\<close>

fun parse_any_dt_cn :: "crawl_lib \<Rightarrow> nat \<Rightarrow> ustr \<Rightarrow> datetime option outcome" where
  "parse_any_dt_cn lib 0 s = Raised (recursion_error lib)"
| "parse_any_dt_cn lib (Suc depth) s =
     (if s = [] then Returned None
      else
        (let s1 = re_sub lib prefix_pattern [] (py_strip s)
         in case first_strptime lib s1 dt_formats of
              Some dt \<Rightarrow> Returned (Some dt)
            | None \<Rightarrow>
                if re_fullmatch lib timestamp_pattern s1 then Returned (timestamp_dt lib s1)
                else (case re_search lib any_date_pattern s1 of
                        Some (g # gs) \<Rightarrow> parse_any_dt_cn lib depth g
                      | _ \<Rightarrow> Returned None)))"

text \<open>\<open>datetime(y, mo, d, 0, 0, tzinfo=CHINA_TZ).strftime("%Y-%m-%d %H:%M")\<close> of the three groups
  of a match in a URL; \<open>None\<close> when a step raises.\<close>

definition url_date_text :: "crawl_lib \<Rightarrow> ustr list \<Rightarrow> ustr option" where
  "url_date_text lib groups =
     (case groups of
        [y, mo, d] \<Rightarrow>
          (case (int_of lib y, int_of lib mo, int_of lib d) of
             (Some y', Some mo', Some d') \<Rightarrow>
               (case mk_date y' mo' d' of
                  Some dt \<Rightarrow> Some (strftime_minute \<lparr>dt_date = dt, dt_hour = 0, dt_minute = 0\<rparr>)
                | None \<Rightarrow> None)
           | _ \<Rightarrow> None)
      | _ \<Rightarrow> None)"

text \<open>\<open>_parse_dt_from_url\<close>.\<close>

definition parse_dt_from_url :: "crawl_lib \<Rightarrow> ustr \<Rightarrow> ustr option" where
  "parse_dt_from_url lib url =
     (if url = [] then None
      else (case re_search lib url_dt_dash_pattern url of
              Some groups \<Rightarrow> url_date_text lib groups
            | None \<Rightarrow>
                (case re_search lib url_dt_compact_pattern url of
                   Some groups \<Rightarrow> url_date_text lib groups
                 | None \<Rightarrow> None)))"

text \<open>One step of \<open>_infer_relative_time\<close>: the number found by a pattern, taken as so many
  units of the given number of minutes before \<open>base\<close>. \<open>None\<close> is no match; \<open>Raised\<close> is the
  \<open>ValueError\<close> of \<open>int\<close> or the \<open>OverflowError\<close> of the subtraction.\<close>

definition relative_step :: "crawl_lib \<Rightarrow> ustr \<Rightarrow> nat \<Rightarrow> ustr \<Rightarrow> datetime \<Rightarrow> ustr outcome option" where
  "relative_step lib pattern unit text base =
     (case re_search lib pattern text of
        Some (g # gs) \<Rightarrow>
          if g = [] then None
          else Some (case int_of lib g of
                       None \<Rightarrow> Raised (asc ''ValueError'')
                     | Some n \<Rightarrow>
                         (case dt_minus_minutes base (n * unit) of
                            None \<Rightarrow> Raised (asc ''OverflowError'')
                          | Some dt \<Rightarrow> Returned (strftime_minute dt)))
      | _ \<Rightarrow> None)"

text \<open>\<open>_infer_relative_time\<close>: minutes, hours, days, months of 30 days.\<close>

definition infer_relative_time :: "crawl_lib \<Rightarrow> ustr \<Rightarrow> datetime \<Rightarrow> ustr option outcome" where
  "infer_relative_time lib text ref_dt =
     (if text = [] then Returned None
      else
        (let base = (case astimezone_china lib ref_dt of Some b \<Rightarrow> b | None \<Rightarrow> now_china lib);
             found =
               (case relative_step lib rel_min_pattern 1 text base of
                  Some r \<Rightarrow> Some r
                | None \<Rightarrow>
                    (case relative_step lib rel_hour_pattern 60 text base of
                       Some r \<Rightarrow> Some r
                     | None \<Rightarrow>
                         (case relative_step lib rel_day_pattern 1440 text base of
                            Some r \<Rightarrow> Some r
                          | None \<Rightarrow> relative_step lib rel_month_pattern (30 * 1440) text base)))
         in case found of
              None \<Rightarrow> Returned None
            | Some (Raised e) \<Rightarrow> Raised e
            | Some (Returned t) \<Rightarrow> Returned (Some t)))"

subsection \<open>The time of an article\<close>

text \<open>
  Step 1 of \<open>_extract_publish_time_and_text\<close>, the loop over \<open>TIME_KEYS\<close> on the document
  that the crawl extracted: the first key whose value is a text that \<open>_parse_any_dt_cn\<close>
  reads gives the time. An exception (a value that is not a text, a \<open>RecursionError\<close>) ends
  the loop without a time. The result is \<open>published_at\<close>, empty when no time was found.
\<close>

fun schema_loop :: "crawl_lib \<Rightarrow> (ustr \<times> json) list \<Rightarrow> ustr list \<Rightarrow> ustr" where
  "schema_loop lib data [] = []"
| "schema_loop lib data (k # ks) =
     (case dict_get data k of
        None \<Rightarrow> schema_loop lib data ks
      | Some v \<Rightarrow>
          if \<not> py_truthy v then schema_loop lib data ks
          else (case v of
                  JStr s \<Rightarrow>
                    (let val = py_strip s
                     in if val = [] then schema_loop lib data ks
                        else (case parse_any_dt_cn lib (recursion_limit lib) val of
                                Raised e \<Rightarrow> []
                              | Returned None \<Rightarrow> schema_loop lib data ks
                              | Returned (Some dt) \<Rightarrow> strftime_minute dt))
                | _ \<Rightarrow> []))"

definition schema_published_at :: "json_lib \<Rightarrow> crawl_lib \<Rightarrow> crawl_result \<Rightarrow> ustr" where
  "schema_published_at jl lib r =
     (case cr_extracted_content r of
        None \<Rightarrow> []
      | Some text \<Rightarrow>
          if cr_success r \<and> text \<noteq> [] then
            (case loads jl text of
               None \<Rightarrow> []
             | Some doc \<Rightarrow>
                 if py_truthy doc
                 then (case doc of JObj data \<Rightarrow> schema_loop lib data TIME_KEYS | _ \<Rightarrow> [])
                 else [])
          else [])"

text \<open>The text in which step 3 searches: the markdown of the page, or its HTML with the tags
  replaced by spaces.\<close>

definition page_md :: "crawl_lib \<Rightarrow> crawl_result \<Rightarrow> ustr" where
  "page_md lib r =
     (let md = py_strip (cr_markdown r)
      in if md = [] \<and> cr_cleaned_html r \<noteq> []
         then re_sub lib (asc ''<[^>]+>'') (asc '' '') (cr_cleaned_html r)
         else md)"

text \<open>Step 3, the date in the visible text; every exception of the step is passed over.\<close>

definition visible_published_at :: "crawl_lib \<Rightarrow> ustr \<Rightarrow> ustr" where
  "visible_published_at lib raw_text =
     (case re_search_text lib visible_date_pattern raw_text of
        Raised e \<Rightarrow> []
      | Returned None \<Rightarrow> []
      | Returned (Some []) \<Rightarrow> []
      | Returned (Some (g # gs)) \<Rightarrow>
          (case parse_any_dt_cn lib (recursion_limit lib) g of
             Returned (Some dt) \<Rightarrow> strftime_minute dt
           | _ \<Rightarrow> []))"

text \<open>Steps 1, 3 and 4 on the result of a crawl. Step 2 computes \<open>page_text\<close>, which no
  step that sets \<open>published_at\<close> reads; it is taken to return.\<close>

definition published_at_of_result :: "json_lib \<Rightarrow> crawl_lib \<Rightarrow> ustr \<Rightarrow> crawl_result \<Rightarrow> ustr" where
  "published_at_of_result jl lib url r =
     (let p1 = schema_published_at jl lib r;
          p3 = (if p1 = [] then visible_published_at lib (page_md lib r) else p1)
      in if p3 = [] then (case parse_dt_from_url lib url of Some url_dt \<Rightarrow> url_dt | None \<Rightarrow> [])
         else p3)"

text \<open>\<open>_normalize_article_url\<close> rewrites the URLs of one domain; its pattern and the rewriting
  are in the library parameter \<open>re_search\<close>: the group of a match is the article id.\<close>

definition dy163_pattern :: ustr where
  "dy163_pattern =
     [94] @ asc ''https?://dy'' @ [92] @ asc ''.163'' @ [92] @ asc ''.com/article/([A-Za-z0-9]+)''
     @ [92] @ asc ''.html''"

definition normalize_article_url :: "crawl_lib \<Rightarrow> ustr \<Rightarrow> ustr" where
  "normalize_article_url lib u =
     (if u = [] then u
      else (case re_search lib dy163_pattern u of
              Some (g # gs) \<Rightarrow> asc ''https://www.163.com/dy/article/'' @ g @ asc ''.html''
            | _ \<Rightarrow> u))"

text \<open>
  \<open>_extract_publish_time_and_text\<close>, its component \<open>published_at\<close>: the crawl is tried
  \<open>max_retries\<close> times, and the result of the first attempt that does not raise is used;
  the time is empty when the URL is empty or every attempt raises.
\<close>

fun extract_attempts :: "json_lib \<Rightarrow> crawl_lib \<Rightarrow> ustr \<Rightarrow> nat \<Rightarrow> nat \<Rightarrow> ustr" where
  "extract_attempts jl lib url attempt 0 = []"
| "extract_attempts jl lib url attempt (Suc n) =
     (case arun lib (normalize_article_url lib url) attempt of
        Returned r \<Rightarrow> published_at_of_result jl lib url r
      | Raised e \<Rightarrow> extract_attempts jl lib url (Suc attempt) n)"

definition extract_publish_time :: "json_lib \<Rightarrow> crawl_lib \<Rightarrow> ustr \<Rightarrow> ustr" where
  "extract_publish_time jl lib url = (if url = [] then [] else extract_attempts jl lib url 0 2)"

text \<open>
  The time of an item in \<open>_process_news_with_crawl4ai\<close>: the item is created with the date
  of its URL, the time found on the article page replaces it, and an item still without a
  time gets the date of its URL, then the relative time of its snippet and title.
\<close>

record news_item =
  it_title :: ustr
  it_snippet :: ustr
  it_url :: ustr

definition item_published_at ::
  "json_lib \<Rightarrow> crawl_lib \<Rightarrow> datetime \<Rightarrow> news_item \<Rightarrow> ustr outcome" where
  "item_published_at jl lib end_dt it =
     (let prelim_pt = (case parse_dt_from_url lib (it_url it) of Some t \<Rightarrow> t | None \<Rightarrow> []);
          pub = extract_publish_time jl lib (it_url it);
          p1 = (if pub \<noteq> [] then pub else prelim_pt);
          p2 = (if p1 = []
                then (case parse_dt_from_url lib (it_url it) of Some url_dt \<Rightarrow> url_dt | None \<Rightarrow> p1)
                else p1)
      in if p2 = [] then
           (case infer_relative_time lib (it_snippet it @ asc '' '' @ it_title it) end_dt of
              Raised e \<Rightarrow> Raised e
            | Returned (Some rel) \<Rightarrow> Returned rel
            | Returned None \<Rightarrow> Returned p2)
         else Returned p2)"


subsection \<open>The date in the visible text is never read\<close>

lemma visible_date_pattern_error:
  "sre_range_error visible_date_pattern = Some (asc ''bad character range '' @ [92, 92, 45, 47])"
  by (simp add: sre_range_error_def visible_date_pattern_def class_code_def bad_range_def
      token_text_def asc_def)

lemma url_patterns_compile:
  "sre_range_error url_dt_dash_pattern = None"
  "sre_range_error url_dt_compact_pattern = None"
  "sre_range_error any_date_pattern = None"
  by (simp_all add: sre_range_error_def url_dt_dash_pattern_def url_dt_compact_pattern_def
      any_date_pattern_def class_code_def asc_def)

lemma visible_published_at_empty: "visible_published_at lib raw_text = []"
  by (simp add: visible_published_at_def re_search_text_def visible_date_pattern_error)

lemma published_at_of_result_eq:
  "published_at_of_result jl lib url r =
     (if schema_published_at jl lib r \<noteq> [] then schema_published_at jl lib r
      else (case parse_dt_from_url lib url of Some url_dt \<Rightarrow> url_dt | None \<Rightarrow> []))"
  by (simp add: published_at_of_result_def Let_def visible_published_at_empty)

text \<open>
  An article page without schema fields, whose text starts with the date
  \<open>2025-08-12 10:30\<close>, at a URL with the date \<open>/2025/08/10/\<close>; the snippet of the item says
  \<open>3 <U+5929><U+524D>\<close> (3 days ago). The library of the example finds the date of the text
  when it is asked to search it with the pattern of the visible text.
\<close>

definition sample_article_url :: ustr where
  "sample_article_url = asc ''https://finance.example.cn/2025/08/10/a1.html''"

definition sample_page_text :: ustr where
  "sample_page_text = asc ''2025-08-12 10:30 '' @ [26469, 28304, 65306, 36130, 32852, 31038]"

definition sample_page :: crawl_result where
  "sample_page =
     \<lparr>cr_success = True, cr_extracted_content = None, cr_markdown = sample_page_text,
      cr_cleaned_html = []\<rparr>"

definition sample_item :: news_item where
  "sample_item =
     \<lparr>it_title = [24179, 23433, 38134, 34892] @ asc '' Q2'',
      it_snippet = asc ''3 '' @ [22825, 21069],
      it_url = sample_article_url\<rparr>"

definition sample_end_dt :: datetime where
  "sample_end_dt = \<lparr>dt_date = \<lparr>year = 2025, month = 9, day = 14\<rparr>, dt_hour = 0, dt_minute = 0\<rparr>"

fun ascii_int :: "ustr \<Rightarrow> nat \<Rightarrow> nat option" where
  "ascii_int [] acc = Some acc"
| "ascii_int (c # cs) acc = (if is_digit c then ascii_int cs (acc * 10 + (c - 48)) else None)"

definition sample_crawl_lib :: crawl_lib where
  "sample_crawl_lib =
     \<lparr>re_search = (\<lambda>pattern text.
        if pattern = url_dt_dash_pattern \<and> text = sample_article_url
        then Some [asc ''2025'', asc ''08'', asc ''10'']
        else if pattern = visible_date_pattern \<and> text = sample_page_text
        then Some [asc ''2025-08-12 10:30'']
        else if pattern = rel_day_pattern \<and> text = it_snippet sample_item @ asc '' '' @ it_title sample_item
        then Some [asc ''3'']
        else None),
      re_sub = (\<lambda>pattern repl s. s),
      re_fullmatch = (\<lambda>pattern s. False),
      strptime_dt = (\<lambda>s f.
        if s = asc ''2025-08-12 10:30'' \<and> f = asc ''%Y-%m-%d %H:%M''
        then Some \<lparr>dt_date = \<lparr>year = 2025, month = 8, day = 12\<rparr>, dt_hour = 10, dt_minute = 30\<rparr>
        else None),
      int_of = (\<lambda>s. if s = [] then None else ascii_int s 0),
      from_timestamp_ms = (\<lambda>ts. None),
      astimezone_china = Some,
      now_china = sample_end_dt,
      arun = (\<lambda>url attempt. Returned sample_page),
      recursion_limit = 900,
      recursion_error = asc ''maximum recursion depth exceeded''\<rparr>"

lemma sample_url_date:
  "parse_dt_from_url sample_crawl_lib sample_article_url = Some (asc ''2025-08-10 00:00'')"
  by (simp add: parse_dt_from_url_def sample_crawl_lib_def sample_article_url_def url_date_text_def
      mk_date_def days_in_month_def is_digit_def strftime_minute_def strftime_eval)

lemma sample_visible_date:
  "re_search sample_crawl_lib visible_date_pattern (page_md sample_crawl_lib sample_page)
     = Some [asc ''2025-08-12 10:30'']"
proof -
  have "py_strip sample_page_text = sample_page_text"
    by (simp add: py_strip_def sample_page_text_def py_isspace_def asc_def)
  then show ?thesis
    by (simp add: page_md_def sample_page_def sample_crawl_lib_def Let_def
        visible_date_pattern_def url_dt_dash_pattern_def)
qed

text \<open>
  C8 at the failing input. The search in the visible text raises for every library and every
  text, because its pattern does not compile, and the exception is passed over: the time of
  a page is the time of its schema fields, else the date of the URL. For the page of the
  example the item gets \<open>2025-08-10 00:00\<close>, the date of its URL, and not the
  \<open>2025-08-12 10:30\<close> of its text.
\<close>

theorem visible_date_is_skipped:
  "re_search_text lib visible_date_pattern raw_text
     = Raised (asc ''bad character range '' @ [92, 92, 45, 47])
   \<and> visible_published_at lib raw_text = []
   \<and> published_at_of_result jl lib url r =
       (if schema_published_at jl lib r \<noteq> [] then schema_published_at jl lib r
        else (case parse_dt_from_url lib url of Some url_dt \<Rightarrow> url_dt | None \<Rightarrow> []))
   \<and> schema_published_at sample_lib sample_crawl_lib sample_page = []
   \<and> re_search sample_crawl_lib visible_date_pattern (page_md sample_crawl_lib sample_page)
       = Some [asc ''2025-08-12 10:30'']
   \<and> item_published_at sample_lib sample_crawl_lib sample_end_dt sample_item
       = Returned (asc ''2025-08-10 00:00'')"
proof -
  have s: "schema_published_at sample_lib sample_crawl_lib sample_page = []"
    by (simp add: schema_published_at_def sample_page_def)
  have u: "sample_article_url \<noteq> []"
    by (simp add: sample_article_url_def asc_def)
  have e: "extract_publish_time sample_lib sample_crawl_lib sample_article_url = asc ''2025-08-10 00:00''"
  proof -
    have a: "arun sample_crawl_lib x n = Returned sample_page" for x n
      by (simp add: sample_crawl_lib_def)
    show ?thesis
      using u
      by (simp add: extract_publish_time_def numeral_2_eq_2 a published_at_of_result_eq s
          sample_url_date)
  qed
  have ne: "asc ''2025-08-10 00:00'' \<noteq> []" by (simp add: asc_def)
  have i: "item_published_at sample_lib sample_crawl_lib sample_end_dt sample_item
             = Returned (asc ''2025-08-10 00:00'')"
    using ne by (simp add: item_published_at_def Let_def sample_item_def e sample_url_date)
  show ?thesis
    by (simp add: re_search_text_def visible_date_pattern_error visible_published_at_empty
        published_at_of_result_eq s sample_visible_date i)
qed


end
